theory Spec2Isabelle
  imports
    Main
    "HOL-Library.Char_ord"
    "HOL-Library.List_Lexorder"
    "HOL-Library.AList"
begin

section \<open>Python values and exceptions of \<^verbatim>\<open>shelley_tools.py\<close>\<close>

text \<open>
  The module raises \<^verbatim>\<open>ShelleyError(message)\<close> for the failures it classifies itself; every
  other exception that can escape (an \<^verbatim>\<open>IndexError\<close> of a list access, a \<^verbatim>\<open>ValueError\<close> of
  \<^verbatim>\<open>int(...)\<close>, a \<^verbatim>\<open>TypeError\<close> of \<^verbatim>\<open>zip(xs, None)\<close>, an \<^verbatim>\<open>OverflowError\<close> of a float
  format, an \<^verbatim>\<open>UnboundLocalError\<close> of a variable read before its first assignment) is a
  built-in Python exception. The messages of \<^verbatim>\<open>ShelleyError\<close> are kept as
  constructors that carry the values the message is formatted from (amounts in Lovelace; the
  source prints them divided by 1,000,000, a division taken not to overflow a double).
\<close>

datatype shelley_error =
    TipQueryFailed string
  | EmptyAccount string
  | NoAda string
  | InsufficientFunds string int int
  | DustChange string int int int
  | InvalidRequiredSignatures
  | UnableToSign string
  | UnableToSubmit string
  | RewardsQueryFailed string
  | NoRewards string
  | CannotEmpty string string int int

datatype error =
    ShelleyError shelley_error
  | IndexError
  | ValueError
  | TypeError
  | OverflowError
  | UnboundLocalError

text \<open>The \<^verbatim>\<open>Result(stdout, stderr)\<close> named tuple that \<^verbatim>\<open>run_cli\<close> returns (both stripped).\<close>

record cli_result =
  stdout :: string
  stderr :: string

subsection \<open>String primitives\<close>

text \<open>\<^verbatim>\<open>s.split("\n")\<close>: split at every line feed; the result is never empty.\<close>

fun split_sep :: "char \<Rightarrow> string \<Rightarrow> string \<Rightarrow> string list" where
  "split_sep sep cur [] = [cur]"
| "split_sep sep cur (c # cs) =
     (if c = sep then cur # split_sep sep [] cs else split_sep sep (cur @ [c]) cs)"

definition split_lines :: "string \<Rightarrow> string list" where
  "split_lines s = split_sep (CHR 0x0A) [] s"

text \<open>
  \<^verbatim>\<open>s.split()\<close>: split at runs of white space and drop empty pieces. The white space is that
  of the ASCII range (tab, line feed, vertical tab, form feed, carriage return, the four
  separators 0x1C to 0x1F, space).
\<close>

definition is_space :: "char \<Rightarrow> bool" where
  "is_space c \<longleftrightarrow>
     c \<in> set [CHR 0x09, CHR 0x0A, CHR 0x0B, CHR 0x0C, CHR 0x0D,
              CHR 0x1C, CHR 0x1D, CHR 0x1E, CHR 0x1F, CHR 0x20]"

fun split_ws :: "string \<Rightarrow> string \<Rightarrow> string list" where
  "split_ws cur [] = (if cur = [] then [] else [cur])"
| "split_ws cur (c # cs) =
     (if is_space c then (if cur = [] then split_ws [] cs else cur # split_ws [] cs)
      else split_ws (cur @ [c]) cs)"

definition str_split :: "string \<Rightarrow> string list" where
  "str_split s = split_ws [] s"

text \<open>
  \<^verbatim>\<open>int(s)\<close> on a token without white space: an optional sign, then decimal digits, where
  single underscores may stand between digits; anything else is a \<^verbatim>\<open>ValueError\<close>.
\<close>

definition digit_of :: "char \<Rightarrow> nat option" where
  "digit_of c = map_of (zip ''0123456789'' [0, 1, 2, 3, 4, 5, 6, 7, 8, 9]) c"

fun py_digits :: "bool \<Rightarrow> nat \<Rightarrow> string \<Rightarrow> nat option" where
  "py_digits prev acc [] = (if prev then Some acc else None)"
| "py_digits prev acc (c # cs) =
     (case digit_of c of
        Some d \<Rightarrow> py_digits True (10 * acc + d) cs
      | None \<Rightarrow> if c = CHR ''_'' \<and> prev \<and> cs \<noteq> [] then py_digits False acc cs else None)"

definition py_int :: "string \<Rightarrow> error + int" where
  "py_int s =
     (case s of
        [] \<Rightarrow> Inl ValueError
      | c # cs \<Rightarrow>
          if c = CHR ''-'' then
            (case py_digits False 0 cs of None \<Rightarrow> Inl ValueError | Some n \<Rightarrow> Inr (- int n))
          else if c = CHR ''+'' then
            (case py_digits False 0 cs of None \<Rightarrow> Inl ValueError | Some n \<Rightarrow> Inr (int n))
          else
            (case py_digits False 0 s of None \<Rightarrow> Inl ValueError | Some n \<Rightarrow> Inr (int n)))"

section \<open>The UTXO accessor: \<^verbatim>\<open>get_utxos\<close>\<close>

text \<open>
  \<^verbatim>\<open>get_utxos\<close> builds one dict per row with the keys \<^verbatim>\<open>"TxHash"\<close>, \<^verbatim>\<open>"TxIx"\<close>,
  \<^verbatim>\<open>"Lovelace"\<close> and one further key per asset. The three keys every dict has are the fields
  of the record; the further keys are an association list in insertion order. All values
  are the strings of the row: nothing is converted to a number here.
\<close>

record utxo =
  TxHash :: string
  TxIx :: string
  Lovelace :: string
  assets :: "(string \<times> string) list"

text \<open>\<^verbatim>\<open>key in utxo_dict\<close> and \<^verbatim>\<open>len(utxo.keys())\<close>.\<close>

definition has_key :: "utxo \<Rightarrow> string \<Rightarrow> bool" where
  "has_key u k \<longleftrightarrow>
     k = ''TxHash'' \<or> k = ''TxIx'' \<or> k = ''Lovelace'' \<or> map_of (assets u) k \<noteq> None"

definition n_keys :: "utxo \<Rightarrow> nat" where
  "n_keys u = 3 + length (assets u)"

text \<open>
  The body of the \<^verbatim>\<open>try\<close> for one \<^verbatim>\<open>"+"\<close> at index \<open>i\<close>: \<^verbatim>\<open>asset = vals[i + 2]\<close>,
  \<^verbatim>\<open>amt = vals[i + 1]\<close>, then \<^verbatim>\<open>utxo_dict[asset] += amt\<close> (string concatenation) when the
  key exists and \<^verbatim>\<open>utxo_dict[asset] = amt\<close> otherwise. When \<^verbatim>\<open>vals[i + 2]\<close> is out of range
  the bare \<^verbatim>\<open>except\<close> prints a line and the group is skipped. The second component collects
  the printed lines.
\<close>

definition add_extra :: "string list \<Rightarrow> nat \<Rightarrow> utxo \<times> string list \<Rightarrow> utxo \<times> string list" where
  "add_extra vals i acc =
     (case acc of (u, out) \<Rightarrow>
        if i + 2 < length vals then
          (let asset = vals ! (i + 2); amt = vals ! (i + 1) in
             if asset = ''TxHash'' then (u\<lparr>TxHash := TxHash u @ amt\<rparr>, out)
             else if asset = ''TxIx'' then (u\<lparr>TxIx := TxIx u @ amt\<rparr>, out)
             else if asset = ''Lovelace'' then (u\<lparr>Lovelace := Lovelace u @ amt\<rparr>, out)
             else
               (case map_of (assets u) asset of
                  Some old \<Rightarrow> (u\<lparr>assets := AList.update asset (old @ amt) (assets u)\<rparr>, out)
                | None \<Rightarrow> (u\<lparr>assets := AList.update asset amt (assets u)\<rparr>, out)))
        else (u, out @ [''skipping alonzo extra datum'']))"

text \<open>One row: \<^verbatim>\<open>vals[0]\<close>, \<^verbatim>\<open>vals[1]\<close>, \<^verbatim>\<open>vals[2]\<close> raise \<^verbatim>\<open>IndexError\<close> on a short row.\<close>

definition parse_utxo_line :: "string \<Rightarrow> error + (utxo \<times> string list)" where
  "parse_utxo_line utxo_line =
     (let vals = str_split utxo_line in
        if length vals < 3 then Inl IndexError
        else
          (let utxo_dict = \<lparr>TxHash = vals ! 0, TxIx = vals ! 1, Lovelace = vals ! 2, assets = []\<rparr>;
               extra = filter (\<lambda>i. vals ! i = ''+'') [0 ..< length vals]
           in Inr (fold (add_extra vals) extra (utxo_dict, []))))"

text \<open>The loop over the rows; the lines printed before a failing row stay printed.\<close>

fun parse_utxos :: "string list \<Rightarrow> (error + utxo list) \<times> string list" where
  "parse_utxos [] = (Inr [], [])"
| "parse_utxos (l # ls) =
     (case parse_utxo_line l of
        Inl e \<Rightarrow> (Inl e, [])
      | Inr (u, out) \<Rightarrow>
          (case parse_utxos ls of
             (Inl e, out') \<Rightarrow> (Inl e, out @ out')
           | (Inr us, out') \<Rightarrow> (Inr (u # us), out @ out')))"

definition filter_utxos :: "string option \<Rightarrow> utxo list \<Rightarrow> utxo list" where
  "filter_utxos flt utxos =
     (case flt of
        None \<Rightarrow> utxos
      | Some f \<Rightarrow>
          if f = ''Lovelace'' then filter (\<lambda>u. has_key u f \<and> n_keys u = 3) utxos
          else filter (\<lambda>u. has_key u f) utxos)"

text \<open>
  From the result of the query to the returned list: the first two lines (the table's
  header) are dropped. \<^verbatim>\<open>result.stderr\<close> is never read.
\<close>

definition utxos_of_result :: "cli_result \<Rightarrow> string option \<Rightarrow> (error + utxo list) \<times> string list" where
  "utxos_of_result result flt =
     (let raw_utxos = drop 2 (split_lines (stdout result)) in
        case parse_utxos raw_utxos of
          (Inl e, out) \<Rightarrow> (Inl e, out)
        | (Inr utxos, out) \<Rightarrow> (Inr (filter_utxos flt utxos), out))"

text \<open>
  \<^verbatim>\<open>utxos.sort(key=lambda k: k["Lovelace"], reverse=True)\<close>: the key is the string of the
  row, so the comparison is Python's string order (lexicographic by character). A sort with
  \<^verbatim>\<open>reverse=True\<close> reverses the list, sorts it stably in ascending order and reverses the
  result, which keeps elements with equal keys in their original order.
\<close>

definition sort_utxos :: "utxo list \<Rightarrow> utxo list" where
  "sort_utxos utxos = rev (sort_key Lovelace (rev utxos))"

section \<open>The node interface and the object's state\<close>

text \<open>
  The protocol parameters document (decoded JSON); the fields are the keys the module
  reads.
\<close>

record protocol_params =
  minUTxOValue :: int
  stakeAddressDeposit :: int
  eMax :: int

text \<open>
  A transaction body as \<^verbatim>\<open>transaction build-raw\<close> is asked to build it: the
  \<^verbatim>\<open>--tx-in hash#ix\<close> arguments in order, the \<^verbatim>\<open>--tx-out addr+amount\<close> arguments in order,
  \<^verbatim>\<open>--ttl\<close>, \<^verbatim>\<open>--fee\<close>, the \<^verbatim>\<open>--certificate-file\<close> arguments and the
  \<^verbatim>\<open>--withdrawal addr+amount\<close> argument, which only \<^verbatim>\<open>claim_staking_rewards\<close> passes.
\<close>

record tx_body =
  tx_in :: "(string \<times> string) list"
  tx_out :: "(string \<times> int) list"
  ttl :: int
  fee :: int
  certificate_files :: "string list"
  withdrawal :: "(string \<times> int) option"

text \<open>A file path \<^verbatim>\<open>folder / (stem + suffix)\<close>; the stems built here hold no dot or slash.\<close>

record path =
  folder :: string
  stem :: string
  suffix :: string

text \<open>What \<^verbatim>\<open>query tip\<close> answers: a JSON document with a slot, or an output without
  \<^verbatim>\<open>"slot"\<close> (then \<^verbatim>\<open>get_tip\<close> raises with the error stream).\<close>

datatype tip_answer = Tip int | NoSlot string

text \<open>
  The external collaborators, as the answers they give. The node's parameters may differ
  from one query to the next, so the answer depends on how many queries were made before.
  \<^verbatim>\<open>calculate_min_fee\<close> is the standard output of \<^verbatim>\<open>transaction calculate-min-fee\<close> for the
  parameters file, the draft body and the four counts; \<^verbatim>\<open>sign\<close> and \<^verbatim>\<open>submit\<close> are the
  error streams of the two commands; \<^verbatim>\<open>timestamp\<close> is \<^verbatim>\<open>datetime.now()\<close> formatted with
  \<^verbatim>\<open>%Y-%m-%d_%Hh%Mm%Ss\<close>; \<^verbatim>\<open>query_stake_address_info\<close> is the result of
  \<^verbatim>\<open>query stake-address-info\<close> together with the \<^verbatim>\<open>rewardAccountBalance\<close> entries of the
  document on its standard output. The parameters query is taken to answer a well-formed document
  holding the three keys, and writing and removing files to succeed; every other way the
  embedded functions raise is a branch of their definitions.
\<close>

record node =
  query_protocol_parameters :: "nat \<Rightarrow> protocol_params"
  query_utxo :: "string \<Rightarrow> cli_result"
  query_tip :: tip_answer
  calculate_min_fee :: "protocol_params \<Rightarrow> tx_body \<Rightarrow> nat \<Rightarrow> nat \<Rightarrow> nat \<Rightarrow> nat \<Rightarrow> string"
  sign :: "path \<Rightarrow> string list \<Rightarrow> string"
  submit :: "string \<Rightarrow> string"
  timestamp :: string
  query_stake_address_info :: "string \<Rightarrow> cli_result \<times> int list"

text \<open>
  The \<^verbatim>\<open>ShelleyTools\<close> object together with a log of its effects: how many times the
  protocol parameters were queried, the lines printed, the files handed to
  \<^verbatim>\<open>transaction submit\<close> and the files removed, each in order.
\<close>

record shelley =
  working_dir :: string
  ttl_buffer :: int
  protocol_parameters :: "protocol_params option"
  param_queries :: nat
  printed :: "string list"
  submit_calls :: "string list"
  removed :: "string list"

definition load_protocol_parameters :: "node \<Rightarrow> shelley \<Rightarrow> protocol_params \<times> shelley" where
  "load_protocol_parameters nd s =
     (let json_data = query_protocol_parameters nd (param_queries s) in
        (json_data,
         s\<lparr>protocol_parameters := Some json_data, param_queries := Suc (param_queries s)\<rparr>))"

definition get_tip :: "node \<Rightarrow> error + int" where
  "get_tip nd =
     (case query_tip nd of
        NoSlot err \<Rightarrow> Inl (ShelleyError (TipQueryFailed err))
      | Tip slot \<Rightarrow> Inr slot)"

definition get_utxos :: "node \<Rightarrow> string \<Rightarrow> string option \<Rightarrow> shelley \<Rightarrow> (error + utxo list) \<times> shelley" where
  "get_utxos nd addr flt s =
     (case utxos_of_result (query_utxo nd addr) flt of
        (r, out) \<Rightarrow> (r, s\<lparr>printed := printed s @ out\<rparr>))"

text \<open>
  \<^verbatim>\<open>calc_min_fee\<close> loads the protocol parameters again on every call, hands the file it
  has just written to the command, and returns \<^verbatim>\<open>int(result.stdout.split()[0])\<close>.
\<close>

definition calc_min_fee ::
  "node \<Rightarrow> tx_body \<Rightarrow> nat \<Rightarrow> nat \<Rightarrow> nat \<Rightarrow> nat \<Rightarrow> shelley \<Rightarrow> (error + int) \<times> shelley" where
  "calc_min_fee nd tx_draft tx_in_count tx_out_count witness_count byron_witness_count s =
     (case load_protocol_parameters nd s of
        (params_file, s') \<Rightarrow>
          (case str_split (calculate_min_fee nd params_file tx_draft tx_in_count tx_out_count
                         witness_count byron_witness_count) of
             [] \<Rightarrow> (Inl IndexError, s')
           | w # _ \<Rightarrow> (py_int w, s')))"

definition cleanup_file :: "string \<Rightarrow> shelley \<Rightarrow> shelley" where
  "cleanup_file fpath s = s\<lparr>removed := removed s @ [fpath]\<rparr>"

definition path_str :: "path \<Rightarrow> string" where
  "path_str p = folder p @ ''/'' @ stem p @ suffix p"

subsection \<open>A \<^verbatim>\<open>for\<close> loop with one \<^verbatim>\<open>break\<close> at the end of its body\<close>

text \<open>
  Every selection loop of the module has the shape
  \<^verbatim>\<open>for idx, utxo in enumerate(utxos): body; if cond: break\<close>.
  \<open>body\<close> updates the loop's variables \<open>v\<close> and the object \<open>s\<close> and may raise; \<open>cond\<close>
  reads the variables. The variables after the loop are those of the last iteration run.
\<close>

fun for_break ::
  "('a \<Rightarrow> 'v \<Rightarrow> 's \<Rightarrow> (error + 'v) \<times> 's) \<Rightarrow> ('v \<Rightarrow> bool) \<Rightarrow> 'a list \<Rightarrow> 'v \<Rightarrow> 's \<Rightarrow> (error + 'v) \<times> 's" where
  "for_break body cond [] v s = (Inr v, s)"
| "for_break body cond (x # xs) v s =
     (case body x v s of
        (Inl e, s') \<Rightarrow> (Inl e, s')
      | (Inr v', s') \<Rightarrow> if cond v' then (Inr v', s') else for_break body cond xs v' s')"

text \<open>The variables the selection loops assign.\<close>

record loop_vars =
  utxo_count :: nat
  utxo_total :: int
  tx_in_str :: "(string \<times> string) list"
  min_fee :: int
  lovelaces_out :: int
  utxo_amt :: "int option"
  cost :: "int option"

section \<open>\<^verbatim>\<open>build_raw_transaction\<close>\<close>

text \<open>\<^verbatim>\<open>sys.maxsize\<close> of a 64-bit CPython.\<close>

definition sys_maxsize :: int where
  "sys_maxsize = 2 ^ 63 - 1"

text \<open>
  \<^verbatim>\<open>f"{amt:.0f}"\<close> of an integer converts it to a double (round to nearest, ties to even,
  \<^verbatim>\<open>OverflowError\<close> beyond the largest double) and prints that double without decimals. The
  result is the integer printed. \<open>mantissa_shift a\<close> is how many low bits do not fit 53 bits.
\<close>

function mantissa_shift :: "int \<Rightarrow> nat" where
  "mantissa_shift a = (if a < 2 ^ 53 then 0 else Suc (mantissa_shift (a div 2)))"
  by pat_completeness auto
termination
  by (relation "measure nat") auto

declare mantissa_shift.simps [simp del]

definition fmt_0f :: "int \<Rightarrow> error + int" where
  "fmt_0f amt =
     (let a = \<bar>amt\<bar>;
          e = mantissa_shift a;
          q = a div 2 ^ e;
          r = a mod 2 ^ e;
          q' = (if 2 * r > 2 ^ e \<or> (2 * r = 2 ^ e \<and> odd q) then q + 1 else q);
          m = q' * 2 ^ e
      in if m \<ge> 2 ^ 1024 then Inl OverflowError else Inr (sgn amt * m))"

text \<open>The loop that builds \<^verbatim>\<open>pymt_args\<close> over \<^verbatim>\<open>zip(receive_addrs, payments)\<close>.\<close>

fun pymt_args_of :: "(string \<times> int) list \<Rightarrow> error + (string \<times> int) list" where
  "pymt_args_of [] = Inr []"
| "pymt_args_of ((addr, amt) # rest) =
     (case fmt_0f amt of
        Inl e \<Rightarrow> Inl e
      | Inr a \<Rightarrow> (case pymt_args_of rest of Inl e \<Rightarrow> Inl e | Inr outs \<Rightarrow> Inr ((addr, a) # outs)))"

text \<open>
  Lines 983 to 988: nothing when \<^verbatim>\<open>receive_addrs\<close> is \<^verbatim>\<open>None\<close> or empty; \<^verbatim>\<open>zip\<close> raises
  \<^verbatim>\<open>TypeError\<close> when \<^verbatim>\<open>payments\<close> is \<^verbatim>\<open>None\<close>, and stops at the shorter list otherwise.
  The result is \<^verbatim>\<open>(pymt_args_zero, pymt_args)\<close>.
\<close>

definition payment_args ::
  "string list option \<Rightarrow> int list option \<Rightarrow> error + ((string \<times> int) list \<times> (string \<times> int) list)" where
  "payment_args receive_addrs payments =
     (case receive_addrs of
        None \<Rightarrow> Inr ([], [])
      | Some [] \<Rightarrow> Inr ([], [])
      | Some addrs \<Rightarrow>
          (case payments of
             None \<Rightarrow> Inl TypeError
           | Some pays \<Rightarrow>
               (case pymt_args_of (zip addrs pays) of
                  Inl e \<Rightarrow> Inl e
                | Inr outs \<Rightarrow> Inr (map (\<lambda>(addr, amt). (addr, 0)) (zip addrs pays), outs))))"

text \<open>Lines 978 to 980: \<^verbatim>\<open>sum(payments)\<close> when \<^verbatim>\<open>payments\<close> is a non-empty list, else 0.\<close>

definition total_payments_of :: "int list option \<Rightarrow> int" where
  "total_payments_of payments = (case payments of None \<Rightarrow> 0 | Some pays \<Rightarrow> sum_list pays)"

definition cert_args_of :: "string list option \<Rightarrow> string list" where
  "cert_args_of certs = (case certs of None \<Rightarrow> [] | Some cs \<Rightarrow> cs)"

text \<open>The body of the selection loop, lines 1011 to 1033.\<close>

definition brt_body ::
  "node \<Rightarrow> string \<Rightarrow> (string \<times> int) list \<Rightarrow> string list \<Rightarrow> nat \<Rightarrow> int \<Rightarrow> int \<Rightarrow>
   utxo \<Rightarrow> loop_vars \<Rightarrow> shelley \<Rightarrow> (error + loop_vars) \<times> shelley" where
  "brt_body nd payment_addr pymt_args_zero cert_args witness_count deposits total_payments
            utxo v s =
     (case py_int (Lovelace utxo) of
        Inl e \<Rightarrow> (Inl e, s)
      | Inr amount \<Rightarrow>
          (let count = Suc (utxo_count v);
               total = utxo_total v + amount;
               ins = tx_in_str v @ [(TxHash utxo, TxIx utxo)];
               tx_draft = \<lparr>tx_in = ins, tx_out = (payment_addr, 0) # pymt_args_zero,
                           ttl = 0, fee = 0, certificate_files = cert_args,
                           withdrawal = None\<rparr>
           in case calc_min_fee nd tx_draft count 1 witness_count 0 s of
                (Inl e, s') \<Rightarrow> (Inl e, s')
              | (Inr f, s') \<Rightarrow>
                  (let out = f + deposits + total_payments in
                     (Inr (v\<lparr>utxo_count := count, utxo_total := total, tx_in_str := ins,
                              min_fee := f, lovelaces_out := out,
                              utxo_amt := Some (total - out)\<rparr>), s'))))"

text \<open>Line 1034, the condition of the \<^verbatim>\<open>break\<close>.\<close>

definition brt_cond :: "int \<Rightarrow> loop_vars \<Rightarrow> bool" where
  "brt_cond min_utxo v \<longleftrightarrow>
     (case utxo_amt v of
        None \<Rightarrow> False
      | Some amt \<Rightarrow> utxo_total v > lovelaces_out v \<and> (amt > min_utxo \<or> amt = 0))"

text \<open>Lines 1006 to 1009, the variables before the loop.\<close>

definition brt_init :: loop_vars where
  "brt_init = \<lparr>utxo_count = 0, utxo_total = 0, tx_in_str = [], min_fee = 1,
               lovelaces_out = sys_maxsize, utxo_amt = None, cost = None\<rparr>"

definition selection_loop ::
  "node \<Rightarrow> string \<Rightarrow> (string \<times> int) list \<Rightarrow> string list \<Rightarrow> nat \<Rightarrow> int \<Rightarrow> int \<Rightarrow> int \<Rightarrow>
   utxo list \<Rightarrow> shelley \<Rightarrow> (error + loop_vars) \<times> shelley" where
  "selection_loop nd payment_addr pymt_args_zero cert_args witness_count deposits
                  total_payments min_utxo utxos s =
     for_break
       (brt_body nd payment_addr pymt_args_zero cert_args witness_count deposits total_payments)
       (brt_cond min_utxo) utxos brt_init s"

text \<open>Lines 1037 to 1085: the checks after the loop and the final body.\<close>

definition brt_finish ::
  "string \<Rightarrow> (string \<times> int) list \<Rightarrow> string list \<Rightarrow> int \<Rightarrow> int \<Rightarrow> bool \<Rightarrow> string \<Rightarrow>
   loop_vars \<Rightarrow> shelley \<Rightarrow> (error + (path \<times> tx_body)) \<times> shelley" where
  "brt_finish payment_addr pymt_args cert_args min_utxo ttl_val cleanup tx_name v s =
     (if utxo_total v < lovelaces_out v then
        (if lovelaces_out v = sys_maxsize then (Inl (ShelleyError (EmptyAccount payment_addr)), s)
         else (Inl (ShelleyError
                 (InsufficientFunds payment_addr (lovelaces_out v) (utxo_total v))), s))
      else
        (case utxo_amt v of
           None \<Rightarrow> (Inl UnboundLocalError, s)
         | Some amt \<Rightarrow>
             if amt \<noteq> 0 \<and> amt < min_utxo then
               (Inl (ShelleyError
                  (DustChange payment_addr (lovelaces_out v) (utxo_total v) min_utxo)), s)
             else
               (let utxo_str = (if amt = 0 then [] else [(payment_addr, amt)]);
                    tx_raw_file = \<lparr>folder = working_dir s, stem = tx_name, suffix = ''.raw''\<rparr>;
                    tx_draft_file = \<lparr>folder = working_dir s, stem = tx_name, suffix = ''.draft''\<rparr>;
                    body = \<lparr>tx_in = tx_in_str v, tx_out = utxo_str @ pymt_args,
                            ttl = ttl_val, fee = min_fee v, certificate_files = cert_args,
                            withdrawal = None\<rparr>;
                    s' = (if cleanup then cleanup_file (path_str tx_draft_file) s else s)
                in (Inr (tx_raw_file, body), s'))))"

definition build_raw_transaction ::
  "node \<Rightarrow> string \<Rightarrow> nat \<Rightarrow> string list option \<Rightarrow> int list option \<Rightarrow> string list option \<Rightarrow>
   int \<Rightarrow> bool \<Rightarrow> shelley \<Rightarrow> (error + (path \<times> tx_body)) \<times> shelley" where
  "build_raw_transaction nd payment_addr witness_count receive_addrs payments certs deposits
                         cleanup s =
     (let cert_args = cert_args_of certs;
          total_payments = total_payments_of payments
      in case payment_args receive_addrs payments of
           Inl e \<Rightarrow> (Inl e, s)
         | Inr (pymt_args_zero, pymt_args) \<Rightarrow>
             (case get_utxos nd payment_addr (Some ''Lovelace'') s of
                (Inl e, s1) \<Rightarrow> (Inl e, s1)
              | (Inr fetched, s1) \<Rightarrow>
                  (let utxos = sort_utxos fetched in
                     case get_tip nd of
                       Inl e \<Rightarrow> (Inl e, s1)
                     | Inr tip \<Rightarrow>
                         (let ttl_val = tip + ttl_buffer s1 in
                            case load_protocol_parameters nd s1 of
                              (params, s2) \<Rightarrow>
                                (let min_utxo = minUTxOValue params;
                                     tx_name = ''tx_'' @ timestamp nd
                                 in case selection_loop nd payment_addr pymt_args_zero cert_args
                                           witness_count deposits total_payments min_utxo utxos s2 of
                                      (Inl e, s3) \<Rightarrow> (Inl e, s3)
                                    | (Inr v, s3) \<Rightarrow>
                                        brt_finish payment_addr pymt_args cert_args min_utxo
                                          ttl_val cleanup tx_name v s3)))))"

section \<open>Signing, submitting and \<^verbatim>\<open>send_payment\<close>\<close>

text \<open>\<^verbatim>\<open>sign_transaction\<close>: a non-empty error stream raises; the result is
  \<^verbatim>\<open>Path(tx_file).stem + ".signed"\<close>.\<close>

definition sign_transaction :: "node \<Rightarrow> path \<Rightarrow> string list \<Rightarrow> shelley \<Rightarrow> (error + string) \<times> shelley" where
  "sign_transaction nd tx_file skeys s =
     (let tx_name = stem tx_file;
          tx_signed_file = tx_name @ ''.signed'';
          err = sign nd tx_file skeys
      in if err \<noteq> [] then (Inl (ShelleyError (UnableToSign err)), s)
         else (Inr tx_signed_file, s))"

text \<open>\<^verbatim>\<open>submit_transaction\<close>: the command is run, a non-empty error stream raises, and the
  signed file is removed on request. The function returns nothing.\<close>

definition submit_transaction :: "node \<Rightarrow> string \<Rightarrow> bool \<Rightarrow> shelley \<Rightarrow> (error + unit) \<times> shelley" where
  "submit_transaction nd signed_tx_file cleanup s =
     (let s1 = s\<lparr>submit_calls := submit_calls s @ [signed_tx_file]\<rparr>;
          err = submit nd signed_tx_file
      in if err \<noteq> [] then (Inl (ShelleyError (UnableToSubmit err)), s1)
         else (Inr (), if cleanup then cleanup_file signed_tx_file s1 else s1))"

text \<open>
  The last step of every operation with an \<^verbatim>\<open>offline\<close> flag (lines 395 to 399, 521 to
  525, 1456 to 1460, 1710 to 1714, 2030 to 2034, 2218 to 2222): submit, or print where the
  signed file is. The
  operations have no \<^verbatim>\<open>return\<close> statement, so the value they give back is \<^verbatim>\<open>None\<close>; the
  result type \<open>string option\<close> is Python's \<^verbatim>\<open>Optional[str]\<close>.
\<close>

definition submit_or_print :: "node \<Rightarrow> bool \<Rightarrow> bool \<Rightarrow> string \<Rightarrow> shelley \<Rightarrow> (error + string option) \<times> shelley" where
  "submit_or_print nd offline cleanup tx_signed_file s =
     (if \<not> offline then
        (case submit_transaction nd tx_signed_file cleanup s of
           (Inl e, s') \<Rightarrow> (Inl e, s')
         | (Inr _, s') \<Rightarrow> (Inr None, s'))
      else
        (Inr None,
         s\<lparr>printed := printed s @ [''Signed transaction file saved to: '' @ tx_signed_file]\<rparr>))"

text \<open>\<^verbatim>\<open>send_payment\<close>, for an amount that is a whole number of ADA.\<close>

definition send_payment ::
  "node \<Rightarrow> int \<Rightarrow> string \<Rightarrow> string \<Rightarrow> string \<Rightarrow> bool \<Rightarrow> bool \<Rightarrow> shelley \<Rightarrow>
   (error + string option) \<times> shelley" where
  "send_payment nd amt to_addr from_addr key_file offline cleanup s =
     (let payment = amt * 1000000 in
        case build_raw_transaction nd from_addr 1 (Some [to_addr]) (Some [payment]) None 0
               cleanup s of
          (Inl e, s1) \<Rightarrow> (Inl e, s1)
        | (Inr (tx_raw_file, body), s1) \<Rightarrow>
            (case sign_transaction nd tx_raw_file [key_file] s1 of
               (Inl e, s2) \<Rightarrow> (Inl e, s2)
             | (Inr tx_signed_file, s2) \<Rightarrow>
                 (let s3 = (if cleanup then cleanup_file (path_str tx_raw_file) s2 else s2)
                  in submit_or_print nd offline cleanup tx_signed_file s3)))"

section \<open>The certificate-paying variants of the selection loop\<close>

subsection \<open>\<^verbatim>\<open>register_stake_address\<close>\<close>

text \<open>
  Before the loop only \<^verbatim>\<open>utxo_total\<close> and \<^verbatim>\<open>tx_in_str\<close> are assigned; \<^verbatim>\<open>min_fee\<close> and
  \<^verbatim>\<open>cost\<close> are first assigned in the body, which \<open>cost = None\<close> records.
\<close>

definition rsa_init :: loop_vars where
  "rsa_init = \<lparr>utxo_count = 0, utxo_total = 0, tx_in_str = [], min_fee = 0,
               lovelaces_out = 0, utxo_amt = None, cost = None\<rparr>"

text \<open>Lines 466 to 484. The deposit is read from the object's field after
  \<^verbatim>\<open>calc_min_fee\<close> has stored the parameters it loaded.\<close>

definition rsa_body ::
  "node \<Rightarrow> string \<Rightarrow> string \<Rightarrow> utxo \<Rightarrow> loop_vars \<Rightarrow> shelley \<Rightarrow> (error + loop_vars) \<times> shelley" where
  "rsa_body nd addr stake_cert_path utxo v s =
     (case py_int (Lovelace utxo) of
        Inl e \<Rightarrow> (Inl e, s)
      | Inr amount \<Rightarrow>
          (let count = Suc (utxo_count v);
               total = utxo_total v + amount;
               ins = tx_in_str v @ [(TxHash utxo, TxIx utxo)];
               tx_draft = \<lparr>tx_in = ins, tx_out = [(addr, 0)], ttl = 0, fee = 0,
                           certificate_files = [stake_cert_path], withdrawal = None\<rparr>
           in case calc_min_fee nd tx_draft count 1 2 0 s of
                (Inl e, s') \<Rightarrow> (Inl e, s')
              | (Inr f, s') \<Rightarrow>
                  (case protocol_parameters s' of
                     None \<Rightarrow> (Inl TypeError, s')
                   | Some params \<Rightarrow>
                       (Inr (v\<lparr>utxo_count := count, utxo_total := total, tx_in_str := ins,
                                min_fee := f,
                                cost := Some (f + stakeAddressDeposit params)\<rparr>), s'))))"

text \<open>Line 485.\<close>

definition rsa_cond :: "loop_vars \<Rightarrow> bool" where
  "rsa_cond v \<longleftrightarrow> (case cost v of None \<Rightarrow> False | Some c \<Rightarrow> utxo_total v > c)"

text \<open>Lines 443 to 505: from the tip to the final body.\<close>

definition rsa_build ::
  "node \<Rightarrow> string \<Rightarrow> string \<Rightarrow> string \<Rightarrow> shelley \<Rightarrow> (error + (path \<times> tx_body)) \<times> shelley" where
  "rsa_build nd addr stake_cert_path tx_name s =
     (case get_tip nd of
        Inl e \<Rightarrow> (Inl e, s)
      | Inr tip \<Rightarrow>
          (let ttl_val = tip + ttl_buffer s in
             case get_utxos nd addr None s of
               (Inl e, s1) \<Rightarrow> (Inl e, s1)
             | (Inr fetched, s1) \<Rightarrow>
                 if length fetched < 1 then (Inl (ShelleyError (NoAda addr)), s1)
                 else
                   (let utxos = sort_utxos fetched in
                      case load_protocol_parameters nd s1 of
                        (params, s2) \<Rightarrow>
                          (case for_break (rsa_body nd addr stake_cert_path) rsa_cond utxos
                                  rsa_init s2 of
                             (Inl e, s3) \<Rightarrow> (Inl e, s3)
                           | (Inr v, s3) \<Rightarrow>
                               (case cost v of
                                  None \<Rightarrow> (Inl UnboundLocalError, s3)
                                | Some c \<Rightarrow>
                                    if utxo_total v < c then
                                      (Inl (ShelleyError
                                         (InsufficientFunds addr c (utxo_total v))), s3)
                                    else
                                      (Inr (\<lparr>folder = working_dir s3, stem = tx_name,
                                              suffix = ''.raw''\<rparr>,
                                            \<lparr>tx_in = tx_in_str v,
                                              tx_out = [(addr, utxo_total v - c)],
                                              ttl = ttl_val, fee = min_fee v,
                                              certificate_files = [stake_cert_path],
                                              withdrawal = None\<rparr>),
                                       s3))))))"

text \<open>
  Lines 507 to 525, shared word for word by the pool operations (lines 1442 to 1460 and
  1696 to 1714) and by \<^verbatim>\<open>claim_staking_rewards\<close> (lines 2016 to 2034): the body is signed with \<^verbatim>\<open>run_cli\<close> (its result is not read), the draft
  and raw files are removed on request, and the signed file is submitted or reported.
\<close>

definition sign_and_send ::
  "node \<Rightarrow> string \<Rightarrow> bool \<Rightarrow> bool \<Rightarrow> shelley \<Rightarrow> (error + string option) \<times> shelley" where
  "sign_and_send nd tx_name offline cleanup s =
     (let tx_draft_file = \<lparr>folder = working_dir s, stem = tx_name, suffix = ''.draft''\<rparr>;
          tx_raw_file = \<lparr>folder = working_dir s, stem = tx_name, suffix = ''.raw''\<rparr>;
          tx_signed_file = path_str \<lparr>folder = working_dir s, stem = tx_name, suffix = ''.signed''\<rparr>;
          s' = (if cleanup then
                  cleanup_file (path_str tx_raw_file) (cleanup_file (path_str tx_draft_file) s)
                else s)
      in submit_or_print nd offline cleanup tx_signed_file s')"

definition register_stake_address ::
  "node \<Rightarrow> string \<Rightarrow> path \<Rightarrow> string \<Rightarrow> string \<Rightarrow> bool \<Rightarrow> bool \<Rightarrow> shelley \<Rightarrow>
   (error + string option) \<times> shelley" where
  "register_stake_address nd addr stake_vkey_file stake_skey_file pmt_skey_file offline cleanup s =
     (let tx_name = ''reg_stake_key_'' @ timestamp nd;
          stake_cert_path = path_str (stake_vkey_file\<lparr>suffix := ''.cert''\<rparr>)
      in case rsa_build nd addr stake_cert_path tx_name s of
           (Inl e, s') \<Rightarrow> (Inl e, s')
         | (Inr (tx_raw_file, body), s') \<Rightarrow> sign_and_send nd tx_name offline cleanup s')"

subsection \<open>\<^verbatim>\<open>register_stake_pool\<close> and \<^verbatim>\<open>update_stake_pool_registration\<close>\<close>

text \<open>
  Both operations are modelled from the point where the certificates exist and the pool
  deposit is known (lines 1383 and 1637 onwards); the certificate files are parameters.
  Lines 1398 to 1400 and 1652 to 1654, the variables before the loop:
\<close>

definition pool_init :: loop_vars where
  "pool_init = \<lparr>utxo_count = 0, utxo_total = 0, tx_in_str = [], min_fee = 1,
                lovelaces_out = 0, utxo_amt = None, cost = None\<rparr>"

text \<open>Lines 1402 to 1418 and, word for word, 1656 to 1672.\<close>

definition pool_body ::
  "node \<Rightarrow> string \<Rightarrow> string \<Rightarrow> string list \<Rightarrow> string list \<Rightarrow>
   utxo \<Rightarrow> loop_vars \<Rightarrow> shelley \<Rightarrow> (error + loop_vars) \<times> shelley" where
  "pool_body nd payment_addr pool_cert_path del_certs owner_stake_skeys utxo v s =
     (case py_int (Lovelace utxo) of
        Inl e \<Rightarrow> (Inl e, s)
      | Inr amount \<Rightarrow>
          (let count = Suc (utxo_count v);
               total = utxo_total v + amount;
               ins = tx_in_str v @ [(TxHash utxo, TxIx utxo)];
               tx_draft = \<lparr>tx_in = ins, tx_out = [(payment_addr, 0)], ttl = 0, fee = 0,
                           certificate_files = pool_cert_path # del_certs,
                           withdrawal = None\<rparr>;
               nwit = length owner_stake_skeys + 2
           in case calc_min_fee nd tx_draft count 1 nwit 0 s of
                (Inl e, s') \<Rightarrow> (Inl e, s')
              | (Inr f, s') \<Rightarrow>
                  (Inr (v\<lparr>utxo_count := count, utxo_total := total, tx_in_str := ins,
                           min_fee := f\<rparr>), s')))"

text \<open>Line 1420 and line 1674.\<close>

definition rsp_cond :: "int \<Rightarrow> loop_vars \<Rightarrow> bool" where
  "rsp_cond pool_deposit v \<longleftrightarrow> utxo_total v > min_fee v + pool_deposit + 10"

definition uspr_cond :: "int \<Rightarrow> loop_vars \<Rightarrow> bool" where
  "uspr_cond pool_deposit v \<longleftrightarrow> utxo_total v > min_fee v + pool_deposit"

text \<open>Lines 1383 to 1440.\<close>

definition rsp_build ::
  "node \<Rightarrow> string \<Rightarrow> string list \<Rightarrow> string list \<Rightarrow> int \<Rightarrow> string \<Rightarrow> string \<Rightarrow> shelley \<Rightarrow>
   (error + (path \<times> tx_body)) \<times> shelley" where
  "rsp_build nd pool_cert_path del_certs owner_stake_skeys pool_deposit payment_addr tx_name s =
     (case get_utxos nd payment_addr None s of
        (Inl e, s1) \<Rightarrow> (Inl e, s1)
      | (Inr fetched, s1) \<Rightarrow>
          (let utxos = sort_utxos fetched in
             case get_tip nd of
               Inl e \<Rightarrow> (Inl e, s1)
             | Inr tip \<Rightarrow>
                 (let ttl_val = tip + ttl_buffer s1 in
                    case load_protocol_parameters nd s1 of
                      (params, s2) \<Rightarrow>
                        (case for_break
                                (pool_body nd payment_addr pool_cert_path del_certs
                                   owner_stake_skeys)
                                (rsp_cond pool_deposit) utxos pool_init s2 of
                           (Inl e, s3) \<Rightarrow> (Inl e, s3)
                         | (Inr v, s3) \<Rightarrow>
                             if utxo_total v < min_fee v + pool_deposit then
                               (Inl (ShelleyError
                                  (InsufficientFunds payment_addr (min_fee v + pool_deposit)
                                     (utxo_total v))), s3)
                             else
                               (Inr (\<lparr>folder = working_dir s3, stem = tx_name,
                                       suffix = ''.raw''\<rparr>,
                                     \<lparr>tx_in = tx_in_str v,
                                       tx_out = [(payment_addr,
                                                  utxo_total v - min_fee v - pool_deposit)],
                                       ttl = ttl_val, fee = min_fee v,
                                       certificate_files = pool_cert_path # del_certs,
                                       withdrawal = None\<rparr>),
                                s3)))))"

definition register_stake_pool ::
  "node \<Rightarrow> string \<Rightarrow> string list \<Rightarrow> string list \<Rightarrow> int \<Rightarrow> string \<Rightarrow> bool \<Rightarrow> bool \<Rightarrow> shelley \<Rightarrow>
   (error + string option) \<times> shelley" where
  "register_stake_pool nd pool_cert_path del_certs owner_stake_skeys pool_deposit payment_addr
                       offline cleanup s =
     (let tx_name = ''reg_pool_'' @ timestamp nd in
        case rsp_build nd pool_cert_path del_certs owner_stake_skeys pool_deposit payment_addr
               tx_name s of
          (Inl e, s') \<Rightarrow> (Inl e, s')
        | (Inr (tx_raw_file, body), s') \<Rightarrow> sign_and_send nd tx_name offline cleanup s')"

text \<open>Lines 1635 to 1694: the deposit is 0, and the check after the loop compares with
  \<^verbatim>\<open>min_fee\<close> alone.\<close>

definition uspr_build ::
  "node \<Rightarrow> string \<Rightarrow> string list \<Rightarrow> string list \<Rightarrow> string \<Rightarrow> string \<Rightarrow> shelley \<Rightarrow>
   (error + (path \<times> tx_body)) \<times> shelley" where
  "uspr_build nd pool_cert_path del_certs owner_stake_skeys payment_addr tx_name s =
     (let pool_deposit = 0 in
        case get_utxos nd payment_addr None s of
          (Inl e, s1) \<Rightarrow> (Inl e, s1)
        | (Inr fetched, s1) \<Rightarrow>
            (let utxos = sort_utxos fetched in
               case get_tip nd of
                 Inl e \<Rightarrow> (Inl e, s1)
               | Inr tip \<Rightarrow>
                   (let ttl_val = tip + ttl_buffer s1 in
                      case load_protocol_parameters nd s1 of
                        (params, s2) \<Rightarrow>
                          (case for_break
                                  (pool_body nd payment_addr pool_cert_path del_certs
                                     owner_stake_skeys)
                                  (uspr_cond pool_deposit) utxos pool_init s2 of
                             (Inl e, s3) \<Rightarrow> (Inl e, s3)
                           | (Inr v, s3) \<Rightarrow>
                               if utxo_total v < min_fee v then
                                 (Inl (ShelleyError
                                    (InsufficientFunds payment_addr (min_fee v + pool_deposit)
                                       (utxo_total v))), s3)
                               else
                                 (Inr (\<lparr>folder = working_dir s3, stem = tx_name,
                                         suffix = ''.raw''\<rparr>,
                                       \<lparr>tx_in = tx_in_str v,
                                         tx_out = [(payment_addr,
                                                    utxo_total v - min_fee v - pool_deposit)],
                                         ttl = ttl_val, fee = min_fee v,
                                         certificate_files = pool_cert_path # del_certs,
                                         withdrawal = None\<rparr>),
                                  s3)))))"

text \<open>Lines 1650 to 1714, from the same point: the build above, then the shared last
  step.\<close>

definition update_stake_pool_registration ::
  "node \<Rightarrow> string \<Rightarrow> string list \<Rightarrow> string list \<Rightarrow> string \<Rightarrow> bool \<Rightarrow> bool \<Rightarrow> shelley \<Rightarrow>
   (error + string option) \<times> shelley" where
  "update_stake_pool_registration nd pool_cert_path del_certs owner_stake_skeys payment_addr
                                  offline cleanup s =
     (let tx_name = ''reg_pool_'' @ timestamp nd in
        case uspr_build nd pool_cert_path del_certs owner_stake_skeys payment_addr tx_name s of
          (Inl e, s') \<Rightarrow> (Inl e, s')
        | (Inr (tx_raw_file, body), s') \<Rightarrow> sign_and_send nd tx_name offline cleanup s')"

subsection \<open>\<^verbatim>\<open>claim_staking_rewards\<close>\<close>

text \<open>\<^verbatim>\<open>sub in s\<close> on strings.\<close>

primrec str_contains :: "string \<Rightarrow> string \<Rightarrow> bool" where
  "str_contains sub [] = (sub = [])"
| "str_contains sub (c # cs) = (take (length sub) (c # cs) = sub \<or> str_contains sub cs)"

text \<open>\<^verbatim>\<open>get_rewards_balance\<close>, lines 2129 to 2139: the two failure checks, then the sum of
  the balances of the decoded document.\<close>

definition get_rewards_balance :: "node \<Rightarrow> string \<Rightarrow> error + int" where
  "get_rewards_balance nd stake_addr =
     (case query_stake_address_info nd stake_addr of
        (result, balances) \<Rightarrow>
          if str_contains ''Failed'' (stdout result) then
            Inl (ShelleyError (RewardsQueryFailed (stdout result)))
          else if length (stderr result) > 0 then
            Inl (ShelleyError (RewardsQueryFailed (stderr result)))
          else Inr (sum_list balances))"

text \<open>Lines 1946 and 1947: \<^verbatim>\<open>min_fee\<close> is first assigned in the body.\<close>

definition csr_init :: loop_vars where
  "csr_init = \<lparr>utxo_count = 0, utxo_total = 0, tx_in_str = [], min_fee = 0,
               lovelaces_out = 0, utxo_amt = None, cost = None\<rparr>"

text \<open>Lines 1949 to 1980: one output in the draft when the receiving address pays the fee,
  two otherwise.\<close>

definition csr_body ::
  "node \<Rightarrow> string \<Rightarrow> int \<Rightarrow> string \<Rightarrow> string \<Rightarrow>
   utxo \<Rightarrow> loop_vars \<Rightarrow> shelley \<Rightarrow> (error + loop_vars) \<times> shelley" where
  "csr_body nd stake_addr rewards receive_addr payment_addr utxo v s =
     (case py_int (Lovelace utxo) of
        Inl e \<Rightarrow> (Inl e, s)
      | Inr amount \<Rightarrow>
          (let count = Suc (utxo_count v);
               total = utxo_total v + amount;
               ins = tx_in_str v @ [(TxHash utxo, TxIx utxo)];
               outs = (if payment_addr = receive_addr then [(receive_addr, 0)]
                       else [(receive_addr, 0), (payment_addr, 0)]);
               tx_draft = \<lparr>tx_in = ins, tx_out = outs, ttl = 0, fee = 0,
                           certificate_files = [],
                           withdrawal = Some (stake_addr, rewards)\<rparr>;
               tx_out_count = (if payment_addr = receive_addr then 1 else 2)
           in case calc_min_fee nd tx_draft count tx_out_count 2 0 s of
                (Inl e, s') \<Rightarrow> (Inl e, s')
              | (Inr f, s') \<Rightarrow>
                  (Inr (v\<lparr>utxo_count := count, utxo_total := total, tx_in_str := ins,
                           min_fee := f\<rparr>), s')))"

text \<open>Line 1983.\<close>

definition csr_cond :: "loop_vars \<Rightarrow> bool" where
  "csr_cond v \<longleftrightarrow> utxo_total v > min_fee v"

text \<open>
  Lines 1913 to 2014. The loop runs over at least one UTXO, so \<^verbatim>\<open>min_fee\<close> is assigned
  when line 1986 reads it; the branch for a loop that did not run is kept for the
  \<^verbatim>\<open>UnboundLocalError\<close> Python would raise there.
\<close>

definition csr_build ::
  "node \<Rightarrow> string \<Rightarrow> string \<Rightarrow> string option \<Rightarrow> string \<Rightarrow> shelley \<Rightarrow>
   (error + (path \<times> tx_body)) \<times> shelley" where
  "csr_build nd stake_addr receive_addr payment_addr_arg tx_name s =
     (case get_rewards_balance nd stake_addr of
        Inl e \<Rightarrow> (Inl e, s)
      | Inr rewards \<Rightarrow>
          if rewards \<le> 0 then (Inl (ShelleyError (NoRewards stake_addr)), s)
          else
            (let payment_addr = (case payment_addr_arg of None \<Rightarrow> receive_addr | Some a \<Rightarrow> a)
             in case get_utxos nd payment_addr None s of
                  (Inl e, s1) \<Rightarrow> (Inl e, s1)
                | (Inr fetched, s1) \<Rightarrow>
                    if length fetched < 1 then (Inl (ShelleyError (NoAda payment_addr)), s1)
                    else
                      (let utxos = sort_utxos fetched in
                         case load_protocol_parameters nd s1 of
                           (params, s2) \<Rightarrow>
                             (case get_tip nd of
                                Inl e \<Rightarrow> (Inl e, s2)
                              | Inr tip \<Rightarrow>
                                  (let ttl_val = tip + ttl_buffer s2 in
                                     case for_break
                                            (csr_body nd stake_addr rewards receive_addr
                                               payment_addr)
                                            csr_cond utxos csr_init s2 of
                                       (Inl e, s3) \<Rightarrow> (Inl e, s3)
                                     | (Inr v, s3) \<Rightarrow>
                                         if utxo_count v = 0 then (Inl UnboundLocalError, s3)
                                         else if utxo_total v < min_fee v then
                                           (Inl (ShelleyError
                                              (InsufficientFunds payment_addr (min_fee v)
                                                 (utxo_total v))), s3)
                                         else
                                           (Inr (\<lparr>folder = working_dir s3, stem = tx_name,
                                                   suffix = ''.raw''\<rparr>,
                                                 \<lparr>tx_in = tx_in_str v,
                                                   tx_out =
                                                     (if payment_addr = receive_addr then
                                                        [(receive_addr,
                                                          utxo_total v - min_fee v + rewards)]
                                                      else
                                                        [(payment_addr,
                                                          utxo_total v - min_fee v),
                                                         (receive_addr, rewards)]),
                                                   ttl = ttl_val, fee = min_fee v,
                                                   certificate_files = [],
                                                   withdrawal = Some (stake_addr, rewards)\<rparr>),
                                            s3))))))"

text \<open>Lines 1934 and 2016 to 2034: the last step is the one of the certificate-paying
  operations.\<close>

definition claim_staking_rewards ::
  "node \<Rightarrow> string \<Rightarrow> string \<Rightarrow> string \<Rightarrow> string \<Rightarrow> string option \<Rightarrow> bool \<Rightarrow> bool \<Rightarrow> shelley \<Rightarrow>
   (error + string option) \<times> shelley" where
  "claim_staking_rewards nd stake_addr stake_skey receive_addr payment_skey payment_addr
                         offline cleanup s =
     (let tx_name = ''claim_rewards_'' @ timestamp nd in
        case csr_build nd stake_addr receive_addr payment_addr tx_name s of
          (Inl e, s') \<Rightarrow> (Inl e, s')
        | (Inr (tx_raw_file, body), s') \<Rightarrow> sign_and_send nd tx_name offline cleanup s')"

subsection \<open>\<^verbatim>\<open>empty_account\<close>\<close>

text \<open>\<^verbatim>\<open>query_balance\<close>, lines 304 to 308.\<close>

fun total_lovelace :: "utxo list \<Rightarrow> int \<Rightarrow> error + int" where
  "total_lovelace [] total_so_far = Inr total_so_far"
| "total_lovelace (utxo # utxos) total_so_far =
     (case py_int (Lovelace utxo) of
        Inl e \<Rightarrow> Inl e
      | Inr n \<Rightarrow> total_lovelace utxos (total_so_far + n))"

definition query_balance :: "node \<Rightarrow> string \<Rightarrow> shelley \<Rightarrow> (error + int) \<times> shelley" where
  "query_balance nd addr s =
     (case get_utxos nd addr None s of
        (Inl e, s1) \<Rightarrow> (Inl e, s1)
      | (Inr utxos, s1) \<Rightarrow> (total_lovelace utxos 0, s1))"

text \<open>
  Lines 2163 to 2209: the balance, every UTXO of the address as an input (the address is
  queried a second time), one fee estimation, and the final body with the whole balance
  less the fee, formatted with \<^verbatim>\<open>.0f\<close>.
\<close>

definition ea_build ::
  "node \<Rightarrow> string \<Rightarrow> string \<Rightarrow> string \<Rightarrow> shelley \<Rightarrow> (error + (path \<times> tx_body)) \<times> shelley" where
  "ea_build nd to_addr from_addr tx_name s =
     (case query_balance nd from_addr s of
        (Inl e, s1) \<Rightarrow> (Inl e, s1)
      | (Inr bal, s1) \<Rightarrow>
          (case get_utxos nd from_addr None s1 of
             (Inl e, s2) \<Rightarrow> (Inl e, s2)
           | (Inr utxos, s2) \<Rightarrow>
               (let ins = map (\<lambda>utxo. (TxHash utxo, TxIx utxo)) utxos;
                    tx_draft = \<lparr>tx_in = ins, tx_out = [(to_addr, 0)], ttl = 0, fee = 0,
                                certificate_files = [], withdrawal = None\<rparr>
                in case calc_min_fee nd tx_draft (length utxos) 2 1 0 s2 of
                     (Inl e, s3) \<Rightarrow> (Inl e, s3)
                   | (Inr f, s3) \<Rightarrow>
                       if f > bal then
                         (Inl (ShelleyError (CannotEmpty from_addr to_addr bal f)), s3)
                       else
                         (case get_tip nd of
                            Inl e \<Rightarrow> (Inl e, s3)
                          | Inr tip \<Rightarrow>
                              (case fmt_0f (bal - f) of
                                 Inl e \<Rightarrow> (Inl e, s3)
                               | Inr amt \<Rightarrow>
                                   (Inr (\<lparr>folder = working_dir s3, stem = tx_name,
                                           suffix = ''.raw''\<rparr>,
                                         \<lparr>tx_in = ins, tx_out = [(to_addr, amt)],
                                           ttl = tip + ttl_buffer s3, fee = f,
                                           certificate_files = [],
                                           withdrawal = None\<rparr>), s3))))))"

text \<open>Lines 2167 and 2211 to 2222: signed with \<^verbatim>\<open>sign_transaction\<close>, as in
  \<^verbatim>\<open>send_payment\<close>; only the raw file is removed.\<close>

definition empty_account ::
  "node \<Rightarrow> string \<Rightarrow> string \<Rightarrow> string \<Rightarrow> bool \<Rightarrow> bool \<Rightarrow> shelley \<Rightarrow>
   (error + string option) \<times> shelley" where
  "empty_account nd to_addr from_addr key_file offline cleanup s =
     (let tx_name = ''empty_acct_'' @ timestamp nd in
        case ea_build nd to_addr from_addr tx_name s of
          (Inl e, s1) \<Rightarrow> (Inl e, s1)
        | (Inr (tx_raw_file, body), s1) \<Rightarrow>
            (case sign_transaction nd tx_raw_file [key_file] s1 of
               (Inl e, s2) \<Rightarrow> (Inl e, s2)
             | (Inr tx_signed_file, s2) \<Rightarrow>
                 (let s3 = (if cleanup then cleanup_file (path_str tx_raw_file) s2 else s2)
                  in submit_or_print nd offline cleanup tx_signed_file s3)))"

section \<open>\<^verbatim>\<open>build_multisignature_scripts\<close>\<close>

text \<open>
  An element of \<^verbatim>\<open>script["scripts"]\<close> is \<^verbatim>\<open>{"keyHash": h, "type": "sig"}\<close> or
  \<^verbatim>\<open>{"slot": n, "type": t}\<close>; the slot is whatever the caller passed, \<^verbatim>\<open>None\<close> included.
\<close>

datatype script_entry = KeyHashEntry string | SlotEntry "int option" string

record script =
  scripts :: "script_entry list"
  script_type :: string
  script_required :: "int option"

text \<open>\<^verbatim>\<open>str.lower()\<close> on the ASCII letters.\<close>

definition lower_char :: "char \<Rightarrow> char" where
  "lower_char c =
     (case map_of (zip ''ABCDEFGHIJKLMNOPQRSTUVWXYZ'' ''abcdefghijklmnopqrstuvwxyz'') c of
        Some l \<Rightarrow> l
      | None \<Rightarrow> c)"

definition lower :: "string \<Rightarrow> string" where
  "lower s = map lower_char s"

text \<open>Lines 1133 to 1161; the value is the path and the script written to it.\<close>

definition build_multisignature_scripts ::
  "string \<Rightarrow> string list \<Rightarrow> string \<Rightarrow> int option \<Rightarrow> int option \<Rightarrow> int option \<Rightarrow> shelley \<Rightarrow>
   error + (path \<times> script)" where
  "build_multisignature_scripts script_name key_hashes sig_type required start_slot end_slot s =
     (let sigs = map KeyHashEntry key_hashes;
          sig_type' = lower sig_type;
          typed =
            (if sig_type' = ''any'' then
               Inr \<lparr>scripts = sigs, script_type = ''any'', script_required = None\<rparr>
             else if sig_type' = ''atleast'' \<and> required \<noteq> None then
               (case required of
                  None \<Rightarrow> Inl TypeError
                | Some r \<Rightarrow>
                    if r < 1 \<or> r \<ge> int (length key_hashes) then
                      Inl (ShelleyError InvalidRequiredSignatures)
                    else Inr \<lparr>scripts = sigs, script_type = ''atLeast'',
                              script_required = Some r\<rparr>)
             else Inr \<lparr>scripts = sigs, script_type = ''all'', script_required = None\<rparr>)
      in case typed of
           Inl e \<Rightarrow> Inl e
         | Inr sc \<Rightarrow>
             (let sc1 = (if start_slot \<noteq> None
                         then sc\<lparr>scripts := scripts sc @ [SlotEntry start_slot ''after'']\<rparr>
                         else sc);
                  sc2 = (if end_slot \<noteq> None
                         then sc1\<lparr>scripts := scripts sc1 @ [SlotEntry start_slot ''before'']\<rparr>
                         else sc1)
              in Inr (\<lparr>folder = working_dir s, stem = script_name, suffix = ''.json''\<rparr>, sc2)))"

section \<open>Notions the properties are stated with\<close>

text \<open>\<^verbatim>\<open>int(utxo["Lovelace"])\<close> where it is a number, and the \<^verbatim>\<open>hash#ix\<close> of a UTXO.\<close>

definition lovelace_int :: "utxo \<Rightarrow> int" where
  "lovelace_int u = (case py_int (Lovelace u) of Inl _ \<Rightarrow> 0 | Inr n \<Rightarrow> n)"

definition tx_ref :: "utxo \<Rightarrow> string \<times> string" where
  "tx_ref u = (TxHash u, TxIx u)"

text \<open>The loop's body run over a whole list, with no \<^verbatim>\<open>break\<close>: the variables after every
  element of the list has been appended.\<close>

definition run_prefix ::
  "('a \<Rightarrow> 'v \<Rightarrow> 's \<Rightarrow> (error + 'v) \<times> 's) \<Rightarrow> 'a list \<Rightarrow> 'v \<Rightarrow> 's \<Rightarrow> (error + 'v) \<times> 's" where
  "run_prefix body xs v s = for_break body (\<lambda>_. False) xs v s"

text \<open>What one successful iteration of any selection loop does to the counters, the input
  list and the object.\<close>

definition appended :: "node \<Rightarrow> utxo \<Rightarrow> loop_vars \<times> shelley \<Rightarrow> loop_vars \<times> shelley \<Rightarrow> bool" where
  "appended nd u a b \<longleftrightarrow>
     (case (a, b) of ((v, s), (v', s')) \<Rightarrow>
        py_int (Lovelace u) = Inr (lovelace_int u) \<and>
        utxo_count v' = Suc (utxo_count v) \<and>
        utxo_total v' = utxo_total v + lovelace_int u \<and>
        tx_in_str v' = tx_in_str v @ [tx_ref u] \<and>
        s' = s\<lparr>protocol_parameters := Some (query_protocol_parameters nd (param_queries s)),
               param_queries := Suc (param_queries s)\<rparr>)"

text \<open>
  The stop condition in the specification's words: with \<open>total\<close> the running input sum,
  \<open>required = fee + deposit + sum of the target payment amounts\<close> and
  \<open>change = total - required\<close>, stop when
  \<open>total > required AND (change > minUtxoValue OR change == 0)\<close>.
\<close>

definition stop_condition :: "int \<Rightarrow> int \<Rightarrow> int \<Rightarrow> loop_vars \<Rightarrow> bool" where
  "stop_condition deposit payments_sum min_utxo_value v \<longleftrightarrow>
     (let total = utxo_total v;
          required = min_fee v + deposit + payments_sum;
          change = total - required
      in total > required \<and> (change > min_utxo_value \<or> change = 0))"

text \<open>
  A loop over \<open>xs\<close> started with \<open>(v0, s0)\<close> ends with \<open>(v, s)\<close> at the first prefix whose
  variables satisfy \<open>P\<close>: \<open>(v, s)\<close> is what the body leaves after \<open>k\<close> elements; when
  elements are left over, \<open>P\<close> holds there; and \<open>P\<close> fails after every shorter non-empty
  prefix.
\<close>

definition exits_first ::
  "('a \<Rightarrow> 'v \<Rightarrow> 's \<Rightarrow> (error + 'v) \<times> 's) \<Rightarrow> ('v \<Rightarrow> 's \<Rightarrow> bool) \<Rightarrow> 'a list \<Rightarrow> 'v \<Rightarrow> 's \<Rightarrow> 'v \<Rightarrow> 's \<Rightarrow> bool" where
  "exits_first body P xs v0 s0 v s \<longleftrightarrow>
     (\<exists>k\<le>length xs.
        run_prefix body (take k xs) v0 s0 = (Inr v, s) \<and>
        (k < length xs \<longrightarrow> 0 < k \<and> P v s) \<and>
        (\<forall>j. 0 < j \<and> j < k \<longrightarrow>
           (\<exists>vj sj. run_prefix body (take j xs) v0 s0 = (Inr vj, sj) \<and> \<not> P vj sj)))"


section \<open>A concrete node and account\<close>

text \<open>
  A node used to run the operations on concrete inputs. The address \<open>me\<close> holds three
  outputs of 3, 5 and 2 ADA (in that query order), \<open>poor\<close> holds one of 2.5 ADA, \<open>mixed\<close>
  holds 10 and 9 ADA, \<open>whale\<close> holds one output of 9.1 billion ADA; the query for \<open>short\<close>
  answers a row with two columns, and the query for \<open>down\<close> fails (nothing on the
  standard output, a message on the error stream). Every
  fee is 170000 Lovelace, the minimum UTXO value is 1 ADA, the stake deposit 2 ADA.
\<close>

definition demo_params :: protocol_params where
  "demo_params = \<lparr>minUTxOValue = 1000000, stakeAddressDeposit = 2000000, eMax = 18\<rparr>"

definition demo_query_utxo :: "string \<Rightarrow> cli_result" where
  "demo_query_utxo addr =
     (if addr = ''poor'' then
        \<lparr>stdout = ''TxHash TxIx Amount\<newline>------\<newline>dd 0 2500000 lovelace'', stderr = []\<rparr>
      else if addr = ''mixed'' then
        \<lparr>stdout = ''TxHash TxIx Amount\<newline>------\<newline>ee 0 10000000 lovelace\<newline>ff 0 9000000 lovelace'',
          stderr = []\<rparr>
      else if addr = ''short'' then
        \<lparr>stdout = ''TxHash TxIx Amount\<newline>------\<newline>gg 0'', stderr = []\<rparr>
      else if addr = ''down'' then
        \<lparr>stdout = [], stderr = ''cardano-cli: connect: does not exist''\<rparr>
      else if addr = ''whale'' then
        \<lparr>stdout = ''TxHash TxIx Amount\<newline>------\<newline>hh 0 9100000000000000 lovelace'',
          stderr = []\<rparr>
      else
        \<lparr>stdout = ''TxHash TxIx Amount\<newline>------\<newline>aa 0 3000000 lovelace\<newline>bb 1 5000000 lovelace\<newline>cc 0 2000000 lovelace'',
          stderr = []\<rparr>)"

text \<open>The rewards account \<open>stake\<close> holds 0.7 ADA; every other one holds nothing.\<close>

definition demo_stake_address_info :: "string \<Rightarrow> cli_result \<times> int list" where
  "demo_stake_address_info stake_addr =
     (if stake_addr = ''stake'' then (\<lparr>stdout = ''[{...}]'', stderr = []\<rparr>, [700000])
      else (\<lparr>stdout = ''[]'', stderr = []\<rparr>, []))"

definition demo_node :: node where
  "demo_node =
     \<lparr>query_protocol_parameters = (\<lambda>k. demo_params),
       query_utxo = demo_query_utxo,
       query_tip = Tip 500,
       calculate_min_fee = (\<lambda>params tx_draft n_in n_out n_wit n_byron. ''170000 Lovelace''),
       sign = (\<lambda>tx_file skeys. []),
       submit = (\<lambda>tx_file. []),
       timestamp = ''2021-03-01_12h00m00s'',
       query_stake_address_info = demo_stake_address_info\<rparr>"

text \<open>The same node, except that its parameters change with every query and the fee
  follows the parameters file it is given.\<close>

definition drifting_node :: node where
  "drifting_node =
     demo_node
       \<lparr>query_protocol_parameters := (\<lambda>k. demo_params\<lparr>eMax := 18 + int k\<rparr>),
        calculate_min_fee := (\<lambda>params tx_draft n_in n_out n_wit n_byron.
           if eMax params = 18 then ''170000 Lovelace'' else ''180000 Lovelace'')\<rparr>"

definition demo_state :: shelley where
  "demo_state =
     \<lparr>working_dir = ''/w'', ttl_buffer = 1000, protocol_parameters = None, param_queries = 0,
       printed = [], submit_calls = [], removed = []\<rparr>"

definition lovelace_utxo :: "string \<Rightarrow> string \<Rightarrow> string \<Rightarrow> utxo" where
  "lovelace_utxo h i amt = \<lparr>TxHash = h, TxIx = i, Lovelace = amt, assets = []\<rparr>"

text \<open>The outputs of \<open>me\<close> as the selection loop receives them.\<close>

definition demo_utxos :: "utxo list" where
  "demo_utxos =
     [lovelace_utxo ''bb'' ''1'' ''5000000'', lovelace_utxo ''aa'' ''0'' ''3000000'',
      lovelace_utxo ''cc'' ''0'' ''2000000'']"

text \<open>The loop's variables and the object after the selection loop has paid 5 ADA from
  \<open>me\<close>: two outputs selected, 8 ADA in, 5.17 ADA out.\<close>

definition demo_vars :: loop_vars where
  "demo_vars =
     \<lparr>utxo_count = 2, utxo_total = 8000000, tx_in_str = [(''bb'', ''1''), (''aa'', ''0'')],
       min_fee = 170000, lovelaces_out = 5170000, utxo_amt = Some 2830000, cost = None\<rparr>"

definition demo_state_after :: shelley where
  "demo_state_after = demo_state\<lparr>protocol_parameters := Some demo_params, param_queries := 2\<rparr>"

section \<open>Properties of the loops\<close>

lemma for_break_first:
  assumes "for_break body cond xs v s = (Inr v', s')"
  shows "\<exists>k\<le>length xs.
           run_prefix body (take k xs) v s = (Inr v', s') \<and>
           (k < length xs \<longrightarrow> 0 < k \<and> cond v') \<and>
           (\<forall>j. 0 < j \<and> j < k \<longrightarrow>
              (\<exists>vj sj. run_prefix body (take j xs) v s = (Inr vj, sj) \<and> \<not> cond vj))"
  using assms unfolding run_prefix_def
proof (induction xs arbitrary: v s)
  case Nil
  then show ?case by simp
next
  case (Cons x xs)
  from Cons.prems obtain v1 s1 where b: "body x v s = (Inr v1, s1)"
    by (auto split: prod.splits sum.splits)
  show ?case
  proof (cases "cond v1")
    case True
    with Cons.prems b have "v' = v1" "s' = s1" by auto
    with b True show ?thesis
      by (intro exI[of _ 1]) auto
  next
    case False
    with Cons.prems b have "for_break body cond xs v1 s1 = (Inr v', s')" by simp
    from Cons.IH[OF this] obtain k where k: "k \<le> length xs"
      "for_break body (\<lambda>_. False) (take k xs) v1 s1 = (Inr v', s')"
      "k < length xs \<longrightarrow> 0 < k \<and> cond v'"
      "\<forall>j. 0 < j \<and> j < k \<longrightarrow>
              (\<exists>vj sj. for_break body (\<lambda>_. False) (take j xs) v1 s1 = (Inr vj, sj) \<and> \<not> cond vj)"
      by blast
    have "\<exists>vj sj. for_break body (\<lambda>_. False) (take j (x # xs)) v s = (Inr vj, sj) \<and> \<not> cond vj"
      if "0 < j" "j < Suc k" for j
    proof (cases j)
      case 0
      with that show ?thesis by simp
    next
      case (Suc j')
      show ?thesis
      proof (cases "j' = 0")
        case True
        with Suc b False show ?thesis by simp
      next
        case nz: False
        with that Suc k(4) obtain vj sj where
          "for_break body (\<lambda>_. False) (take j' xs) v1 s1 = (Inr vj, sj)" "\<not> cond vj"
          by auto
        with Suc b show ?thesis by simp
      qed
    qed
    with k b show ?thesis
      by (intro exI[of _ "Suc k"]) auto
  qed
qed

lemma for_break_last:
  assumes step: "\<And>x v s v' s'. body x v s = (Inr v', s') \<Longrightarrow> Q v' s'"
    and run: "for_break body cond xs v s = (Inr v', s')" and ne: "xs \<noteq> []"
  shows "Q v' s'"
  using run ne
proof (induction xs arbitrary: v s)
  case Nil
  then show ?case by simp
next
  case (Cons x xs)
  from Cons.prems obtain v1 s1 where b: "body x v s = (Inr v1, s1)"
    by (auto split: prod.splits sum.splits)
  show ?case
  proof (cases "cond v1 \<or> xs = []")
    case True
    with Cons.prems b have "v' = v1 \<and> s' = s1" by (auto split: if_splits)
    with step[OF b] show ?thesis by simp
  next
    case False
    with Cons.prems b have "for_break body cond xs v1 s1 = (Inr v', s')" by simp
    with Cons.IH False show ?thesis by blast
  qed
qed

lemma for_break_frame:
  assumes step: "\<And>x v s r s'. body x v s = (r, s') \<Longrightarrow> f s' = f s"
    and run: "for_break body cond xs v s = (r, s')"
  shows "f s' = f s"
  using run
proof (induction xs arbitrary: v s)
  case Nil
  then show ?case by simp
next
  case (Cons x xs)
  obtain r1 s1 where b: "body x v s = (r1, s1)" by (cases "body x v s")
  from step[OF b] have f1: "f s1 = f s" .
  show ?case
  proof (cases r1)
    case (Inl e)
    with Cons.prems b f1 show ?thesis by simp
  next
    case (Inr v1)
    show ?thesis
    proof (cases "cond v1")
      case True
      with Cons.prems b Inr f1 show ?thesis by simp
    next
      case False
      with Cons.prems b Inr have "for_break body cond xs v1 s1 = (r, s')" by simp
      from Cons.IH[OF this] f1 show ?thesis by simp
    qed
  qed
qed

lemma run_prefix_appended:
  assumes step: "\<And>x v s v' s'. body x v s = (Inr v', s') \<Longrightarrow> appended nd x (v, s) (v', s')"
    and run: "run_prefix body xs v s = (Inr v', s')"
  shows "utxo_count v' = utxo_count v + length xs \<and>
         utxo_total v' = utxo_total v + sum_list (map lovelace_int xs) \<and>
         tx_in_str v' = tx_in_str v @ map tx_ref xs \<and>
         param_queries s' = param_queries s + length xs"
  using run
proof (induction xs arbitrary: v s)
  case Nil
  then show ?case by (simp add: run_prefix_def)
next
  case (Cons x xs)
  from Cons.prems obtain v1 s1 where b: "body x v s = (Inr v1, s1)"
    and r: "run_prefix body xs v1 s1 = (Inr v', s')"
    by (auto simp: run_prefix_def split: prod.splits sum.splits)
  from step[OF b] Cons.IH[OF r] show ?case
    by (simp add: appended_def)
qed

text \<open>The loop stops at the first prefix whose variables satisfy the condition, stated
  for a predicate \<open>P\<close> that agrees with the loop's condition after every iteration.\<close>

lemma for_break_first_exit:
  assumes post: "\<And>x v s v' s'. body x v s = (Inr v', s') \<Longrightarrow> cond v' = P v' s'"
    and run: "for_break body cond xs v s = (Inr v', s')"
  shows "\<exists>k\<le>length xs.
           run_prefix body (take k xs) v s = (Inr v', s') \<and>
           (k < length xs \<longrightarrow> 0 < k \<and> P v' s') \<and>
           (\<forall>j. 0 < j \<and> j < k \<longrightarrow>
              (\<exists>vj sj. run_prefix body (take j xs) v s = (Inr vj, sj) \<and> \<not> P vj sj))"
proof -
  from for_break_first[OF run] obtain k where k: "k \<le> length xs"
    "run_prefix body (take k xs) v s = (Inr v', s')"
    "k < length xs \<longrightarrow> 0 < k \<and> cond v'"
    "\<forall>j. 0 < j \<and> j < k \<longrightarrow>
       (\<exists>vj sj. run_prefix body (take j xs) v s = (Inr vj, sj) \<and> \<not> cond vj)"
    by blast
  have agree: "cond w = P w t"
    if "run_prefix body (take j xs) v s = (Inr w, t)" "0 < j" "j \<le> length xs" for j w t
  proof -
    from that have ne: "take j xs \<noteq> []" by auto
    from that(1) have r: "for_break body (\<lambda>_. False) (take j xs) v s = (Inr w, t)"
      by (simp add: run_prefix_def)
    show ?thesis
      by (rule for_break_last[where body = body and Q = "\<lambda>w t. cond w = P w t", OF _ r ne])
        (rule post)
  qed
  have "k < length xs \<longrightarrow> 0 < k \<and> P v' s'"
    using k(1,2,3) agree by auto
  moreover have "\<forall>j. 0 < j \<and> j < k \<longrightarrow>
       (\<exists>vj sj. run_prefix body (take j xs) v s = (Inr vj, sj) \<and> \<not> P vj sj)"
  proof (intro allI impI)
    fix j assume j: "0 < j \<and> j < k"
    with k(4) obtain vj sj where r: "run_prefix body (take j xs) v s = (Inr vj, sj)" "\<not> cond vj"
      by blast
    with agree[OF r(1)] j k(1) have "\<not> P vj sj" by simp
    with r show "\<exists>vj sj. run_prefix body (take j xs) v s = (Inr vj, sj) \<and> \<not> P vj sj" by blast
  qed
  ultimately show ?thesis using k(1,2) by blast
qed

subsection \<open>The three loop bodies\<close>

lemma brt_body_appended:
  "brt_body nd pa pz ca wc dep tp u v s = (Inr v', s') \<Longrightarrow> appended nd u (v, s) (v', s')"
  by (auto simp: brt_body_def appended_def lovelace_int_def tx_ref_def Let_def
           calc_min_fee_def load_protocol_parameters_def
           split: sum.splits prod.splits list.splits)

lemma brt_body_amounts:
  "brt_body nd pa pz ca wc dep tp u v s = (Inr v', s') \<Longrightarrow>
     lovelaces_out v' = min_fee v' + dep + tp \<and>
     utxo_amt v' = Some (utxo_total v' - lovelaces_out v')"
  by (auto simp: brt_body_def Let_def split: sum.splits prod.splits)

lemma brt_cond_stop_condition:
  "brt_body nd pa pz ca wc dep tp u v s = (Inr v', s') \<Longrightarrow>
     brt_cond min_utxo v' = stop_condition dep tp min_utxo v'"
  by (drule brt_body_amounts) (auto simp: brt_cond_def stop_condition_def Let_def)

lemma brt_prefix:
  assumes "run_prefix (brt_body nd pa pz ca wc dep tp) xs v s = (Inr v', s')"
  shows "utxo_count v' = utxo_count v + length xs \<and>
         utxo_total v' = utxo_total v + sum_list (map lovelace_int xs) \<and>
         tx_in_str v' = tx_in_str v @ map tx_ref xs \<and>
         param_queries s' = param_queries s + length xs"
  by (rule run_prefix_appended[OF _ assms]) (rule brt_body_appended)

lemma brt_first_exit:
  assumes "for_break (brt_body nd pa pz ca wc dep tp) (brt_cond min_utxo) xs v s = (Inr v', s')"
  shows "\<exists>k\<le>length xs.
           run_prefix (brt_body nd pa pz ca wc dep tp) (take k xs) v s = (Inr v', s') \<and>
           (k < length xs \<longrightarrow> 0 < k \<and> stop_condition dep tp min_utxo v') \<and>
           (\<forall>j. 0 < j \<and> j < k \<longrightarrow>
              (\<exists>vj sj. run_prefix (brt_body nd pa pz ca wc dep tp) (take j xs) v s = (Inr vj, sj) \<and>
                       \<not> stop_condition dep tp min_utxo vj))"
  by (rule for_break_first_exit[where P = "\<lambda>w t. stop_condition dep tp min_utxo w", OF _ assms])
    (rule brt_cond_stop_condition)

lemma rsa_body_appended:
  "rsa_body nd addr cert u v s = (Inr v', s') \<Longrightarrow> appended nd u (v, s) (v', s')"
  by (auto simp: rsa_body_def appended_def lovelace_int_def tx_ref_def Let_def
           calc_min_fee_def load_protocol_parameters_def
           split: sum.splits prod.splits list.splits option.splits)

lemma rsa_body_cost:
  "rsa_body nd addr cert u v s = (Inr v', s') \<Longrightarrow>
     \<exists>p. protocol_parameters s' = Some p \<and> cost v' = Some (min_fee v' + stakeAddressDeposit p)"
  by (auto simp: rsa_body_def Let_def split: sum.splits prod.splits option.splits)

lemma rsa_cond_total:
  "rsa_body nd addr cert u v s = (Inr v', s') \<Longrightarrow>
     rsa_cond v' =
       (\<exists>p. protocol_parameters s' = Some p \<and> utxo_total v' > min_fee v' + stakeAddressDeposit p)"
  by (drule rsa_body_cost) (auto simp: rsa_cond_def)


lemma for_break_exits_first:
  assumes post: "\<And>x v s v' s'. body x v s = (Inr v', s') \<Longrightarrow> cond v' = P v' s'"
    and run: "for_break body cond xs v s = (Inr v', s')"
  shows "exits_first body P xs v s v' s'"
  unfolding exits_first_def
  by (rule for_break_first_exit[OF _ run]) (rule post)

lemmas demo_eval =
  demo_utxos_def lovelace_utxo_def py_int_def digit_of_def calc_min_fee_def
  load_protocol_parameters_def demo_node_def demo_state_def demo_params_def str_split_def
  is_space_def Let_def

lemma demo_selection:
  "selection_loop demo_node ''me'' [(''you'', 0)] [] 1 0 5000000 1000000 demo_utxos demo_state =
     (Inr demo_vars, demo_state_after)"
  by (simp add: selection_loop_def brt_body_def brt_init_def brt_cond_def demo_vars_def
        demo_state_after_def demo_eval)

subsection \<open>The shape of a successful \<^verbatim>\<open>build_raw_transaction\<close>\<close>

lemma appended_params:
  "appended nd u (v, s) (v', s') \<Longrightarrow>
     protocol_parameters s' = Some (query_protocol_parameters nd (param_queries s' - 1))"
  by (auto simp: appended_def)

lemma brt_body_last:
  assumes "brt_body nd pa pz ca wc dep tp u v s = (Inr v', s')"
  shows "lovelaces_out v' = min_fee v' + dep + tp \<and>
         utxo_amt v' = Some (utxo_total v' - lovelaces_out v') \<and>
         protocol_parameters s' = Some (query_protocol_parameters nd (param_queries s' - 1))"
  using brt_body_amounts[OF assms] appended_params[OF brt_body_appended[OF assms]] by simp

lemma brt_last:
  assumes "for_break (brt_body nd pa pz ca wc dep tp) cond xs v s = (Inr v', s')" and "xs \<noteq> []"
  shows "lovelaces_out v' = min_fee v' + dep + tp \<and>
         utxo_amt v' = Some (utxo_total v' - lovelaces_out v') \<and>
         protocol_parameters s' = Some (query_protocol_parameters nd (param_queries s' - 1))"
  by (rule for_break_last[OF _ assms]) (rule brt_body_last)

lemma brt_finish_success:
  assumes "brt_finish pa pargs ca min_utxo ttl_val cl name v s3 = (Inr (p, body), s')"
  shows "\<not> utxo_total v < lovelaces_out v \<and>
         (\<exists>amt. utxo_amt v = Some amt \<and> \<not> (amt \<noteq> 0 \<and> amt < min_utxo) \<and>
                tx_out body = (if amt = 0 then [] else [(pa, amt)]) @ pargs) \<and>
         tx_in body = tx_in_str v \<and> fee body = min_fee v \<and>
         param_queries s' = param_queries s3 \<and>
         protocol_parameters s' = protocol_parameters s3"
proof -
  have a: "\<not> utxo_total v < lovelaces_out v"
  proof
    assume "utxo_total v < lovelaces_out v"
    with assms show False by (simp add: brt_finish_def split: if_splits)
  qed
  obtain amt where amt: "utxo_amt v = Some amt"
  proof (cases "utxo_amt v")
    case None
    with assms a show ?thesis by (simp add: brt_finish_def)
  next
    case (Some x)
    with that show ?thesis by simp
  qed
  have b: "\<not> (amt \<noteq> 0 \<and> amt < min_utxo)"
  proof
    assume "amt \<noteq> 0 \<and> amt < min_utxo"
    with assms a amt show False by (simp add: brt_finish_def)
  qed
  from assms a amt b have
    body: "body = \<lparr>tx_in = tx_in_str v,
                    tx_out = (if amt = 0 then [] else [(pa, amt)]) @ pargs,
                    ttl = ttl_val, fee = min_fee v, certificate_files = ca,
                    withdrawal = None\<rparr>"
    and s': "s' = (if cl then cleanup_file
                (path_str \<lparr>folder = working_dir s3, stem = name, suffix = ''.draft''\<rparr>) s3
              else s3)"
    by (simp_all add: brt_finish_def Let_def)
  from s' have "param_queries s' = param_queries s3 \<and>
      protocol_parameters s' = protocol_parameters s3"
    by (simp add: cleanup_file_def)
  with a amt b body show ?thesis by simp
qed

lemma get_utxos_state:
  "get_utxos nd addr flt s = (r, s1) \<Longrightarrow>
     param_queries s1 = param_queries s \<and> protocol_parameters s1 = protocol_parameters s \<and>
     submit_calls s1 = submit_calls s \<and> working_dir s1 = working_dir s \<and>
     ttl_buffer s1 = ttl_buffer s"
  by (cases "utxos_of_result (query_utxo nd addr) flt") (auto simp: get_utxos_def)

lemma brt_payment_error:
  "payment_args ra ps = Inl e \<Longrightarrow>
     build_raw_transaction nd pa wc ra ps certs dep cl s = (Inl e, s)"
  by (simp add: build_raw_transaction_def Let_def)

lemma brt_query_error:
  "payment_args ra ps = Inr (pz, pargs) \<Longrightarrow>
   get_utxos nd pa (Some ''Lovelace'') s = (Inl e, s1) \<Longrightarrow>
     build_raw_transaction nd pa wc ra ps certs dep cl s = (Inl e, s1)"
  by (simp add: build_raw_transaction_def Let_def)

lemma brt_tip_error:
  "payment_args ra ps = Inr (pz, pargs) \<Longrightarrow>
   get_utxos nd pa (Some ''Lovelace'') s = (Inr fetched, s1) \<Longrightarrow>
   get_tip nd = Inl e \<Longrightarrow>
     build_raw_transaction nd pa wc ra ps certs dep cl s = (Inl e, s1)"
  by (simp add: build_raw_transaction_def Let_def)

lemma brt_unfolded:
  assumes "payment_args ra ps = Inr (pz, pargs)"
    and "get_utxos nd pa (Some ''Lovelace'') s = (Inr fetched, s1)"
    and "get_tip nd = Inr tip"
    and "for_break (brt_body nd pa pz (cert_args_of certs) wc dep (total_payments_of ps))
           (brt_cond (minUTxOValue (query_protocol_parameters nd (param_queries s1))))
           (sort_utxos fetched) brt_init
           (s1\<lparr>protocol_parameters := Some (query_protocol_parameters nd (param_queries s1)),
               param_queries := Suc (param_queries s1)\<rparr>) = (r3, s3)"
  shows "build_raw_transaction nd pa wc ra ps certs dep cl s =
      (case r3 of Inl e \<Rightarrow> (Inl e, s3)
       | Inr v \<Rightarrow> brt_finish pa pargs (cert_args_of certs)
                    (minUTxOValue (query_protocol_parameters nd (param_queries s1)))
                    (tip + ttl_buffer s1) cl (CHR ''t'' # CHR ''x'' # CHR ''_'' # timestamp nd) v s3)"
  using assms
  by (simp add: build_raw_transaction_def selection_loop_def Let_def
        load_protocol_parameters_def)

lemma brt_shape:
  assumes ok: "build_raw_transaction nd pa wc ra ps certs dep cl s = (Inr (p, body), s')"
  shows "\<exists>pz pargs fetched s1 k.
           payment_args ra ps = Inr (pz, pargs) \<and>
           get_utxos nd pa (Some ''Lovelace'') s = (Inr fetched, s1) \<and>
           0 < k \<and> k \<le> length fetched \<and>
           tx_in body = map tx_ref (take k (sort_utxos fetched)) \<and>
           0 \<le> sum_list (map lovelace_int (take k (sort_utxos fetched)))
                 - (fee body + dep + total_payments_of ps) \<and>
           tx_out body =
             (if sum_list (map lovelace_int (take k (sort_utxos fetched)))
                   - (fee body + dep + total_payments_of ps) = 0 then []
              else [(pa, sum_list (map lovelace_int (take k (sort_utxos fetched)))
                         - (fee body + dep + total_payments_of ps))]) @ pargs \<and>
           (sum_list (map lovelace_int (take k (sort_utxos fetched)))
                 - (fee body + dep + total_payments_of ps) = 0 \<or>
            minUTxOValue (query_protocol_parameters nd (param_queries s))
              \<le> sum_list (map lovelace_int (take k (sort_utxos fetched)))
                 - (fee body + dep + total_payments_of ps)) \<and>
           param_queries s' = param_queries s + 1 + k \<and>
           protocol_parameters s' = Some (query_protocol_parameters nd (param_queries s + k))"
proof -
  obtain pz pargs where pa: "payment_args ra ps = Inr (pz, pargs)"
  proof (cases "payment_args ra ps")
    case (Inl e)
    from brt_payment_error[OF this] ok show ?thesis by simp
  next
    case (Inr x)
    with that show ?thesis by (cases x) simp
  qed
  obtain r1 s1 where gu0: "get_utxos nd pa (Some ''Lovelace'') s = (r1, s1)"
    by (cases "get_utxos nd pa (Some ''Lovelace'') s")
  obtain fetched where gu: "get_utxos nd pa (Some ''Lovelace'') s = (Inr fetched, s1)"
  proof (cases r1)
    case (Inl e)
    with brt_query_error[OF pa] gu0 ok show ?thesis by simp
  next
    case (Inr x)
    with that gu0 show ?thesis by simp
  qed
  obtain tip where tip: "get_tip nd = Inr tip"
  proof (cases "get_tip nd")
    case (Inl e)
    from brt_tip_error[OF pa gu this] ok show ?thesis by simp
  next
    case (Inr x)
    with that show ?thesis by simp
  qed
  define s2 where "s2 = s1\<lparr>protocol_parameters :=
      Some (query_protocol_parameters nd (param_queries s1)),
      param_queries := Suc (param_queries s1)\<rparr>"
  define min_utxo where "min_utxo = minUTxOValue (query_protocol_parameters nd (param_queries s1))"
  define tp where "tp = total_payments_of ps"
  define ca where "ca = cert_args_of certs"
  let ?body = "brt_body nd pa pz ca wc dep tp"
  let ?us = "sort_utxos fetched"
  obtain r3 s3 where loop0: "for_break ?body (brt_cond min_utxo) ?us brt_init s2 = (r3, s3)"
    by (cases "for_break ?body (brt_cond min_utxo) ?us brt_init s2")
  have fin0: "(case r3 of Inl e \<Rightarrow> (Inl e, s3)
       | Inr v \<Rightarrow> brt_finish pa pargs ca min_utxo (tip + ttl_buffer s1) cl
                    (CHR ''t'' # CHR ''x'' # CHR ''_'' # timestamp nd) v s3) = (Inr (p, body), s')"
    using brt_unfolded[OF pa gu tip loop0[unfolded s2_def min_utxo_def tp_def ca_def]] ok
    unfolding s2_def min_utxo_def tp_def ca_def by simp
  then obtain v where r3: "r3 = Inr v" by (cases r3) simp_all
  from loop0 r3 have loop: "for_break ?body (brt_cond min_utxo) ?us brt_init s2 = (Inr v, s3)"
    by simp
  from fin0 r3 have
    fin: "brt_finish pa pargs ca min_utxo (tip + ttl_buffer s1) cl
            (CHR ''t'' # CHR ''x'' # CHR ''_'' # timestamp nd) v s3 = (Inr (p, body), s')"
    by simp
  from for_break_first[OF loop] obtain k where k: "k \<le> length ?us"
    "run_prefix ?body (take k ?us) brt_init s2 = (Inr v, s3)" by blast
  note pre = brt_prefix[OF k(2)]
  note f = brt_finish_success[OF fin]
  have kpos: "0 < k"
  proof (rule ccontr)
    assume "\<not> 0 < k"
    with k(2) have "v = brt_init" by (simp add: run_prefix_def)
    with f show False by (simp add: brt_init_def sys_maxsize_def)
  qed
  with k(1) have ne: "?us \<noteq> []" by auto
  note l = brt_last[OF loop ne]
  have len: "length ?us = length fetched" by (simp add: sort_utxos_def)
  have s2: "param_queries s2 = Suc (param_queries s)"
    using get_utxos_state[OF gu] by (simp add: s2_def)
  have mu: "min_utxo = minUTxOValue (query_protocol_parameters nd (param_queries s))"
    using get_utxos_state[OF gu] by (simp add: min_utxo_def)
  have total: "utxo_total v = sum_list (map lovelace_int (take k ?us))"
    and ins: "tx_in_str v = map tx_ref (take k ?us)"
    and pq: "param_queries s3 = param_queries s + 1 + k"
    using pre k(1) s2 by (simp_all add: brt_init_def min_def)
  let ?total = "sum_list (map lovelace_int (take k ?us))"
  let ?change = "?total - (fee body + dep + total_payments_of ps)"
  from f l obtain amt where amt: "utxo_amt v = Some amt" "amt = utxo_total v - lovelaces_out v"
    "\<not> (amt \<noteq> 0 \<and> amt < min_utxo)" "tx_out body = (if amt = 0 then [] else [(pa, amt)]) @ pargs"
    by auto
  have out: "lovelaces_out v = fee body + dep + total_payments_of ps"
    using l f by (simp add: tp_def)
  have c: "amt = ?change" using amt(2) total out by simp
  have nonneg: "0 \<le> ?change" using f total out by simp
  have outs: "tx_out body = (if ?change = 0 then [] else [(pa, ?change)]) @ pargs"
    using amt(4) unfolding c .
  have dust: "?change = 0 \<or>
      minUTxOValue (query_protocol_parameters nd (param_queries s)) \<le> ?change"
    using amt(3) unfolding c mu by linarith
  have pq': "param_queries s' = param_queries s + 1 + k" using f pq by simp
  have pp: "protocol_parameters s' = Some (query_protocol_parameters nd (param_queries s + k))"
    using l f pq by simp
  have ins': "tx_in body = map tx_ref (take k (sort_utxos fetched))" using f ins by simp
  have kle: "k \<le> length fetched" using k(1) len by simp
  show ?thesis
  proof (intro exI conjI)
    show "payment_args ra ps = Inr (pz, pargs)" by fact
    show "get_utxos nd pa (Some ''Lovelace'') s = (Inr fetched, s1)" by fact
    show "0 < k" by fact
    show "k \<le> length fetched" by fact
    show "tx_in body = map tx_ref (take k (sort_utxos fetched))" by fact
    show "0 \<le> ?change" by fact
    show "tx_out body = (if ?change = 0 then [] else [(pa, ?change)]) @ pargs" by fact
    show "?change = 0 \<or>
      minUTxOValue (query_protocol_parameters nd (param_queries s)) \<le> ?change" by fact
    show "param_queries s' = param_queries s + 1 + k" by fact
    show "protocol_parameters s' = Some (query_protocol_parameters nd (param_queries s + k))"
      by fact
  qed
qed


subsection \<open>The operations on the concrete node\<close>

lemma demo_get_utxos_me:
  "get_utxos demo_node ''me'' (Some ''Lovelace'') s =
     (Inr [lovelace_utxo ''aa'' ''0'' ''3000000'', lovelace_utxo ''bb'' ''1'' ''5000000'',
           lovelace_utxo ''cc'' ''0'' ''2000000''], s)"
  "get_utxos demo_node ''me'' None s =
     (Inr [lovelace_utxo ''aa'' ''0'' ''3000000'', lovelace_utxo ''bb'' ''1'' ''5000000'',
           lovelace_utxo ''cc'' ''0'' ''2000000''], s)"
  by (simp_all add: get_utxos_def utxos_of_result_def demo_node_def demo_query_utxo_def
      split_lines_def parse_utxo_line_def str_split_def is_space_def filter_utxos_def
      has_key_def n_keys_def lovelace_utxo_def Let_def)

lemma demo_node_fields:
  "get_tip demo_node = Inr 500"
  "timestamp demo_node = ''2021-03-01_12h00m00s''"
  "query_protocol_parameters demo_node k = demo_params"
  "sign demo_node tx_file skeys = []"
  "submit demo_node signed = []"
  by (simp_all add: get_tip_def demo_node_def)

lemma demo_sort_me:
  "sort_utxos [lovelace_utxo ''aa'' ''0'' ''3000000'', lovelace_utxo ''bb'' ''1'' ''5000000'',
           lovelace_utxo ''cc'' ''0'' ''2000000''] = demo_utxos"
  by (simp add: sort_utxos_def demo_utxos_def lovelace_utxo_def)

lemma demo_selection_any:
  "selection_loop demo_node pa pz ca wc 0 5000000 1000000 demo_utxos s =
     (Inr demo_vars,
      s\<lparr>protocol_parameters := Some demo_params, param_queries := Suc (Suc (param_queries s))\<rparr>)"
  by (simp add: selection_loop_def brt_body_def brt_init_def brt_cond_def demo_vars_def
        demo_utxos_def lovelace_utxo_def py_int_def digit_of_def calc_min_fee_def
        load_protocol_parameters_def demo_node_def str_split_def is_space_def Let_def)

lemma fmt_0f_exact: "\<bar>amt\<bar> < 2 ^ 53 \<Longrightarrow> fmt_0f amt = Inr amt"
proof -
  assume a: "\<bar>amt\<bar> < 2 ^ 53"
  then have "mantissa_shift \<bar>amt\<bar> = 0" by (subst mantissa_shift.simps) simp
  moreover from a have "\<not> 2 ^ 1024 \<le> \<bar>amt\<bar>" by simp
  moreover have "sgn amt * \<bar>amt\<bar> = amt" by (simp add: mult_sgn_abs)
  ultimately show ?thesis by (simp add: fmt_0f_def Let_def)
qed

lemma demo_build:
  "build_raw_transaction demo_node ''me'' 1 (Some [''you'']) (Some [5000000]) None 0 True demo_state =
     (Inr (\<lparr>folder = ''/w'', stem = ''tx_2021-03-01_12h00m00s'', suffix = ''.raw''\<rparr>,
           \<lparr>tx_in = [(''bb'', ''1''), (''aa'', ''0'')],
             tx_out = [(''me'', 2830000), (''you'', 5000000)],
             ttl = 1500, fee = 170000, certificate_files = [], withdrawal = None\<rparr>),
      demo_state\<lparr>protocol_parameters := Some demo_params, param_queries := 3,
                 removed := [''/w/tx_2021-03-01_12h00m00s.draft'']\<rparr>)"
  by (simp add: build_raw_transaction_def payment_args_def total_payments_of_def cert_args_of_def
        fmt_0f_exact demo_get_utxos_me demo_sort_me demo_node_fields load_protocol_parameters_def
        demo_selection_any brt_finish_def demo_vars_def cleanup_file_def path_str_def
        sys_maxsize_def demo_state_def demo_params_def Let_def)

lemma calc_min_fee_reads_fresh:
  "calc_min_fee nd tx_draft n_in n_out n_wit n_byron s =
     ((case str_split (calculate_min_fee nd (query_protocol_parameters nd (param_queries s))
                         tx_draft n_in n_out n_wit n_byron) of
         [] \<Rightarrow> Inl IndexError
       | w # _ \<Rightarrow> py_int w),
      s\<lparr>protocol_parameters := Some (query_protocol_parameters nd (param_queries s)),
        param_queries := Suc (param_queries s)\<rparr>)"
  by (simp add: calc_min_fee_def load_protocol_parameters_def Let_def split: list.splits)

lemma drifting_node_fields:
  "get_tip drifting_node = Inr 500"
  "timestamp drifting_node = ''2021-03-01_12h00m00s''"
  "query_protocol_parameters drifting_node k = demo_params\<lparr>eMax := 18 + int k\<rparr>"
  "get_utxos drifting_node = get_utxos demo_node"
  by (simp_all add: get_tip_def drifting_node_def demo_node_def get_utxos_def fun_eq_iff)

lemma drifting_selection:
  "selection_loop drifting_node pa pz ca wc 0 5000000 1000000 demo_utxos
     (s\<lparr>param_queries := 1\<rparr>) =
     (Inr \<lparr>utxo_count = 2, utxo_total = 8000000, tx_in_str = [(''bb'', ''1''), (''aa'', ''0'')],
           min_fee = 180000, lovelaces_out = 5180000, utxo_amt = Some 2820000, cost = None\<rparr>,
      s\<lparr>protocol_parameters := Some (demo_params\<lparr>eMax := 20\<rparr>), param_queries := 3\<rparr>)"
  by (simp add: selection_loop_def brt_body_def brt_init_def brt_cond_def
        demo_utxos_def lovelace_utxo_def py_int_def digit_of_def calc_min_fee_def
        load_protocol_parameters_def drifting_node_def demo_node_def demo_params_def
        str_split_def is_space_def Let_def)


lemma demo_selection_exhausted:
  "selection_loop demo_node pa pz ca wc 0 8830000 1000000 demo_utxos s =
     (Inr \<lparr>utxo_count = 3, utxo_total = 10000000,
           tx_in_str = [(''bb'', ''1''), (''aa'', ''0''), (''cc'', ''0'')],
           min_fee = 170000, lovelaces_out = 9000000, utxo_amt = Some 1000000, cost = None\<rparr>,
      s\<lparr>protocol_parameters := Some demo_params,
        param_queries := Suc (Suc (Suc (param_queries s)))\<rparr>)"
  by (simp add: selection_loop_def brt_body_def brt_init_def brt_cond_def
        demo_utxos_def lovelace_utxo_def py_int_def digit_of_def calc_min_fee_def
        load_protocol_parameters_def demo_node_def str_split_def is_space_def Let_def)

lemma demo_build_exact_minimum:
  "build_raw_transaction demo_node ''me'' 1 (Some [''you'']) (Some [8830000]) None 0 True
     demo_state =
     (Inr (\<lparr>folder = ''/w'', stem = ''tx_2021-03-01_12h00m00s'', suffix = ''.raw''\<rparr>,
           \<lparr>tx_in = [(''bb'', ''1''), (''aa'', ''0''), (''cc'', ''0'')],
             tx_out = [(''me'', 1000000), (''you'', 8830000)],
             ttl = 1500, fee = 170000, certificate_files = [], withdrawal = None\<rparr>),
      demo_state\<lparr>protocol_parameters := Some demo_params, param_queries := 4,
                 removed := [''/w/tx_2021-03-01_12h00m00s.draft'']\<rparr>)"
  by (simp add: build_raw_transaction_def payment_args_def total_payments_of_def cert_args_of_def
        fmt_0f_exact demo_get_utxos_me demo_sort_me demo_node_fields load_protocol_parameters_def
        demo_selection_exhausted brt_finish_def cleanup_file_def path_str_def
        sys_maxsize_def demo_state_def demo_params_def Let_def)

lemma demo_get_utxos_poor:
  "get_utxos demo_node ''poor'' None s = (Inr [lovelace_utxo ''dd'' ''0'' ''2500000''], s)"
  by (simp add: get_utxos_def utxos_of_result_def demo_node_def demo_query_utxo_def
      split_lines_def parse_utxo_line_def str_split_def is_space_def filter_utxos_def
      lovelace_utxo_def Let_def)

lemma demo_calc_min_fee:
  "calc_min_fee demo_node tx_draft n_in n_out n_wit n_byron s =
     (Inr 170000,
      s\<lparr>protocol_parameters := Some demo_params, param_queries := Suc (param_queries s)\<rparr>)"
  by (simp add: calc_min_fee_def load_protocol_parameters_def demo_node_def str_split_def
        is_space_def py_int_def digit_of_def Let_def)

lemma demo_rsa_loop_poor:
  "for_break (rsa_body demo_node addr cert) rsa_cond [lovelace_utxo ''dd'' ''0'' ''2500000'']
     rsa_init s =
   (Inr \<lparr>utxo_count = 1, utxo_total = 2500000, tx_in_str = [(''dd'', ''0'')],
         min_fee = 170000, lovelaces_out = 0, utxo_amt = None, cost = Some 2170000\<rparr>,
    s\<lparr>protocol_parameters := Some demo_params, param_queries := Suc (param_queries s)\<rparr>)"
  by (simp add: rsa_body_def rsa_init_def rsa_cond_def demo_calc_min_fee lovelace_utxo_def
        py_int_def digit_of_def demo_params_def Let_def)

lemma demo_rsa_build_poor:
  "rsa_build demo_node ''poor'' ''stake.cert'' ''reg_stake_key_2021-03-01_12h00m00s'' demo_state =
     (Inr (\<lparr>folder = ''/w'', stem = ''reg_stake_key_2021-03-01_12h00m00s'', suffix = ''.raw''\<rparr>,
           \<lparr>tx_in = [(''dd'', ''0'')], tx_out = [(''poor'', 330000)],
             ttl = 1500, fee = 170000, certificate_files = [''stake.cert''],
             withdrawal = None\<rparr>),
      demo_state\<lparr>protocol_parameters := Some demo_params, param_queries := 2\<rparr>)"
  by (simp add: rsa_build_def demo_get_utxos_poor demo_node_fields sort_utxos_def
        load_protocol_parameters_def demo_rsa_loop_poor demo_state_def Let_def
        del: for_break.simps)




lemma rsp_query_error:
  "get_utxos nd pa None s = (Inl e, s1) \<Longrightarrow>
     rsp_build nd cert dc sk pool_deposit pa name s = (Inl e, s1)"
  by (simp add: rsp_build_def)

lemma rsp_tip_error:
  "get_utxos nd pa None s = (Inr fetched, s1) \<Longrightarrow> get_tip nd = Inl e \<Longrightarrow>
     rsp_build nd cert dc sk pool_deposit pa name s = (Inl e, s1)"
  by (simp add: rsp_build_def Let_def)

lemma rsp_unfolded:
  assumes "get_utxos nd pa None s = (Inr fetched, s1)"
    and "get_tip nd = Inr tip"
    and "for_break (pool_body nd pa cert dc sk) (rsp_cond pool_deposit) (sort_utxos fetched)
           pool_init
           (s1\<lparr>protocol_parameters := Some (query_protocol_parameters nd (param_queries s1)),
               param_queries := Suc (param_queries s1)\<rparr>) = (r3, s3)"
  shows "rsp_build nd cert dc sk pool_deposit pa name s =
      (case r3 of Inl e \<Rightarrow> (Inl e, s3)
       | Inr v \<Rightarrow>
           if utxo_total v < min_fee v + pool_deposit then
             (Inl (ShelleyError (InsufficientFunds pa (min_fee v + pool_deposit) (utxo_total v))),
              s3)
           else
             (Inr (\<lparr>folder = working_dir s3, stem = name, suffix = ''.raw''\<rparr>,
                   \<lparr>tx_in = tx_in_str v,
                     tx_out = [(pa, utxo_total v - min_fee v - pool_deposit)],
                     ttl = tip + ttl_buffer s1, fee = min_fee v,
                     certificate_files = cert # dc, withdrawal = None\<rparr>), s3))"
  using assms
  by (simp add: rsp_build_def Let_def load_protocol_parameters_def)



lemma demo_rsp_loop_any:
  "for_break (pool_body demo_node pa cert dc sk) (rsp_cond 4829995) demo_utxos pool_init s =
   (Inr \<lparr>utxo_count = 2, utxo_total = 8000000, tx_in_str = [(''bb'', ''1''), (''aa'', ''0'')],
         min_fee = 170000, lovelaces_out = 0, utxo_amt = None, cost = None\<rparr>,
    s\<lparr>protocol_parameters := Some demo_params,
      param_queries := Suc (Suc (param_queries s))\<rparr>)"
  by (simp add: pool_body_def pool_init_def rsp_cond_def demo_calc_min_fee demo_utxos_def
        lovelace_utxo_def py_int_def digit_of_def Let_def)

lemma demo_rsp_build:
  "rsp_build demo_node ''pool.cert'' [''deleg.cert''] [''owner.skey''] 4829995 ''me''
     ''reg_pool_2021-03-01_12h00m00s'' demo_state =
     (Inr (\<lparr>folder = ''/w'', stem = ''reg_pool_2021-03-01_12h00m00s'', suffix = ''.raw''\<rparr>,
           \<lparr>tx_in = [(''bb'', ''1''), (''aa'', ''0'')], tx_out = [(''me'', 3000005)],
             ttl = 1500, fee = 170000, certificate_files = [''pool.cert'', ''deleg.cert''],
             withdrawal = None\<rparr>),
      demo_state\<lparr>protocol_parameters := Some demo_params, param_queries := 3\<rparr>)"
  by (simp add: rsp_build_def demo_get_utxos_me demo_sort_me demo_node_fields
        load_protocol_parameters_def demo_rsp_loop_any demo_state_def Let_def)




lemma brt_body_frame:
  "brt_body nd pa pz ca wc dep tp u v s = (r, s') \<Longrightarrow>
     (submit_calls s', working_dir s') = (submit_calls s, working_dir s)"
  by (cases "py_int (Lovelace u)")
    (auto simp: brt_body_def calc_min_fee_reads_fresh Let_def split: list.splits sum.splits)

lemma rsa_body_frame:
  "rsa_body nd addr cert u v s = (r, s') \<Longrightarrow>
     (submit_calls s', working_dir s') = (submit_calls s, working_dir s)"
  by (cases "py_int (Lovelace u)")
    (auto simp: rsa_body_def calc_min_fee_reads_fresh Let_def split: list.splits sum.splits)

lemma brt_finish_frame:
  assumes "brt_finish pa pargs ca min_utxo ttl_val cl name v s3 = (r, s')"
  shows "submit_calls s' = submit_calls s3 \<and> working_dir s' = working_dir s3 \<and>
         (\<forall>p body. r = Inr (p, body) \<longrightarrow> stem p = name)"
proof -
  have "submit_calls (snd (brt_finish pa pargs ca min_utxo ttl_val cl name v s3)) = submit_calls s3"
    "working_dir (snd (brt_finish pa pargs ca min_utxo ttl_val cl name v s3)) = working_dir s3"
    "\<forall>p body. fst (brt_finish pa pargs ca min_utxo ttl_val cl name v s3) = Inr (p, body)
        \<longrightarrow> stem p = name"
    by (simp_all add: brt_finish_def Let_def cleanup_file_def split: option.split)
  with assms show ?thesis by simp
qed

lemma brt_frame:
  assumes run: "build_raw_transaction nd pa wc ra ps certs dep cl s = (r, s')"
  shows "submit_calls s' = submit_calls s \<and> working_dir s' = working_dir s \<and>
         (\<forall>p body. r = Inr (p, body) \<longrightarrow> stem p = ''tx_'' @ timestamp nd)"
proof (cases "payment_args ra ps")
  case (Inl e)
  from brt_payment_error[OF this] run show ?thesis by auto
next
  case (Inr x)
  then obtain pz pargs where pa: "payment_args ra ps = Inr (pz, pargs)" by (cases x) simp
  obtain r1 s1 where gu0: "get_utxos nd pa (Some ''Lovelace'') s = (r1, s1)"
    by (cases "get_utxos nd pa (Some ''Lovelace'') s")
  note g = get_utxos_state[OF gu0]
  show ?thesis
  proof (cases r1)
    case (Inl e)
    with brt_query_error[OF pa] gu0 run g show ?thesis by auto
  next
    case fetched: (Inr fetched)
    with gu0 have gu: "get_utxos nd pa (Some ''Lovelace'') s = (Inr fetched, s1)" by simp
    show ?thesis
    proof (cases "get_tip nd")
      case (Inl e)
      from brt_tip_error[OF pa gu this] run g show ?thesis by auto
    next
      case tip: (Inr tip)
      let ?s2 = "s1\<lparr>protocol_parameters := Some (query_protocol_parameters nd (param_queries s1)),
               param_queries := Suc (param_queries s1)\<rparr>"
      obtain r3 s3 where loop0:
        "for_break (brt_body nd pa pz (cert_args_of certs) wc dep (total_payments_of ps))
           (brt_cond (minUTxOValue (query_protocol_parameters nd (param_queries s1))))
           (sort_utxos fetched) brt_init ?s2 = (r3, s3)"
        by (cases "for_break (brt_body nd pa pz (cert_args_of certs) wc dep (total_payments_of ps))
           (brt_cond (minUTxOValue (query_protocol_parameters nd (param_queries s1))))
           (sort_utxos fetched) brt_init ?s2")
      have "(submit_calls s3, working_dir s3) = (submit_calls ?s2, working_dir ?s2)"
        by (rule for_break_frame[where f = "\<lambda>s. (submit_calls s, working_dir s)", OF _ loop0])
          (rule brt_body_frame)
      then have f3: "submit_calls s3 = submit_calls s1" "working_dir s3 = working_dir s1" by simp_all
      note unf = brt_unfolded[OF pa gu tip loop0, of cl]
      show ?thesis
      proof (cases r3)
        case (Inl e)
        with unf run f3 g show ?thesis by auto
      next
        case (Inr v)
        with unf run have "brt_finish pa pargs (cert_args_of certs)
            (minUTxOValue (query_protocol_parameters nd (param_queries s1)))
            (tip + ttl_buffer s1) cl (CHR ''t'' # CHR ''x'' # CHR ''_'' # timestamp nd) v s3 = (r, s')"
          by simp
        from brt_finish_frame[OF this] f3 g show ?thesis by auto
      qed
    qed
  qed
qed

lemma rsa_tip_error:
  "get_tip nd = Inl e \<Longrightarrow> rsa_build nd addr cert name s = (Inl e, s)"
  by (simp add: rsa_build_def)

lemma rsa_query_error:
  "get_tip nd = Inr tip \<Longrightarrow> get_utxos nd addr None s = (Inl e, s1) \<Longrightarrow>
     rsa_build nd addr cert name s = (Inl e, s1)"
  by (simp add: rsa_build_def Let_def)

lemma rsa_unfolded:
  assumes "get_tip nd = Inr tip"
    and "get_utxos nd addr None s = (Inr fetched, s1)"
    and "for_break (rsa_body nd addr cert) rsa_cond (sort_utxos fetched) rsa_init
           (s1\<lparr>protocol_parameters := Some (query_protocol_parameters nd (param_queries s1)),
               param_queries := Suc (param_queries s1)\<rparr>) = (r3, s3)"
  shows "rsa_build nd addr cert name s =
      (if length fetched < 1 then (Inl (ShelleyError (NoAda addr)), s1)
       else
         (case r3 of Inl e \<Rightarrow> (Inl e, s3)
          | Inr v \<Rightarrow>
              (case cost v of
                 None \<Rightarrow> (Inl UnboundLocalError, s3)
               | Some c \<Rightarrow>
                   if utxo_total v < c then
                     (Inl (ShelleyError (InsufficientFunds addr c (utxo_total v))), s3)
                   else
                     (Inr (\<lparr>folder = working_dir s3, stem = name, suffix = ''.raw''\<rparr>,
                           \<lparr>tx_in = tx_in_str v, tx_out = [(addr, utxo_total v - c)],
                             ttl = tip + ttl_buffer s, fee = min_fee v,
                             certificate_files = [cert], withdrawal = None\<rparr>), s3))))"
  using assms
  by (simp add: rsa_build_def Let_def load_protocol_parameters_def)

lemma rsa_frame:
  assumes run: "rsa_build nd addr cert name s = (r, s')"
  shows "submit_calls s' = submit_calls s \<and> working_dir s' = working_dir s"
proof (cases "get_tip nd")
  case (Inl e)
  from rsa_tip_error[OF this] run show ?thesis by simp
next
  case tip: (Inr tip)
  obtain r1 s1 where gu0: "get_utxos nd addr None s = (r1, s1)"
    by (cases "get_utxos nd addr None s")
  note g = get_utxos_state[OF gu0]
  show ?thesis
  proof (cases r1)
    case (Inl e)
    with rsa_query_error[OF tip] gu0 run g show ?thesis by simp
  next
    case fetched: (Inr fetched)
    with gu0 have gu: "get_utxos nd addr None s = (Inr fetched, s1)" by simp
    let ?s2 = "s1\<lparr>protocol_parameters := Some (query_protocol_parameters nd (param_queries s1)),
               param_queries := Suc (param_queries s1)\<rparr>"
    obtain r3 s3 where loop0:
      "for_break (rsa_body nd addr cert) rsa_cond (sort_utxos fetched) rsa_init ?s2 = (r3, s3)"
      by (cases "for_break (rsa_body nd addr cert) rsa_cond (sort_utxos fetched) rsa_init ?s2")
    have "(submit_calls s3, working_dir s3) = (submit_calls ?s2, working_dir ?s2)"
      by (rule for_break_frame[where f = "\<lambda>s. (submit_calls s, working_dir s)", OF _ loop0])
        (rule rsa_body_frame)
    then have f3: "submit_calls s3 = submit_calls s1" "working_dir s3 = working_dir s1" by simp_all
    have "s' = s1 \<or> s' = s3"
      using rsa_unfolded[OF tip gu loop0, of name] run
      by (auto split: if_splits sum.splits option.splits)
    with f3 g show ?thesis by auto
  qed
qed

lemma submit_or_print_offline:
  "submit_or_print nd True cleanup tx_signed_file s =
     (Inr None, s\<lparr>printed := printed s @ [''Signed transaction file saved to: '' @ tx_signed_file]\<rparr>)"
  by (simp add: submit_or_print_def)

lemma sign_and_send_offline:
  "sign_and_send nd tx_name True cleanup s = (r, s') \<Longrightarrow>
     r = Inr None \<and> submit_calls s' = submit_calls s \<and>
     last (printed s') = ''Signed transaction file saved to: '' @
        path_str \<lparr>folder = working_dir s, stem = tx_name, suffix = ''.signed''\<rparr>"
  by (auto simp: sign_and_send_def submit_or_print_offline cleanup_file_def Let_def)


lemma demo_rsa_build_poor_any:
  "rsa_build demo_node ''poor'' cert name demo_state =
     (Inr (\<lparr>folder = ''/w'', stem = name, suffix = ''.raw''\<rparr>,
           \<lparr>tx_in = [(''dd'', ''0'')], tx_out = [(''poor'', 330000)],
             ttl = 1500, fee = 170000, certificate_files = [cert], withdrawal = None\<rparr>),
      demo_state\<lparr>protocol_parameters := Some demo_params, param_queries := 2\<rparr>)"
  by (simp add: rsa_build_def demo_get_utxos_poor demo_node_fields sort_utxos_def
        load_protocol_parameters_def demo_rsa_loop_poor demo_state_def Let_def
        del: for_break.simps)

lemma demo_state_fields:
  "working_dir demo_state = ''/w''" "ttl_buffer demo_state = 1000"
  "protocol_parameters demo_state = None" "param_queries demo_state = 0"
  "printed demo_state = []" "submit_calls demo_state = []" "removed demo_state = []"
  by (simp_all add: demo_state_def)

lemma demo_build_any:
  "build_raw_transaction demo_node ''me'' wc (Some [''you'']) (Some [5000000]) None 0 True demo_state =
     (Inr (\<lparr>folder = ''/w'', stem = ''tx_2021-03-01_12h00m00s'', suffix = ''.raw''\<rparr>,
           \<lparr>tx_in = [(''bb'', ''1''), (''aa'', ''0'')],
             tx_out = [(''me'', 2830000), (''you'', 5000000)],
             ttl = 1500, fee = 170000, certificate_files = [], withdrawal = None\<rparr>),
      demo_state\<lparr>protocol_parameters := Some demo_params, param_queries := 3,
                 removed := [''/w/tx_2021-03-01_12h00m00s.draft'']\<rparr>)"
  by (simp add: build_raw_transaction_def payment_args_def total_payments_of_def cert_args_of_def
        fmt_0f_exact demo_get_utxos_me demo_sort_me demo_node_fields load_protocol_parameters_def
        demo_selection_any brt_finish_def demo_vars_def cleanup_file_def path_str_def
        sys_maxsize_def demo_state_def demo_params_def Let_def)

lemma demo_send_payment_offline:
  "send_payment demo_node 5 ''you'' ''me'' ''me.skey'' True True demo_state =
     (Inr None,
      demo_state\<lparr>protocol_parameters := Some demo_params, param_queries := 3,
        removed := [''/w/tx_2021-03-01_12h00m00s.draft'', ''/w/tx_2021-03-01_12h00m00s.raw''],
        printed := [''Signed transaction file saved to: tx_2021-03-01_12h00m00s.signed'']\<rparr>)"
  by (simp add: send_payment_def demo_build_any sign_transaction_def demo_node_fields
        cleanup_file_def path_str_def submit_or_print_offline demo_state_fields Let_def)

lemma demo_register_stake_address_offline:
  "register_stake_address demo_node ''poor''
     \<lparr>folder = ''/keys'', stem = ''stake'', suffix = ''.vkey''\<rparr> ''/keys/stake.skey''
     ''/keys/pay.skey'' True True demo_state =
     (Inr None,
      demo_state\<lparr>protocol_parameters := Some demo_params, param_queries := 2,
        removed := [''/w/reg_stake_key_2021-03-01_12h00m00s.draft'',
                    ''/w/reg_stake_key_2021-03-01_12h00m00s.raw''],
        printed := [''Signed transaction file saved to: /w/reg_stake_key_2021-03-01_12h00m00s.signed'']\<rparr>)"
  by (simp add: register_stake_address_def demo_rsa_build_poor_any sign_and_send_def
        demo_node_fields cleanup_file_def path_str_def submit_or_print_offline
        demo_state_fields Let_def)


lemma demo_get_utxos_mixed:
  "get_utxos demo_node ''mixed'' (Some ''Lovelace'') s =
     (Inr [lovelace_utxo ''ee'' ''0'' ''10000000'', lovelace_utxo ''ff'' ''0'' ''9000000''], s)"
  by (simp add: get_utxos_def utxos_of_result_def demo_node_def demo_query_utxo_def
      split_lines_def parse_utxo_line_def str_split_def is_space_def filter_utxos_def
      has_key_def n_keys_def lovelace_utxo_def Let_def)

lemma demo_sort_mixed:
  "sort_utxos [lovelace_utxo ''ee'' ''0'' ''10000000'', lovelace_utxo ''ff'' ''0'' ''9000000''] =
     [lovelace_utxo ''ff'' ''0'' ''9000000'', lovelace_utxo ''ee'' ''0'' ''10000000'']"
  by (simp add: sort_utxos_def lovelace_utxo_def)

lemma demo_amounts_mixed:
  "map lovelace_int [lovelace_utxo ''ff'' ''0'' ''9000000'', lovelace_utxo ''ee'' ''0'' ''10000000'']
     = [9000000, 10000000]"
  by (simp add: lovelace_int_def lovelace_utxo_def py_int_def digit_of_def)

lemma demo_selection_sentinel:
  "selection_loop demo_node pa pz ca wc 0 9223372036854605807 1000000 demo_utxos s =
     (Inr \<lparr>utxo_count = 3, utxo_total = 10000000,
           tx_in_str = [(''bb'', ''1''), (''aa'', ''0''), (''cc'', ''0'')],
           min_fee = 170000, lovelaces_out = 9223372036854775807,
           utxo_amt = Some (- 9223372036844775807), cost = None\<rparr>,
      s\<lparr>protocol_parameters := Some demo_params,
        param_queries := Suc (Suc (Suc (param_queries s)))\<rparr>)"
  by (simp add: selection_loop_def brt_body_def brt_init_def brt_cond_def demo_calc_min_fee
        demo_utxos_def lovelace_utxo_def py_int_def digit_of_def Let_def)

lemma mantissa_shift_step:
  "\<not> a < 2 ^ 53 \<Longrightarrow> mantissa_shift a = Suc (mantissa_shift (a div 2))"
  by (subst mantissa_shift.simps) simp

lemma mantissa_shift_base: "a < 2 ^ 53 \<Longrightarrow> mantissa_shift a = 0"
  by (subst mantissa_shift.simps) simp

lemma mantissa_shift_sentinel: "mantissa_shift 9223372036854605807 = 10"
  by (simp add: mantissa_shift_step mantissa_shift_base)

lemma fmt_0f_sentinel: "fmt_0f 9223372036854605807 = Inr 9223372036854605824"
  by (simp add: fmt_0f_def mantissa_shift_sentinel Let_def)

lemma demo_get_utxos_short:
  "get_utxos demo_node ''short'' flt s = (Inl IndexError, s)"
  by (simp add: get_utxos_def utxos_of_result_def demo_node_def demo_query_utxo_def
      split_lines_def parse_utxo_line_def str_split_def is_space_def Let_def)

lemma demo_get_utxos_down:
  "get_utxos demo_node ''down'' flt s = (Inr [], s)"
  by (cases flt)
    (simp_all add: get_utxos_def utxos_of_result_def demo_node_def demo_query_utxo_def
      split_lines_def filter_utxos_def Let_def)

lemma demo_queries:
  "query_utxo demo_node ''short'' =
     \<lparr>stdout = ''TxHash TxIx Amount\<newline>------\<newline>gg 0'', stderr = []\<rparr>"
  "query_utxo demo_node ''down'' =
     \<lparr>stdout = [], stderr = ''cardano-cli: connect: does not exist''\<rparr>"
  by (simp_all add: demo_node_def demo_query_utxo_def)







subsection \<open>The other operations with an \<^verbatim>\<open>offline\<close> flag\<close>

lemma pool_body_frame:
  "pool_body nd pa cert dc sk u v s = (r, s') \<Longrightarrow>
     (submit_calls s', working_dir s') = (submit_calls s, working_dir s)"
  by (cases "py_int (Lovelace u)")
    (auto simp: pool_body_def calc_min_fee_reads_fresh Let_def split: list.splits sum.splits)

lemma csr_body_frame:
  "csr_body nd sa rw ra pa u v s = (r, s') \<Longrightarrow>
     (submit_calls s', working_dir s') = (submit_calls s, working_dir s)"
  by (cases "py_int (Lovelace u)")
    (auto simp: csr_body_def calc_min_fee_reads_fresh Let_def split: list.splits sum.splits)

lemma rsp_frame:
  assumes run: "rsp_build nd cert dc sk pool_deposit pa name s = (r, s')"
  shows "submit_calls s' = submit_calls s \<and> working_dir s' = working_dir s"
proof -
  obtain r1 s1 where gu0: "get_utxos nd pa None s = (r1, s1)"
    by (cases "get_utxos nd pa None s")
  note g = get_utxos_state[OF gu0]
  show ?thesis
  proof (cases r1)
    case (Inl e)
    with rsp_query_error[of nd pa s e s1] gu0 run g show ?thesis by simp
  next
    case fetched: (Inr fetched)
    with gu0 have gu: "get_utxos nd pa None s = (Inr fetched, s1)" by simp
    show ?thesis
    proof (cases "get_tip nd")
      case (Inl e)
      from rsp_tip_error[OF gu this] run g show ?thesis by simp
    next
      case tip: (Inr tip)
      let ?s2 = "s1\<lparr>protocol_parameters := Some (query_protocol_parameters nd (param_queries s1)),
               param_queries := Suc (param_queries s1)\<rparr>"
      obtain r3 s3 where loop0:
        "for_break (pool_body nd pa cert dc sk) (rsp_cond pool_deposit) (sort_utxos fetched)
           pool_init ?s2 = (r3, s3)"
        by (cases "for_break (pool_body nd pa cert dc sk) (rsp_cond pool_deposit)
                     (sort_utxos fetched) pool_init ?s2")
      have "(submit_calls s3, working_dir s3) = (submit_calls ?s2, working_dir ?s2)"
        by (rule for_break_frame[where f = "\<lambda>s. (submit_calls s, working_dir s)", OF _ loop0])
          (rule pool_body_frame)
      then have f3: "submit_calls s3 = submit_calls s1" "working_dir s3 = working_dir s1"
        by simp_all
      have "s' = s3"
        using rsp_unfolded[OF gu tip loop0, of name] run
        by (auto split: if_splits sum.splits)
      with f3 g show ?thesis by simp
    qed
  qed
qed

lemma uspr_query_error:
  "get_utxos nd pa None s = (Inl e, s1) \<Longrightarrow>
     uspr_build nd cert dc sk pa name s = (Inl e, s1)"
  by (simp add: uspr_build_def)

lemma uspr_tip_error:
  "get_utxos nd pa None s = (Inr fetched, s1) \<Longrightarrow> get_tip nd = Inl e \<Longrightarrow>
     uspr_build nd cert dc sk pa name s = (Inl e, s1)"
  by (simp add: uspr_build_def Let_def)

lemma uspr_unfolded:
  assumes "get_utxos nd pa None s = (Inr fetched, s1)"
    and "get_tip nd = Inr tip"
    and "for_break (pool_body nd pa cert dc sk) (uspr_cond 0) (sort_utxos fetched)
           pool_init
           (s1\<lparr>protocol_parameters := Some (query_protocol_parameters nd (param_queries s1)),
               param_queries := Suc (param_queries s1)\<rparr>) = (r3, s3)"
  shows "uspr_build nd cert dc sk pa name s =
      (case r3 of Inl e \<Rightarrow> (Inl e, s3)
       | Inr v \<Rightarrow>
           if utxo_total v < min_fee v then
             (Inl (ShelleyError (InsufficientFunds pa (min_fee v + 0) (utxo_total v))), s3)
           else
             (Inr (\<lparr>folder = working_dir s3, stem = name, suffix = ''.raw''\<rparr>,
                   \<lparr>tx_in = tx_in_str v,
                     tx_out = [(pa, utxo_total v - min_fee v - 0)],
                     ttl = tip + ttl_buffer s1, fee = min_fee v,
                     certificate_files = cert # dc, withdrawal = None\<rparr>), s3))"
  using assms
  by (simp add: uspr_build_def Let_def load_protocol_parameters_def)

lemma uspr_frame:
  assumes run: "uspr_build nd cert dc sk pa name s = (r, s')"
  shows "submit_calls s' = submit_calls s \<and> working_dir s' = working_dir s"
proof -
  obtain r1 s1 where gu0: "get_utxos nd pa None s = (r1, s1)"
    by (cases "get_utxos nd pa None s")
  note g = get_utxos_state[OF gu0]
  show ?thesis
  proof (cases r1)
    case (Inl e)
    with uspr_query_error[of nd pa s e s1] gu0 run g show ?thesis by simp
  next
    case fetched: (Inr fetched)
    with gu0 have gu: "get_utxos nd pa None s = (Inr fetched, s1)" by simp
    show ?thesis
    proof (cases "get_tip nd")
      case (Inl e)
      from uspr_tip_error[OF gu this] run g show ?thesis by simp
    next
      case tip: (Inr tip)
      let ?s2 = "s1\<lparr>protocol_parameters := Some (query_protocol_parameters nd (param_queries s1)),
               param_queries := Suc (param_queries s1)\<rparr>"
      obtain r3 s3 where loop0:
        "for_break (pool_body nd pa cert dc sk) (uspr_cond 0) (sort_utxos fetched)
           pool_init ?s2 = (r3, s3)"
        by (cases "for_break (pool_body nd pa cert dc sk) (uspr_cond 0)
                     (sort_utxos fetched) pool_init ?s2")
      have "(submit_calls s3, working_dir s3) = (submit_calls ?s2, working_dir ?s2)"
        by (rule for_break_frame[where f = "\<lambda>s. (submit_calls s, working_dir s)", OF _ loop0])
          (rule pool_body_frame)
      then have f3: "submit_calls s3 = submit_calls s1" "working_dir s3 = working_dir s1"
        by simp_all
      have "s' = s3"
        using uspr_unfolded[OF gu tip loop0, of name] run
        by (auto split: if_splits sum.splits)
      with f3 g show ?thesis by simp
    qed
  qed
qed

lemma csr_rewards_error:
  "get_rewards_balance nd sa = Inl e \<Longrightarrow> csr_build nd sa ra pa_arg name s = (Inl e, s)"
  by (simp add: csr_build_def)

lemma csr_no_rewards:
  "get_rewards_balance nd sa = Inr rw \<Longrightarrow> rw \<le> 0 \<Longrightarrow>
     csr_build nd sa ra pa_arg name s = (Inl (ShelleyError (NoRewards sa)), s)"
  by (simp add: csr_build_def)

lemma csr_query_error:
  "get_rewards_balance nd sa = Inr rw \<Longrightarrow> 0 < rw \<Longrightarrow>
   get_utxos nd (case pa_arg of None \<Rightarrow> ra | Some a \<Rightarrow> a) None s = (Inl e, s1) \<Longrightarrow>
     csr_build nd sa ra pa_arg name s = (Inl e, s1)"
  by (simp add: csr_build_def Let_def)

lemma csr_empty:
  "get_rewards_balance nd sa = Inr rw \<Longrightarrow> 0 < rw \<Longrightarrow>
   get_utxos nd (case pa_arg of None \<Rightarrow> ra | Some a \<Rightarrow> a) None s = (Inr [], s1) \<Longrightarrow>
     csr_build nd sa ra pa_arg name s =
       (Inl (ShelleyError (NoAda (case pa_arg of None \<Rightarrow> ra | Some a \<Rightarrow> a))), s1)"
  by (simp add: csr_build_def Let_def)

lemma csr_tip_error:
  "get_rewards_balance nd sa = Inr rw \<Longrightarrow> 0 < rw \<Longrightarrow>
   get_utxos nd (case pa_arg of None \<Rightarrow> ra | Some a \<Rightarrow> a) None s = (Inr fetched, s1) \<Longrightarrow>
   fetched \<noteq> [] \<Longrightarrow> get_tip nd = Inl e \<Longrightarrow>
     csr_build nd sa ra pa_arg name s =
       (Inl e, s1\<lparr>protocol_parameters := Some (query_protocol_parameters nd (param_queries s1)),
                   param_queries := Suc (param_queries s1)\<rparr>)"
  by (simp add: csr_build_def Let_def load_protocol_parameters_def)

lemma csr_unfolded:
  assumes "get_rewards_balance nd sa = Inr rw" and "0 < rw"
    and "get_utxos nd (case pa_arg of None \<Rightarrow> ra | Some a \<Rightarrow> a) None s = (Inr fetched, s1)"
    and "fetched \<noteq> []" and "get_tip nd = Inr tip"
    and "for_break (csr_body nd sa rw ra (case pa_arg of None \<Rightarrow> ra | Some a \<Rightarrow> a)) csr_cond
           (sort_utxos fetched) csr_init
           (s1\<lparr>protocol_parameters := Some (query_protocol_parameters nd (param_queries s1)),
               param_queries := Suc (param_queries s1)\<rparr>) = (r3, s3)"
  shows "csr_build nd sa ra pa_arg name s =
      (case r3 of Inl e \<Rightarrow> (Inl e, s3)
       | Inr v \<Rightarrow>
           if utxo_count v = 0 then (Inl UnboundLocalError, s3)
           else if utxo_total v < min_fee v then
             (Inl (ShelleyError
                (InsufficientFunds (case pa_arg of None \<Rightarrow> ra | Some a \<Rightarrow> a) (min_fee v)
                   (utxo_total v))), s3)
           else
             (Inr (\<lparr>folder = working_dir s3, stem = name, suffix = ''.raw''\<rparr>,
                   \<lparr>tx_in = tx_in_str v,
                     tx_out =
                       (if (case pa_arg of None \<Rightarrow> ra | Some a \<Rightarrow> a) = ra
                        then [(ra, utxo_total v - min_fee v + rw)]
                        else [((case pa_arg of None \<Rightarrow> ra | Some a \<Rightarrow> a),
                               utxo_total v - min_fee v), (ra, rw)]),
                     ttl = tip + ttl_buffer s1, fee = min_fee v,
                     certificate_files = [],
                     withdrawal = Some (sa, rw)\<rparr>), s3))"
  using assms
  by (cases r3) (simp_all add: csr_build_def Let_def load_protocol_parameters_def)

lemma csr_frame:
  assumes run: "csr_build nd sa ra pa_arg name s = (r, s')"
  shows "submit_calls s' = submit_calls s \<and> working_dir s' = working_dir s"
proof (cases "get_rewards_balance nd sa")
  case (Inl e)
  from csr_rewards_error[OF this] run show ?thesis by simp
next
  case rw: (Inr rw)
  show ?thesis
  proof (cases "rw \<le> 0")
    case True
    from csr_no_rewards[OF rw this] run show ?thesis by simp
  next
    case False
    then have pos: "0 < rw" by simp
    let ?pa = "case pa_arg of None \<Rightarrow> ra | Some a \<Rightarrow> a"
    obtain r1 s1 where gu0: "get_utxos nd ?pa None s = (r1, s1)"
      by (cases "get_utxos nd ?pa None s")
    note g = get_utxos_state[OF gu0]
    show ?thesis
    proof (cases r1)
      case (Inl e)
      with gu0 have "get_utxos nd ?pa None s = (Inl e, s1)" by simp
      from csr_query_error[OF rw pos this] run g show ?thesis by simp
    next
      case fetched: (Inr fetched)
      with gu0 have gu: "get_utxos nd ?pa None s = (Inr fetched, s1)" by simp
      let ?s2 = "s1\<lparr>protocol_parameters := Some (query_protocol_parameters nd (param_queries s1)),
                   param_queries := Suc (param_queries s1)\<rparr>"
      show ?thesis
      proof (cases "fetched = []")
        case True
        with gu have "get_utxos nd ?pa None s = (Inr [], s1)" by simp
        from csr_empty[OF rw pos this] run g show ?thesis by simp
      next
        case ne: False
        show ?thesis
        proof (cases "get_tip nd")
          case (Inl e)
          from csr_tip_error[OF rw pos gu ne this] run g show ?thesis by auto
        next
          case tip: (Inr tip)
          obtain r3 s3 where loop0:
            "for_break (csr_body nd sa rw ra ?pa) csr_cond (sort_utxos fetched) csr_init ?s2
               = (r3, s3)"
            by (cases "for_break (csr_body nd sa rw ra ?pa) csr_cond (sort_utxos fetched)
                         csr_init ?s2")
          have "(submit_calls s3, working_dir s3) = (submit_calls ?s2, working_dir ?s2)"
            by (rule for_break_frame[where f = "\<lambda>s. (submit_calls s, working_dir s)",
                  OF _ loop0])
              (rule csr_body_frame)
          then have f3: "submit_calls s3 = submit_calls s1" "working_dir s3 = working_dir s1"
            by simp_all
          have "s' = s3"
            using csr_unfolded[OF rw pos gu ne tip loop0, of name] run
            by (auto split: if_splits sum.splits)
          with f3 g show ?thesis by simp
        qed
      qed
    qed
  qed
qed

lemma query_balance_state:
  "query_balance nd addr s = (r, s1) \<Longrightarrow>
     submit_calls s1 = submit_calls s \<and> working_dir s1 = working_dir s"
proof -
  assume a: "query_balance nd addr s = (r, s1)"
  obtain r0 s0 where gu0: "get_utxos nd addr None s = (r0, s0)"
    by (cases "get_utxos nd addr None s")
  from a gu0 have "s1 = s0" by (cases r0) (simp_all add: query_balance_def)
  with get_utxos_state[OF gu0] show ?thesis by simp
qed

lemma ea_frame:
  assumes run: "ea_build nd ta fa name s = (r, s')"
  shows "submit_calls s' = submit_calls s \<and> working_dir s' = working_dir s \<and>
         (\<forall>p body. r = Inr (p, body) \<longrightarrow> stem p = name)"
proof -
  obtain rb s1 where qb: "query_balance nd fa s = (rb, s1)"
    by (cases "query_balance nd fa s")
  note q = query_balance_state[OF qb]
  show ?thesis
  proof (cases rb)
    case (Inl e)
    with qb run q show ?thesis by (auto simp: ea_build_def)
  next
    case bal: (Inr bal)
    obtain r2 s2 where gu0: "get_utxos nd fa None s1 = (r2, s2)"
      by (cases "get_utxos nd fa None s1")
    note g = get_utxos_state[OF gu0]
    show ?thesis
    proof (cases r2)
      case (Inl e)
      with qb bal gu0 run q g show ?thesis by (auto simp: ea_build_def)
    next
      case utxos: (Inr utxos)
      let ?draft = "\<lparr>tx_in = map (\<lambda>utxo. (TxHash utxo, TxIx utxo)) utxos,
                      tx_out = [(ta, 0)], ttl = 0, fee = 0,
                      certificate_files = [], withdrawal = None\<rparr>"
      obtain rf s3 where cf: "calc_min_fee nd ?draft (length utxos) 2 1 0 s2 = (rf, s3)"
        by (cases "calc_min_fee nd ?draft (length utxos) 2 1 0 s2")
      then have f3: "submit_calls s3 = submit_calls s2" "working_dir s3 = working_dir s2"
        by (auto simp: calc_min_fee_reads_fresh)
      have "s' = s3 \<and> (\<forall>p body. r = Inr (p, body) \<longrightarrow> stem p = name)"
        using run qb bal gu0 utxos cf
        by (cases rf) (auto simp: ea_build_def Let_def split: if_splits sum.splits)
      with f3 g q show ?thesis by simp
    qed
  qed
qed

lemma rsp_loop_of_build:
  assumes ok: "rsp_build nd cert dc sk pool_deposit pa name s = (Inr (p, body), s')"
  shows "\<exists>fetched s1 v.
           get_utxos nd pa None s = (Inr fetched, s1) \<and>
           for_break (pool_body nd pa cert dc sk) (rsp_cond pool_deposit) (sort_utxos fetched)
             pool_init (snd (load_protocol_parameters nd s1)) = (Inr v, s') \<and>
           tx_in body = tx_in_str v \<and> fee body = min_fee v \<and>
           tx_out body = [(pa, utxo_total v - min_fee v - pool_deposit)]"
proof -
  obtain r1 s1 where gu0: "get_utxos nd pa None s = (r1, s1)"
    by (cases "get_utxos nd pa None s")
  obtain fetched where gu: "get_utxos nd pa None s = (Inr fetched, s1)"
  proof (cases r1)
    case (Inl e)
    with rsp_query_error[of nd pa s e s1] gu0 ok show ?thesis by simp
  next
    case (Inr x)
    with that gu0 show ?thesis by simp
  qed
  obtain tip where tip: "get_tip nd = Inr tip"
  proof (cases "get_tip nd")
    case (Inl e)
    from rsp_tip_error[OF gu this] ok show ?thesis by simp
  next
    case (Inr x)
    with that show ?thesis by simp
  qed
  let ?body = "pool_body nd pa cert dc sk"
  let ?s2 = "s1\<lparr>protocol_parameters := Some (query_protocol_parameters nd (param_queries s1)),
               param_queries := Suc (param_queries s1)\<rparr>"
  have s2: "snd (load_protocol_parameters nd s1) = ?s2"
    by (simp add: load_protocol_parameters_def Let_def)
  obtain r3 s3 where loop0:
    "for_break ?body (rsp_cond pool_deposit) (sort_utxos fetched) pool_init ?s2 = (r3, s3)"
    by (cases "for_break ?body (rsp_cond pool_deposit) (sort_utxos fetched) pool_init ?s2")
  note unf = rsp_unfolded[OF gu tip loop0, of name]
  from ok unf obtain v where r3: "r3 = Inr v" by (cases r3) simp_all
  from ok unf r3 have chk: "\<not> utxo_total v < min_fee v + pool_deposit"
    by (auto split: if_splits)
  from ok unf r3 chk have body: "body = \<lparr>tx_in = tx_in_str v,
        tx_out = [(pa, utxo_total v - min_fee v - pool_deposit)],
        ttl = tip + ttl_buffer s1, fee = min_fee v, certificate_files = cert # dc,
        withdrawal = None\<rparr>" and s3: "s3 = s'"
    by simp_all
  show ?thesis
  proof (intro exI conjI)
    show "get_utxos nd pa None s = (Inr fetched, s1)" by fact
    show "for_break ?body (rsp_cond pool_deposit) (sort_utxos fetched) pool_init
            (snd (load_protocol_parameters nd s1)) = (Inr v, s')"
      unfolding s2 using loop0 r3 s3 by simp
    show "tx_in body = tx_in_str v" using body by simp
    show "fee body = min_fee v" using body by simp
    show "tx_out body = [(pa, utxo_total v - min_fee v - pool_deposit)]" using body by simp
  qed
qed

lemma uspr_loop_of_build:
  assumes ok: "uspr_build nd cert dc sk pa name s = (Inr (p, body), s')"
  shows "\<exists>fetched s1 v.
           get_utxos nd pa None s = (Inr fetched, s1) \<and>
           for_break (pool_body nd pa cert dc sk) (uspr_cond 0) (sort_utxos fetched)
             pool_init (snd (load_protocol_parameters nd s1)) = (Inr v, s') \<and>
           tx_in body = tx_in_str v \<and> fee body = min_fee v \<and>
           tx_out body = [(pa, utxo_total v - min_fee v - 0)]"
proof -
  obtain r1 s1 where gu0: "get_utxos nd pa None s = (r1, s1)"
    by (cases "get_utxos nd pa None s")
  obtain fetched where gu: "get_utxos nd pa None s = (Inr fetched, s1)"
  proof (cases r1)
    case (Inl e)
    with uspr_query_error[of nd pa s e s1] gu0 ok show ?thesis by simp
  next
    case (Inr x)
    with that gu0 show ?thesis by simp
  qed
  obtain tip where tip: "get_tip nd = Inr tip"
  proof (cases "get_tip nd")
    case (Inl e)
    from uspr_tip_error[OF gu this] ok show ?thesis by simp
  next
    case (Inr x)
    with that show ?thesis by simp
  qed
  let ?body = "pool_body nd pa cert dc sk"
  let ?s2 = "s1\<lparr>protocol_parameters := Some (query_protocol_parameters nd (param_queries s1)),
               param_queries := Suc (param_queries s1)\<rparr>"
  have s2: "snd (load_protocol_parameters nd s1) = ?s2"
    by (simp add: load_protocol_parameters_def Let_def)
  obtain r3 s3 where loop0:
    "for_break ?body (uspr_cond 0) (sort_utxos fetched) pool_init ?s2 = (r3, s3)"
    by (cases "for_break ?body (uspr_cond 0) (sort_utxos fetched) pool_init ?s2")
  note unf = uspr_unfolded[OF gu tip loop0, of name]
  from ok unf obtain v where r3: "r3 = Inr v" by (cases r3) simp_all
  from ok unf r3 have chk: "\<not> utxo_total v < min_fee v"
    by (auto split: if_splits)
  from ok unf r3 chk have body: "body = \<lparr>tx_in = tx_in_str v,
        tx_out = [(pa, utxo_total v - min_fee v - 0)],
        ttl = tip + ttl_buffer s1, fee = min_fee v, certificate_files = cert # dc,
        withdrawal = None\<rparr>" and s3: "s3 = s'"
    by simp_all
  show ?thesis
  proof (intro exI conjI)
    show "get_utxos nd pa None s = (Inr fetched, s1)" by fact
    show "for_break ?body (uspr_cond 0) (sort_utxos fetched) pool_init
            (snd (load_protocol_parameters nd s1)) = (Inr v, s')"
      unfolding s2 using loop0 r3 s3 by simp
    show "tx_in body = tx_in_str v" using body by simp
    show "fee body = min_fee v" using body by simp
    show "tx_out body = [(pa, utxo_total v - min_fee v - 0)]" using body by simp
  qed
qed

lemma rsa_last:
  assumes "for_break (rsa_body nd addr cert) cond xs v s = (Inr v', s')" and "xs \<noteq> []"
  shows "\<exists>p. protocol_parameters s' = Some p \<and>
             cost v' = Some (min_fee v' + stakeAddressDeposit p)"
  by (rule for_break_last[OF _ assms]) (rule rsa_body_cost)

lemma rsa_loop_of_build:
  assumes ok: "rsa_build nd addr cert name s = (Inr (p, body), s')"
  shows "\<exists>fetched s1 v dep.
           get_utxos nd addr None s = (Inr fetched, s1) \<and>
           for_break (rsa_body nd addr cert) rsa_cond (sort_utxos fetched)
             rsa_init (snd (load_protocol_parameters nd s1)) = (Inr v, s') \<and>
           protocol_parameters s' = Some dep \<and>
           tx_in body = tx_in_str v \<and> fee body = min_fee v \<and>
           tx_out body = [(addr, utxo_total v - (min_fee v + stakeAddressDeposit dep))]"
proof -
  obtain tip where tip: "get_tip nd = Inr tip"
  proof (cases "get_tip nd")
    case (Inl e)
    from rsa_tip_error[OF this] ok show ?thesis by simp
  next
    case (Inr x)
    with that show ?thesis by simp
  qed
  obtain r1 s1 where gu0: "get_utxos nd addr None s = (r1, s1)"
    by (cases "get_utxos nd addr None s")
  obtain fetched where gu: "get_utxos nd addr None s = (Inr fetched, s1)"
  proof (cases r1)
    case (Inl e)
    with rsa_query_error[OF tip, of addr s e s1] gu0 ok show ?thesis by simp
  next
    case (Inr x)
    with that gu0 show ?thesis by simp
  qed
  let ?body = "rsa_body nd addr cert"
  let ?s2 = "s1\<lparr>protocol_parameters := Some (query_protocol_parameters nd (param_queries s1)),
               param_queries := Suc (param_queries s1)\<rparr>"
  have s2: "snd (load_protocol_parameters nd s1) = ?s2"
    by (simp add: load_protocol_parameters_def Let_def)
  obtain r3 s3 where loop0:
    "for_break ?body rsa_cond (sort_utxos fetched) rsa_init ?s2 = (r3, s3)"
    by (cases "for_break ?body rsa_cond (sort_utxos fetched) rsa_init ?s2")
  note unf = rsa_unfolded[OF tip gu loop0, of name]
  from ok unf have ne: "\<not> length fetched < 1" by (auto split: if_splits)
  from ok unf ne obtain v where r3: "r3 = Inr v" by (cases r3) simp_all
  from ok unf ne r3 obtain c where c: "cost v = Some c" by (cases "cost v") simp_all
  from ok unf ne r3 c have chk: "\<not> utxo_total v < c" by (auto split: if_splits)
  from ok unf ne r3 c chk have body: "body = \<lparr>tx_in = tx_in_str v,
        tx_out = [(addr, utxo_total v - c)],
        ttl = tip + ttl_buffer s, fee = min_fee v, certificate_files = [cert],
        withdrawal = None\<rparr>" and s3: "s3 = s'"
    by simp_all
  from loop0 r3 s3 have loop: "for_break ?body rsa_cond (sort_utxos fetched) rsa_init ?s2
      = (Inr v, s')" by simp
  have "length (sort_utxos fetched) = length fetched" by (simp add: sort_utxos_def)
  with ne have "sort_utxos fetched \<noteq> []" by auto
  from rsa_last[OF loop this] c obtain dep where dep: "protocol_parameters s' = Some dep"
    "c = min_fee v + stakeAddressDeposit dep" by auto
  show ?thesis
  proof (intro exI conjI)
    show "get_utxos nd addr None s = (Inr fetched, s1)" by fact
    show "for_break ?body rsa_cond (sort_utxos fetched) rsa_init
            (snd (load_protocol_parameters nd s1)) = (Inr v, s')"
      unfolding s2 by (rule loop)
    show "protocol_parameters s' = Some dep" by fact
    show "tx_in body = tx_in_str v" using body by simp
    show "fee body = min_fee v" using body by simp
    show "tx_out body = [(addr, utxo_total v - (min_fee v + stakeAddressDeposit dep))]"
      using body dep(2) by simp
  qed
qed

lemma demo_uspr_loop_any:
  "for_break (pool_body demo_node pa cert dc sk) (uspr_cond 0) demo_utxos pool_init s =
   (Inr \<lparr>utxo_count = 1, utxo_total = 5000000, tx_in_str = [(''bb'', ''1'')],
         min_fee = 170000, lovelaces_out = 0, utxo_amt = None, cost = None\<rparr>,
    s\<lparr>protocol_parameters := Some demo_params, param_queries := Suc (param_queries s)\<rparr>)"
  by (simp add: pool_body_def pool_init_def uspr_cond_def demo_calc_min_fee demo_utxos_def
        lovelace_utxo_def py_int_def digit_of_def Let_def)

lemma demo_uspr_build:
  "uspr_build demo_node ''pool.cert'' [''deleg.cert''] [''owner.skey''] ''me''
     ''reg_pool_2021-03-01_12h00m00s'' demo_state =
     (Inr (\<lparr>folder = ''/w'', stem = ''reg_pool_2021-03-01_12h00m00s'', suffix = ''.raw''\<rparr>,
           \<lparr>tx_in = [(''bb'', ''1'')], tx_out = [(''me'', 4830000)],
             ttl = 1500, fee = 170000, certificate_files = [''pool.cert'', ''deleg.cert''],
             withdrawal = None\<rparr>),
      demo_state\<lparr>protocol_parameters := Some demo_params, param_queries := 2\<rparr>)"
  by (simp add: uspr_build_def demo_get_utxos_me demo_sort_me demo_node_fields
        load_protocol_parameters_def demo_uspr_loop_any demo_state_def Let_def)

lemma demo_rsa_loop_any:
  "for_break (rsa_body demo_node addr cert) rsa_cond demo_utxos rsa_init s =
   (Inr \<lparr>utxo_count = 1, utxo_total = 5000000, tx_in_str = [(''bb'', ''1'')],
         min_fee = 170000, lovelaces_out = 0, utxo_amt = None, cost = Some 2170000\<rparr>,
    s\<lparr>protocol_parameters := Some demo_params, param_queries := Suc (param_queries s)\<rparr>)"
  by (simp add: rsa_body_def rsa_init_def rsa_cond_def demo_calc_min_fee demo_utxos_def
        lovelace_utxo_def py_int_def digit_of_def demo_params_def Let_def)

lemma demo_rsa_build:
  "rsa_build demo_node ''me'' ''stake.cert'' ''reg_stake_key_2021-03-01_12h00m00s'' demo_state =
     (Inr (\<lparr>folder = ''/w'', stem = ''reg_stake_key_2021-03-01_12h00m00s'', suffix = ''.raw''\<rparr>,
           \<lparr>tx_in = [(''bb'', ''1'')], tx_out = [(''me'', 2830000)],
             ttl = 1500, fee = 170000, certificate_files = [''stake.cert''],
             withdrawal = None\<rparr>),
      demo_state\<lparr>protocol_parameters := Some demo_params, param_queries := 2\<rparr>)"
  by (simp add: rsa_build_def demo_get_utxos_me demo_sort_me demo_node_fields
        load_protocol_parameters_def demo_rsa_loop_any demo_state_def Let_def
        del: for_break.simps)

lemma demo_rewards: "get_rewards_balance demo_node ''stake'' = Inr 700000"
  by (simp add: get_rewards_balance_def demo_node_def demo_stake_address_info_def)

lemma demo_csr_loop_any:
  "for_break (csr_body demo_node sa rw ra pa) csr_cond demo_utxos csr_init s =
   (Inr \<lparr>utxo_count = 1, utxo_total = 5000000, tx_in_str = [(''bb'', ''1'')],
         min_fee = 170000, lovelaces_out = 0, utxo_amt = None, cost = None\<rparr>,
    s\<lparr>protocol_parameters := Some demo_params, param_queries := Suc (param_queries s)\<rparr>)"
  by (simp add: csr_body_def csr_init_def csr_cond_def demo_calc_min_fee demo_utxos_def
        lovelace_utxo_def py_int_def digit_of_def Let_def)

lemma demo_csr_build:
  "csr_build demo_node ''stake'' ''me'' None ''claim_rewards_2021-03-01_12h00m00s'' demo_state =
     (Inr (\<lparr>folder = ''/w'', stem = ''claim_rewards_2021-03-01_12h00m00s'', suffix = ''.raw''\<rparr>,
           \<lparr>tx_in = [(''bb'', ''1'')], tx_out = [(''me'', 5530000)],
             ttl = 1500, fee = 170000, certificate_files = [],
             withdrawal = Some (''stake'', 700000)\<rparr>),
      demo_state\<lparr>protocol_parameters := Some demo_params, param_queries := 2\<rparr>)"
  by (simp add: csr_build_def demo_rewards demo_get_utxos_me demo_sort_me demo_node_fields
        load_protocol_parameters_def demo_csr_loop_any demo_state_def Let_def
        del: for_break.simps)

lemma demo_balance_me:
  "query_balance demo_node ''me'' s = (Inr 10000000, s)"
  by (simp add: query_balance_def demo_get_utxos_me lovelace_utxo_def py_int_def digit_of_def)

lemma demo_ea_build:
  "ea_build demo_node ''you'' ''me'' ''empty_acct_2021-03-01_12h00m00s'' demo_state =
     (Inr (\<lparr>folder = ''/w'', stem = ''empty_acct_2021-03-01_12h00m00s'', suffix = ''.raw''\<rparr>,
           \<lparr>tx_in = [(''aa'', ''0''), (''bb'', ''1''), (''cc'', ''0'')],
             tx_out = [(''you'', 9830000)],
             ttl = 1500, fee = 170000, certificate_files = [], withdrawal = None\<rparr>),
      demo_state\<lparr>protocol_parameters := Some demo_params, param_queries := 1\<rparr>)"
  by (simp add: ea_build_def demo_balance_me demo_get_utxos_me demo_calc_min_fee
        demo_node_fields fmt_0f_exact lovelace_utxo_def demo_state_def Let_def)

lemma demo_register_stake_pool_offline:
  "register_stake_pool demo_node ''pool.cert'' [''deleg.cert''] [''owner.skey''] 4829995 ''me''
     True True demo_state =
     (Inr None,
      demo_state\<lparr>protocol_parameters := Some demo_params, param_queries := 3,
        removed := [''/w/reg_pool_2021-03-01_12h00m00s.draft'',
                    ''/w/reg_pool_2021-03-01_12h00m00s.raw''],
        printed := [''Signed transaction file saved to: /w/reg_pool_2021-03-01_12h00m00s.signed'']\<rparr>)"
  using demo_rsp_build
  by (simp add: register_stake_pool_def sign_and_send_def
        demo_node_fields cleanup_file_def path_str_def submit_or_print_offline
        demo_state_fields Let_def)

lemma demo_update_stake_pool_registration_offline:
  "update_stake_pool_registration demo_node ''pool.cert'' [''deleg.cert''] [''owner.skey''] ''me''
     True True demo_state =
     (Inr None,
      demo_state\<lparr>protocol_parameters := Some demo_params, param_queries := 2,
        removed := [''/w/reg_pool_2021-03-01_12h00m00s.draft'',
                    ''/w/reg_pool_2021-03-01_12h00m00s.raw''],
        printed := [''Signed transaction file saved to: /w/reg_pool_2021-03-01_12h00m00s.signed'']\<rparr>)"
  using demo_uspr_build
  by (simp add: update_stake_pool_registration_def sign_and_send_def
        demo_node_fields cleanup_file_def path_str_def submit_or_print_offline
        demo_state_fields Let_def)

lemma demo_claim_staking_rewards_offline:
  "claim_staking_rewards demo_node ''stake'' ''stake.skey'' ''me'' ''me.skey'' None
     True True demo_state =
     (Inr None,
      demo_state\<lparr>protocol_parameters := Some demo_params, param_queries := 2,
        removed := [''/w/claim_rewards_2021-03-01_12h00m00s.draft'',
                    ''/w/claim_rewards_2021-03-01_12h00m00s.raw''],
        printed := [''Signed transaction file saved to: /w/claim_rewards_2021-03-01_12h00m00s.signed'']\<rparr>)"
  using demo_csr_build
  by (simp add: claim_staking_rewards_def sign_and_send_def
        demo_node_fields cleanup_file_def path_str_def submit_or_print_offline
        demo_state_fields Let_def)

lemma demo_empty_account_offline:
  "empty_account demo_node ''you'' ''me'' ''me.skey'' True True demo_state =
     (Inr None,
      demo_state\<lparr>protocol_parameters := Some demo_params, param_queries := 1,
        removed := [''/w/empty_acct_2021-03-01_12h00m00s.raw''],
        printed := [''Signed transaction file saved to: empty_acct_2021-03-01_12h00m00s.signed'']\<rparr>)"
  using demo_ea_build
  by (simp add: empty_account_def sign_transaction_def
        demo_node_fields cleanup_file_def path_str_def submit_or_print_offline
        demo_state_fields Let_def)

subsection \<open>What the sort, the parser and the failure checks do guarantee\<close>

lemma sort_utxos_descending_text: "sorted (map Lovelace (rev (sort_utxos utxos)))"
  by (simp add: sort_utxos_def sorted_sort_key)

lemma sort_utxos_stable:
  "filter (\<lambda>u. Lovelace u = k) (sort_utxos utxos) = filter (\<lambda>u. Lovelace u = k) utxos"
proof -
  have "filter (\<lambda>u. Lovelace u = k) (sort_utxos utxos) =
        rev (filter (\<lambda>u. Lovelace u = k) (sort_key Lovelace (rev utxos)))"
    by (simp add: sort_utxos_def rev_filter)
  also have "\<dots> = rev (filter (\<lambda>u. Lovelace u = k) (rev utxos))"
    by (simp only: sort_key_stable)
  also have "\<dots> = filter (\<lambda>u. Lovelace u = k) utxos"
    by (simp add: rev_filter)
  finally show ?thesis .
qed

lemma parse_utxo_line_error:
  "parse_utxo_line l = Inl e \<Longrightarrow> e = IndexError \<and> length (str_split l) < 3"
  by (simp add: parse_utxo_line_def Let_def split: if_splits)

lemma parse_utxos_error: "fst (parse_utxos ls) = Inl e \<Longrightarrow> e = IndexError"
proof (induction ls)
  case Nil
  then show ?case by simp
next
  case (Cons l ls)
  show ?case
  proof (cases "parse_utxo_line l")
    case (Inl e')
    with Cons.prems parse_utxo_line_error[OF Inl] show ?thesis by simp
  next
    case (Inr x)
    obtain u out where x: "x = (u, out)" by (cases x)
    obtain r out' where r: "parse_utxos ls = (r, out')" by (cases "parse_utxos ls")
    from Cons.prems Inr x r have "r = Inl e" by (cases r) simp_all
    with Cons.IH r show ?thesis by simp
  qed
qed

lemma get_utxos_error_is_IndexError:
  assumes "fst (get_utxos nd addr flt s) = Inl e"
  shows "e = IndexError"
proof -
  obtain r out where r: "parse_utxos (drop 2 (split_lines (stdout (query_utxo nd addr)))) = (r, out)"
    by (cases "parse_utxos (drop 2 (split_lines (stdout (query_utxo nd addr))))")
  from assms r have "r = Inl e"
    by (cases r) (simp_all add: get_utxos_def utxos_of_result_def Let_def)
  with parse_utxos_error[of "drop 2 (split_lines (stdout (query_utxo nd addr)))" e] r
  show ?thesis by simp
qed

lemma brt_finish_classification:
  "utxo_total v < lovelaces_out v \<Longrightarrow>
     fst (brt_finish pa pargs ca min_utxo ttl_val cl name v s) =
       Inl (ShelleyError (if lovelaces_out v = sys_maxsize then EmptyAccount pa
                          else InsufficientFunds pa (lovelaces_out v) (utxo_total v)))"
  by (simp add: brt_finish_def)

lemma no_utxos_is_empty_account:
  "selection_loop nd pa pz ca wc dep tp min_utxo [] s = (Inr brt_init, s)"
  "fst (brt_finish pa pargs ca min_utxo ttl_val cl name brt_init s) =
     Inl (ShelleyError (EmptyAccount pa))"
  by (simp_all add: selection_loop_def brt_finish_def brt_init_def sys_maxsize_def)

section \<open>The coin-selection loop of \<^verbatim>\<open>build_raw_transaction\<close>\<close>

text \<open>
  Claim C1. In the coin-selection loop of \<^verbatim>\<open>build_raw_transaction\<close>, after each successive
  UTXO of the sorted list is appended (with total the running input sum, required = fee +
  deposit + sum of the target payment amounts, and change = total - required), the loop
  exits at exactly the first prefix satisfying
  \<open>total > required AND (change > minUtxoValue OR change == 0)\<close>, and otherwise continues
  to the next UTXO. Here \<open>k\<close> is the number of UTXOs appended when the loop ends: the
  variables are those of the prefix of length \<open>k\<close>; when UTXOs are left over the condition
  holds at \<open>k\<close>; and it fails at every shorter non-empty prefix.
\<close>

theorem selection_loop_exits_at_first_prefix:
  assumes "selection_loop nd payment_addr pymt_args_zero cert_args witness_count deposits
             total_payments min_utxo utxos s = (Inr v, s')"
  shows "\<exists>k\<le>length utxos.
           run_prefix (brt_body nd payment_addr pymt_args_zero cert_args witness_count deposits
                         total_payments) (take k utxos) brt_init s = (Inr v, s') \<and>
           utxo_total v = sum_list (map lovelace_int (take k utxos)) \<and>
           (k < length utxos \<longrightarrow> 0 < k \<and> stop_condition deposits total_payments min_utxo v) \<and>
           (\<forall>j. 0 < j \<and> j < k \<longrightarrow>
              (\<exists>vj sj. run_prefix (brt_body nd payment_addr pymt_args_zero cert_args witness_count
                                    deposits total_payments) (take j utxos) brt_init s = (Inr vj, sj) \<and>
                       utxo_total vj = sum_list (map lovelace_int (take j utxos)) \<and>
                       \<not> stop_condition deposits total_payments min_utxo vj))"
proof -
  let ?body = "brt_body nd payment_addr pymt_args_zero cert_args witness_count deposits total_payments"
  have total: "utxo_total w = sum_list (map lovelace_int xs)"
    if "run_prefix ?body xs brt_init s = (Inr w, t)" for xs w t
    using brt_prefix[OF that] by (simp add: brt_init_def)
  from assms have run: "for_break ?body (brt_cond min_utxo) utxos brt_init s = (Inr v, s')"
    by (simp add: selection_loop_def)
  from brt_first_exit[OF run]
  obtain k where k: "k \<le> length utxos"
    "run_prefix ?body (take k utxos) brt_init s = (Inr v, s')"
    "k < length utxos \<longrightarrow> 0 < k \<and> stop_condition deposits total_payments min_utxo v"
    "\<forall>j. 0 < j \<and> j < k \<longrightarrow>
       (\<exists>vj sj. run_prefix ?body (take j utxos) brt_init s = (Inr vj, sj) \<and>
                \<not> stop_condition deposits total_payments min_utxo vj)"
    by blast
  have "\<forall>j. 0 < j \<and> j < k \<longrightarrow>
       (\<exists>vj sj. run_prefix ?body (take j utxos) brt_init s = (Inr vj, sj) \<and>
                utxo_total vj = sum_list (map lovelace_int (take j utxos)) \<and>
                \<not> stop_condition deposits total_payments min_utxo vj)"
    using k(4) total by blast
  with k(1,2,3) total[OF k(2)] show ?thesis by blast
qed

theorem selection_loop_exits_at_first_prefix_witness:
  "selection_loop demo_node ''me'' [(''you'', 0)] [] 1 0 5000000 1000000 demo_utxos demo_state =
     (Inr demo_vars, demo_state_after) \<and>
   (\<exists>k\<le>length demo_utxos.
      run_prefix (brt_body demo_node ''me'' [(''you'', 0)] [] 1 0 5000000)
        (take k demo_utxos) brt_init demo_state = (Inr demo_vars, demo_state_after) \<and>
      utxo_total demo_vars = sum_list (map lovelace_int (take k demo_utxos)) \<and>
      (k < length demo_utxos \<longrightarrow> 0 < k \<and> stop_condition 0 5000000 1000000 demo_vars) \<and>
      (\<forall>j. 0 < j \<and> j < k \<longrightarrow>
         (\<exists>vj sj. run_prefix (brt_body demo_node ''me'' [(''you'', 0)] [] 1 0 5000000)
                     (take j demo_utxos) brt_init demo_state = (Inr vj, sj) \<and>
                  utxo_total vj = sum_list (map lovelace_int (take j demo_utxos)) \<and>
                  \<not> stop_condition 0 5000000 1000000 vj)))"
proof (rule conjI)
  show "selection_loop demo_node ''me'' [(''you'', 0)] [] 1 0 5000000 1000000 demo_utxos
          demo_state = (Inr demo_vars, demo_state_after)"
    by (rule demo_selection)
  show "\<exists>k\<le>length demo_utxos.
      run_prefix (brt_body demo_node ''me'' [(''you'', 0)] [] 1 0 5000000)
        (take k demo_utxos) brt_init demo_state = (Inr demo_vars, demo_state_after) \<and>
      utxo_total demo_vars = sum_list (map lovelace_int (take k demo_utxos)) \<and>
      (k < length demo_utxos \<longrightarrow> 0 < k \<and> stop_condition 0 5000000 1000000 demo_vars) \<and>
      (\<forall>j. 0 < j \<and> j < k \<longrightarrow>
         (\<exists>vj sj. run_prefix (brt_body demo_node ''me'' [(''you'', 0)] [] 1 0 5000000)
                     (take j demo_utxos) brt_init demo_state = (Inr vj, sj) \<and>
                  utxo_total vj = sum_list (map lovelace_int (take j demo_utxos)) \<and>
                  \<not> stop_condition 0 5000000 1000000 vj))"
    by (rule selection_loop_exits_at_first_prefix[OF demo_selection])
qed

section \<open>Multi-signature scripts\<close>

text \<open>
  Claim C10. In \<^verbatim>\<open>build_multisignature_scripts\<close>, for every call where \<^verbatim>\<open>end_slot\<close> is not
  \<^verbatim>\<open>None\<close>, the \<^verbatim>\<open>"before"\<close> entry appended to the script has its slot field equal to the
  value of \<^verbatim>\<open>start_slot\<close>; the value of the \<^verbatim>\<open>end_slot\<close> argument is never written into
  the generated script file: any other value of \<^verbatim>\<open>end_slot\<close> gives the same file.
\<close>

theorem before_bound_uses_start_slot:
  assumes "build_multisignature_scripts script_name key_hashes sig_type required start_slot
             (Some e) s = Inr (p, sc)"
  shows "last (scripts sc) = SlotEntry start_slot ''before'' \<and>
         (\<forall>e'. build_multisignature_scripts script_name key_hashes sig_type required start_slot
                  (Some e') s = Inr (p, sc))"
  using assms
  by (auto simp: build_multisignature_scripts_def Let_def split: if_splits sum.splits option.splits)

theorem before_bound_uses_start_slot_witness:
  "build_multisignature_scripts ''policy'' [''h1'', ''h2''] ''All'' None (Some 100) (Some 200)
     demo_state
   = Inr (\<lparr>folder = ''/w'', stem = ''policy'', suffix = ''.json''\<rparr>,
          \<lparr>scripts = [KeyHashEntry ''h1'', KeyHashEntry ''h2'', SlotEntry (Some 100) ''after'',
                      SlotEntry (Some 100) ''before''],
            script_type = ''all'', script_required = None\<rparr>)
   \<and> build_multisignature_scripts ''policy'' [''h1'', ''h2''] ''All'' None (Some 100) (Some 999)
     demo_state
   = Inr (\<lparr>folder = ''/w'', stem = ''policy'', suffix = ''.json''\<rparr>,
          \<lparr>scripts = [KeyHashEntry ''h1'', KeyHashEntry ''h2'', SlotEntry (Some 100) ''after'',
                      SlotEntry (Some 100) ''before''],
            script_type = ''all'', script_required = None\<rparr>)"
proof -
  have run: "build_multisignature_scripts ''policy'' [''h1'', ''h2''] ''All'' None (Some 100)
      (Some 200) demo_state
    = Inr (\<lparr>folder = ''/w'', stem = ''policy'', suffix = ''.json''\<rparr>,
          \<lparr>scripts = [KeyHashEntry ''h1'', KeyHashEntry ''h2'', SlotEntry (Some 100) ''after'',
                      SlotEntry (Some 100) ''before''],
            script_type = ''all'', script_required = None\<rparr>)"
    by (simp add: build_multisignature_scripts_def Let_def lower_def lower_char_def
          demo_state_def)
  from before_bound_uses_start_slot[OF run] run show ?thesis by blast
qed

section \<open>The exit conditions of the certificate-paying variants\<close>

text \<open>
  Claim C8. The pool-registration variant of the selection loop (\<^verbatim>\<open>register_stake_pool\<close>)
  exits on \<open>total > required + 10\<close> where \<open>required = min_fee + pool_deposit\<close>, while the
  other variants of the same loop (\<^verbatim>\<open>register_stake_address\<close>, where the deposit is the
  \<^verbatim>\<open>stakeAddressDeposit\<close> of the stored parameters, and \<^verbatim>\<open>update_stake_pool_registration\<close>,
  where the deposit is 0) exit on \<open>total > required\<close> with no added tolerance. For every
  draft that one of the three operations builds, the inputs, the fee and the change of the
  draft are those of the loop's variables at the first prefix of the sorted UTXO list that
  satisfies the operation's own condition (or at the whole list, when no prefix does).
\<close>

theorem pool_registration_exit_adds_ten:
  "(rsp_build nd pool_cert_path del_certs owner_stake_skeys pool_deposit payment_addr tx_name s =
      (Inr (p1, body1), s1) \<longrightarrow>
    (\<exists>fetched s0 v.
       get_utxos nd payment_addr None s = (Inr fetched, s0) \<and>
       exits_first (pool_body nd payment_addr pool_cert_path del_certs owner_stake_skeys)
         (\<lambda>v t. utxo_total v > (min_fee v + pool_deposit) + 10)
         (sort_utxos fetched) pool_init (snd (load_protocol_parameters nd s0)) v s1 \<and>
       tx_in body1 = tx_in_str v \<and> fee body1 = min_fee v \<and>
       tx_out body1 = [(payment_addr, utxo_total v - min_fee v - pool_deposit)])) \<and>
   (rsa_build nd addr stake_cert_path tx_name2 s = (Inr (p2, body2), s2) \<longrightarrow>
    (\<exists>fetched s0 v params.
       get_utxos nd addr None s = (Inr fetched, s0) \<and>
       exits_first (rsa_body nd addr stake_cert_path)
         (\<lambda>v t. \<exists>p. protocol_parameters t = Some p \<and>
                    utxo_total v > min_fee v + stakeAddressDeposit p)
         (sort_utxos fetched) rsa_init (snd (load_protocol_parameters nd s0)) v s2 \<and>
       protocol_parameters s2 = Some params \<and>
       tx_in body2 = tx_in_str v \<and> fee body2 = min_fee v \<and>
       tx_out body2 = [(addr, utxo_total v - (min_fee v + stakeAddressDeposit params))])) \<and>
   (uspr_build nd pool_cert_path del_certs owner_stake_skeys payment_addr tx_name s =
      (Inr (p3, body3), s3) \<longrightarrow>
    (\<exists>fetched s0 v.
       get_utxos nd payment_addr None s = (Inr fetched, s0) \<and>
       exits_first (pool_body nd payment_addr pool_cert_path del_certs owner_stake_skeys)
         (\<lambda>v t. utxo_total v > min_fee v + 0)
         (sort_utxos fetched) pool_init (snd (load_protocol_parameters nd s0)) v s3 \<and>
       tx_in body3 = tx_in_str v \<and> fee body3 = min_fee v \<and>
       tx_out body3 = [(payment_addr, utxo_total v - min_fee v - 0)]))"
proof (intro conjI impI)
  assume "rsp_build nd pool_cert_path del_certs owner_stake_skeys pool_deposit payment_addr
            tx_name s = (Inr (p1, body1), s1)"
  from rsp_loop_of_build[OF this] obtain fetched s0 v where b:
    "get_utxos nd payment_addr None s = (Inr fetched, s0)"
    "for_break (pool_body nd payment_addr pool_cert_path del_certs owner_stake_skeys)
       (rsp_cond pool_deposit) (sort_utxos fetched) pool_init
       (snd (load_protocol_parameters nd s0)) = (Inr v, s1)"
    "tx_in body1 = tx_in_str v" "fee body1 = min_fee v"
    "tx_out body1 = [(payment_addr, utxo_total v - min_fee v - pool_deposit)]"
    by blast
  have "exits_first (pool_body nd payment_addr pool_cert_path del_certs owner_stake_skeys)
         (\<lambda>v t. utxo_total v > (min_fee v + pool_deposit) + 10)
         (sort_utxos fetched) pool_init (snd (load_protocol_parameters nd s0)) v s1"
    using b(2) by (rule for_break_exits_first[rotated]) (simp add: rsp_cond_def)
  with b(1,3,4,5) show "\<exists>fetched s0 v.
       get_utxos nd payment_addr None s = (Inr fetched, s0) \<and>
       exits_first (pool_body nd payment_addr pool_cert_path del_certs owner_stake_skeys)
         (\<lambda>v t. utxo_total v > (min_fee v + pool_deposit) + 10)
         (sort_utxos fetched) pool_init (snd (load_protocol_parameters nd s0)) v s1 \<and>
       tx_in body1 = tx_in_str v \<and> fee body1 = min_fee v \<and>
       tx_out body1 = [(payment_addr, utxo_total v - min_fee v - pool_deposit)]"
    by blast
next
  assume "rsa_build nd addr stake_cert_path tx_name2 s = (Inr (p2, body2), s2)"
  from rsa_loop_of_build[OF this] obtain fetched s0 v params where b:
    "get_utxos nd addr None s = (Inr fetched, s0)"
    "for_break (rsa_body nd addr stake_cert_path) rsa_cond (sort_utxos fetched) rsa_init
       (snd (load_protocol_parameters nd s0)) = (Inr v, s2)"
    "protocol_parameters s2 = Some params"
    "tx_in body2 = tx_in_str v" "fee body2 = min_fee v"
    "tx_out body2 = [(addr, utxo_total v - (min_fee v + stakeAddressDeposit params))]"
    by blast
  have "exits_first (rsa_body nd addr stake_cert_path)
         (\<lambda>v t. \<exists>p. protocol_parameters t = Some p \<and>
                    utxo_total v > min_fee v + stakeAddressDeposit p)
         (sort_utxos fetched) rsa_init (snd (load_protocol_parameters nd s0)) v s2"
    using b(2) by (rule for_break_exits_first[rotated]) (rule rsa_cond_total)
  with b(1,3,4,5,6) show "\<exists>fetched s0 v params.
       get_utxos nd addr None s = (Inr fetched, s0) \<and>
       exits_first (rsa_body nd addr stake_cert_path)
         (\<lambda>v t. \<exists>p. protocol_parameters t = Some p \<and>
                    utxo_total v > min_fee v + stakeAddressDeposit p)
         (sort_utxos fetched) rsa_init (snd (load_protocol_parameters nd s0)) v s2 \<and>
       protocol_parameters s2 = Some params \<and>
       tx_in body2 = tx_in_str v \<and> fee body2 = min_fee v \<and>
       tx_out body2 = [(addr, utxo_total v - (min_fee v + stakeAddressDeposit params))]"
    by blast
next
  assume "uspr_build nd pool_cert_path del_certs owner_stake_skeys payment_addr tx_name s =
      (Inr (p3, body3), s3)"
  from uspr_loop_of_build[OF this] obtain fetched s0 v where b:
    "get_utxos nd payment_addr None s = (Inr fetched, s0)"
    "for_break (pool_body nd payment_addr pool_cert_path del_certs owner_stake_skeys)
       (uspr_cond 0) (sort_utxos fetched) pool_init
       (snd (load_protocol_parameters nd s0)) = (Inr v, s3)"
    "tx_in body3 = tx_in_str v" "fee body3 = min_fee v"
    "tx_out body3 = [(payment_addr, utxo_total v - min_fee v - 0)]"
    by blast
  have "exits_first (pool_body nd payment_addr pool_cert_path del_certs owner_stake_skeys)
         (\<lambda>v t. utxo_total v > min_fee v + 0)
         (sort_utxos fetched) pool_init (snd (load_protocol_parameters nd s0)) v s3"
    using b(2) by (rule for_break_exits_first[rotated]) (simp add: uspr_cond_def)
  with b(1,3,4,5) show "\<exists>fetched s0 v.
       get_utxos nd payment_addr None s = (Inr fetched, s0) \<and>
       exits_first (pool_body nd payment_addr pool_cert_path del_certs owner_stake_skeys)
         (\<lambda>v t. utxo_total v > min_fee v + 0)
         (sort_utxos fetched) pool_init (snd (load_protocol_parameters nd s0)) v s3 \<and>
       tx_in body3 = tx_in_str v \<and> fee body3 = min_fee v \<and>
       tx_out body3 = [(payment_addr, utxo_total v - min_fee v - 0)]"
    by blast
qed

theorem pool_registration_exit_adds_ten_witness:
  "rsp_build demo_node ''pool.cert'' [''deleg.cert''] [''owner.skey''] 4829995 ''me''
     ''reg_pool_2021-03-01_12h00m00s'' demo_state =
     (Inr (\<lparr>folder = ''/w'', stem = ''reg_pool_2021-03-01_12h00m00s'', suffix = ''.raw''\<rparr>,
           \<lparr>tx_in = [(''bb'', ''1''), (''aa'', ''0'')], tx_out = [(''me'', 3000005)],
             ttl = 1500, fee = 170000, certificate_files = [''pool.cert'', ''deleg.cert''],
             withdrawal = None\<rparr>),
      demo_state\<lparr>protocol_parameters := Some demo_params, param_queries := 3\<rparr>) \<and>
   (\<exists>fetched s0 v.
       get_utxos demo_node ''me'' None demo_state = (Inr fetched, s0) \<and>
       exits_first (pool_body demo_node ''me'' ''pool.cert'' [''deleg.cert''] [''owner.skey''])
         (\<lambda>v t. utxo_total v > (min_fee v + 4829995) + 10)
         (sort_utxos fetched) pool_init (snd (load_protocol_parameters demo_node s0)) v
         (demo_state\<lparr>protocol_parameters := Some demo_params, param_queries := 3\<rparr>) \<and>
       [(''bb'', ''1''), (''aa'', ''0'')] = tx_in_str v \<and> 170000 = min_fee v \<and>
       [(''me'', 3000005)] = [(''me'', utxo_total v - min_fee v - 4829995)]) \<and>
   rsa_build demo_node ''me'' ''stake.cert'' ''reg_stake_key_2021-03-01_12h00m00s'' demo_state =
     (Inr (\<lparr>folder = ''/w'', stem = ''reg_stake_key_2021-03-01_12h00m00s'', suffix = ''.raw''\<rparr>,
           \<lparr>tx_in = [(''bb'', ''1'')], tx_out = [(''me'', 2830000)],
             ttl = 1500, fee = 170000, certificate_files = [''stake.cert''],
             withdrawal = None\<rparr>),
      demo_state\<lparr>protocol_parameters := Some demo_params, param_queries := 2\<rparr>) \<and>
   (\<exists>fetched s0 v params.
       get_utxos demo_node ''me'' None demo_state = (Inr fetched, s0) \<and>
       exits_first (rsa_body demo_node ''me'' ''stake.cert'')
         (\<lambda>v t. \<exists>p. protocol_parameters t = Some p \<and>
                    utxo_total v > min_fee v + stakeAddressDeposit p)
         (sort_utxos fetched) rsa_init (snd (load_protocol_parameters demo_node s0)) v
         (demo_state\<lparr>protocol_parameters := Some demo_params, param_queries := 2\<rparr>) \<and>
       Some demo_params = Some params \<and>
       [(''bb'', ''1'')] = tx_in_str v \<and> 170000 = min_fee v \<and>
       [(''me'', 2830000)] = [(''me'', utxo_total v - (min_fee v + stakeAddressDeposit params))]) \<and>
   uspr_build demo_node ''pool.cert'' [''deleg.cert''] [''owner.skey''] ''me''
     ''reg_pool_2021-03-01_12h00m00s'' demo_state =
     (Inr (\<lparr>folder = ''/w'', stem = ''reg_pool_2021-03-01_12h00m00s'', suffix = ''.raw''\<rparr>,
           \<lparr>tx_in = [(''bb'', ''1'')], tx_out = [(''me'', 4830000)],
             ttl = 1500, fee = 170000, certificate_files = [''pool.cert'', ''deleg.cert''],
             withdrawal = None\<rparr>),
      demo_state\<lparr>protocol_parameters := Some demo_params, param_queries := 2\<rparr>) \<and>
   (\<exists>fetched s0 v.
       get_utxos demo_node ''me'' None demo_state = (Inr fetched, s0) \<and>
       exits_first (pool_body demo_node ''me'' ''pool.cert'' [''deleg.cert''] [''owner.skey''])
         (\<lambda>v t. utxo_total v > min_fee v + 0)
         (sort_utxos fetched) pool_init (snd (load_protocol_parameters demo_node s0)) v
         (demo_state\<lparr>protocol_parameters := Some demo_params, param_queries := 2\<rparr>) \<and>
       [(''bb'', ''1'')] = tx_in_str v \<and> 170000 = min_fee v \<and>
       [(''me'', 4830000)] = [(''me'', utxo_total v - min_fee v - 0)])"
proof -
  note inst = pool_registration_exit_adds_ten[of demo_node "''pool.cert''" "[''deleg.cert'']"
      "[''owner.skey'']" _ "''me''" "''reg_pool_2021-03-01_12h00m00s''" demo_state _ _ _
      "''me''" "''stake.cert''"]
  from inst[THEN conjunct1, rule_format, OF demo_rsp_build]
    inst[THEN conjunct2, THEN conjunct1, rule_format, OF demo_rsa_build]
    inst[THEN conjunct2, THEN conjunct2, rule_format, OF demo_uspr_build]
    demo_rsp_build demo_rsa_build demo_uspr_build
  show ?thesis by simp
qed

section \<open>The protocol parameters during one build\<close>

text \<open>
  Claim C6, as amended. Within \<^verbatim>\<open>build_raw_transaction\<close> the protocol parameters are not
  fetched once: \<^verbatim>\<open>calc_min_fee\<close> queries the node again on every call, stores what it
  received in the \<^verbatim>\<open>protocol_parameters\<close> field and hands that snapshot to the fee
  command. A build that selects \<open>n\<close> inputs (one loop iteration each, at least one) queries
  the parameters \<open>1 + n\<close> times, and the field ends as the answer to the last query.
\<close>

theorem parameters_fetched_again_by_every_fee_estimation:
  "calc_min_fee nd tx_draft n_in n_out n_wit n_byron s =
     ((case str_split (calculate_min_fee nd (query_protocol_parameters nd (param_queries s))
                         tx_draft n_in n_out n_wit n_byron) of
         [] \<Rightarrow> Inl IndexError
       | w # _ \<Rightarrow> py_int w),
      s\<lparr>protocol_parameters := Some (query_protocol_parameters nd (param_queries s)),
        param_queries := Suc (param_queries s)\<rparr>) \<and>
   (build_raw_transaction nd payment_addr witness_count receive_addrs payments certs deposits
      cleanup s = (Inr (p, body), s') \<longrightarrow>
    0 < length (tx_in body) \<and>
    param_queries s' = param_queries s + 1 + length (tx_in body) \<and>
    protocol_parameters s' =
      Some (query_protocol_parameters nd (param_queries s + length (tx_in body))))"
proof (intro conjI impI)
  show "calc_min_fee nd tx_draft n_in n_out n_wit n_byron s =
     ((case str_split (calculate_min_fee nd (query_protocol_parameters nd (param_queries s))
                         tx_draft n_in n_out n_wit n_byron) of
         [] \<Rightarrow> Inl IndexError
       | w # _ \<Rightarrow> py_int w),
      s\<lparr>protocol_parameters := Some (query_protocol_parameters nd (param_queries s)),
        param_queries := Suc (param_queries s)\<rparr>)"
    by (rule calc_min_fee_reads_fresh)
next
  assume ok: "build_raw_transaction nd payment_addr witness_count receive_addrs payments certs
      deposits cleanup s = (Inr (p, body), s')"
  from brt_shape[OF ok] obtain fetched k where k: "0 < k" "k \<le> length fetched"
    "tx_in body = map tx_ref (take k (sort_utxos fetched))"
    "param_queries s' = param_queries s + 1 + k"
    "protocol_parameters s' = Some (query_protocol_parameters nd (param_queries s + k))"
    by blast
  have len: "length (tx_in body) = k" using k(2,3) by (simp add: sort_utxos_def)
  show "0 < length (tx_in body)" using k(1) len by simp
  show "param_queries s' = param_queries s + 1 + length (tx_in body)" using k(4) len by simp
  show "protocol_parameters s' =
      Some (query_protocol_parameters nd (param_queries s + length (tx_in body)))"
    using k(5) len by simp
qed

theorem parameters_fetched_again_by_every_fee_estimation_witness:
  "build_raw_transaction demo_node ''me'' 1 (Some [''you'']) (Some [5000000]) None 0 True
     demo_state =
     (Inr (\<lparr>folder = ''/w'', stem = ''tx_2021-03-01_12h00m00s'', suffix = ''.raw''\<rparr>,
           \<lparr>tx_in = [(''bb'', ''1''), (''aa'', ''0'')],
             tx_out = [(''me'', 2830000), (''you'', 5000000)],
             ttl = 1500, fee = 170000, certificate_files = [], withdrawal = None\<rparr>),
      demo_state\<lparr>protocol_parameters := Some demo_params, param_queries := 3,
                 removed := [''/w/tx_2021-03-01_12h00m00s.draft'']\<rparr>) \<and>
   param_queries (demo_state\<lparr>protocol_parameters := Some demo_params, param_queries := 3,
                 removed := [''/w/tx_2021-03-01_12h00m00s.draft'']\<rparr>) =
     param_queries demo_state + 1 + 2"
  using parameters_fetched_again_by_every_fee_estimation
          [THEN conjunct2, rule_format, OF demo_build] demo_build
  by simp

text \<open>
  Claim C6 as stated fails on a node whose parameters change between queries: the build
  below queries them three times, the field ends as the third answer, which differs from
  the first, and the fee of the result (180000) is the one the node computes from a later
  snapshot, not the one it computes from the snapshot fetched at the start (170000).
\<close>

theorem parameters_fetched_once_counterexample:
  "build_raw_transaction drifting_node ''me'' 1 (Some [''you'']) (Some [5000000]) None 0 True
     demo_state =
     (Inr (\<lparr>folder = ''/w'', stem = ''tx_2021-03-01_12h00m00s'', suffix = ''.raw''\<rparr>,
           \<lparr>tx_in = [(''bb'', ''1''), (''aa'', ''0'')],
             tx_out = [(''me'', 2820000), (''you'', 5000000)],
             ttl = 1500, fee = 180000, certificate_files = [], withdrawal = None\<rparr>),
      demo_state\<lparr>protocol_parameters := Some (demo_params\<lparr>eMax := 20\<rparr>), param_queries := 3,
                 removed := [''/w/tx_2021-03-01_12h00m00s.draft'']\<rparr>) \<and>
   param_queries demo_state = 0 \<and>
   query_protocol_parameters drifting_node 0 = demo_params \<and>
   demo_params \<noteq> demo_params\<lparr>eMax := 20\<rparr> \<and>
   calculate_min_fee drifting_node (query_protocol_parameters drifting_node 0)
     \<lparr>tx_in = [(''bb'', ''1''), (''aa'', ''0'')], tx_out = [(''me'', 0), (''you'', 0)],
       ttl = 0, fee = 0, certificate_files = [],
       withdrawal = None\<rparr> 2 1 1 0 = ''170000 Lovelace''"
proof -
  have run: "build_raw_transaction drifting_node ''me'' 1 (Some [''you'']) (Some [5000000]) None 0
     True demo_state =
     (Inr (\<lparr>folder = ''/w'', stem = ''tx_2021-03-01_12h00m00s'', suffix = ''.raw''\<rparr>,
           \<lparr>tx_in = [(''bb'', ''1''), (''aa'', ''0'')],
             tx_out = [(''me'', 2820000), (''you'', 5000000)],
             ttl = 1500, fee = 180000, certificate_files = [], withdrawal = None\<rparr>),
      demo_state\<lparr>protocol_parameters := Some (demo_params\<lparr>eMax := 20\<rparr>), param_queries := 3,
                 removed := [''/w/tx_2021-03-01_12h00m00s.draft'']\<rparr>)"
    using drifting_selection[of "''me''" "[(''you'', 0)]" "[]" 1
            "demo_state\<lparr>protocol_parameters := Some demo_params\<rparr>"]
    by (simp add: build_raw_transaction_def payment_args_def total_payments_of_def cert_args_of_def
        fmt_0f_exact demo_get_utxos_me demo_sort_me drifting_node_fields
        load_protocol_parameters_def brt_finish_def cleanup_file_def path_str_def
        sys_maxsize_def demo_state_def demo_params_def Let_def)
  show ?thesis
    using run by (simp add: demo_state_def demo_params_def drifting_node_def demo_node_def)
qed

section \<open>The change output\<close>

text \<open>
  Claim C4, as amended. Every transaction draft successfully assembled by
  \<^verbatim>\<open>build_raw_transaction\<close> has either \<open>change = 0\<close>, in which case no change output is
  emitted at all (the outputs are the payments), or a positive change of at least the
  \<^verbatim>\<open>minUTxOValue\<close> read at the start, emitted as the first output: the check after the loop
  rejects a change below the minimum only. Here \<open>change\<close> is the sum of the selected inputs
  minus fee, deposits and the sum of the payments.
\<close>

theorem change_is_zero_or_at_least_minimum:
  assumes "build_raw_transaction nd payment_addr witness_count receive_addrs payments certs
             deposits cleanup s = (Inr (p, body), s')"
  shows "\<exists>pz pargs fetched s1 k.
           payment_args receive_addrs payments = Inr (pz, pargs) \<and>
           get_utxos nd payment_addr (Some ''Lovelace'') s = (Inr fetched, s1) \<and>
           k \<le> length fetched \<and>
           tx_in body = map tx_ref (take k (sort_utxos fetched)) \<and>
           (let change = sum_list (map lovelace_int (take k (sort_utxos fetched)))
                         - (fee body + deposits + total_payments_of payments)
            in (change = 0 \<and> tx_out body = pargs) \<or>
               (0 < change \<and>
                minUTxOValue (query_protocol_parameters nd (param_queries s)) \<le> change \<and>
                tx_out body = (payment_addr, change) # pargs))"
proof -
  from brt_shape[OF assms] obtain pz pargs fetched s1 k where sh:
    "payment_args receive_addrs payments = Inr (pz, pargs)"
    "get_utxos nd payment_addr (Some ''Lovelace'') s = (Inr fetched, s1)"
    "k \<le> length fetched"
    "tx_in body = map tx_ref (take k (sort_utxos fetched))"
    "0 \<le> sum_list (map lovelace_int (take k (sort_utxos fetched)))
           - (fee body + deposits + total_payments_of payments)"
    "tx_out body =
       (if sum_list (map lovelace_int (take k (sort_utxos fetched)))
             - (fee body + deposits + total_payments_of payments) = 0 then []
        else [(payment_addr, sum_list (map lovelace_int (take k (sort_utxos fetched)))
                   - (fee body + deposits + total_payments_of payments))]) @ pargs"
    "sum_list (map lovelace_int (take k (sort_utxos fetched)))
           - (fee body + deposits + total_payments_of payments) = 0 \<or>
     minUTxOValue (query_protocol_parameters nd (param_queries s))
        \<le> sum_list (map lovelace_int (take k (sort_utxos fetched)))
           - (fee body + deposits + total_payments_of payments)"
    by blast
  define change where "change = sum_list (map lovelace_int (take k (sort_utxos fetched)))
                         - (fee body + deposits + total_payments_of payments)"
  from sh(5,6,7) have "(change = 0 \<and> tx_out body = pargs) \<or>
               (0 < change \<and>
                minUTxOValue (query_protocol_parameters nd (param_queries s)) \<le> change \<and>
                tx_out body = (payment_addr, change) # pargs)"
    unfolding change_def[symmetric] by (cases "change = 0") auto
  with sh(1-4) show ?thesis
    unfolding change_def Let_def by blast
qed

theorem change_is_zero_or_at_least_minimum_witness:
  "build_raw_transaction demo_node ''me'' 1 (Some [''you'']) (Some [5000000]) None 0 True
     demo_state =
     (Inr (\<lparr>folder = ''/w'', stem = ''tx_2021-03-01_12h00m00s'', suffix = ''.raw''\<rparr>,
           \<lparr>tx_in = [(''bb'', ''1''), (''aa'', ''0'')],
             tx_out = [(''me'', 2830000), (''you'', 5000000)],
             ttl = 1500, fee = 170000, certificate_files = [], withdrawal = None\<rparr>),
      demo_state\<lparr>protocol_parameters := Some demo_params, param_queries := 3,
                 removed := [''/w/tx_2021-03-01_12h00m00s.draft'']\<rparr>) \<and>
   (\<exists>pz pargs fetched s1 k.
      payment_args (Some [''you'']) (Some [5000000]) = Inr (pz, pargs) \<and>
      get_utxos demo_node ''me'' (Some ''Lovelace'') demo_state = (Inr fetched, s1) \<and>
      k \<le> length fetched \<and>
      [(''bb'', ''1''), (''aa'', ''0'')] = map tx_ref (take k (sort_utxos fetched)) \<and>
      (let change = sum_list (map lovelace_int (take k (sort_utxos fetched)))
                    - (170000 + 0 + total_payments_of (Some [5000000]))
       in (change = 0 \<and> [(''me'', 2830000), (''you'', 5000000)] = pargs) \<or>
          (0 < change \<and>
           minUTxOValue (query_protocol_parameters demo_node (param_queries demo_state)) \<le> change \<and>
           [(''me'', 2830000), (''you'', 5000000)] = (''me'', change) # pargs)))"
  using change_is_zero_or_at_least_minimum[OF demo_build] demo_build
  by simp

text \<open>
  Claim C4 as stated fails twice. \<^verbatim>\<open>build_raw_transaction\<close> emits a change equal to the
  minimum (1 ADA here), which is not strictly greater; and the selection loop of
  \<^verbatim>\<open>register_stake_address\<close> has no minimum check, so it emits a positive change below
  the minimum (0.33 ADA here).
\<close>

theorem no_dust_counterexample:
  "build_raw_transaction demo_node ''me'' 1 (Some [''you'']) (Some [8830000]) None 0 True
     demo_state =
     (Inr (\<lparr>folder = ''/w'', stem = ''tx_2021-03-01_12h00m00s'', suffix = ''.raw''\<rparr>,
           \<lparr>tx_in = [(''bb'', ''1''), (''aa'', ''0''), (''cc'', ''0'')],
             tx_out = [(''me'', 1000000), (''you'', 8830000)],
             ttl = 1500, fee = 170000, certificate_files = [], withdrawal = None\<rparr>),
      demo_state\<lparr>protocol_parameters := Some demo_params, param_queries := 4,
                 removed := [''/w/tx_2021-03-01_12h00m00s.draft'']\<rparr>) \<and>
   rsa_build demo_node ''poor'' ''stake.cert'' ''reg_stake_key_2021-03-01_12h00m00s'' demo_state =
     (Inr (\<lparr>folder = ''/w'', stem = ''reg_stake_key_2021-03-01_12h00m00s'', suffix = ''.raw''\<rparr>,
           \<lparr>tx_in = [(''dd'', ''0'')], tx_out = [(''poor'', 330000)],
             ttl = 1500, fee = 170000, certificate_files = [''stake.cert''],
             withdrawal = None\<rparr>),
      demo_state\<lparr>protocol_parameters := Some demo_params, param_queries := 2\<rparr>) \<and>
   minUTxOValue (query_protocol_parameters demo_node 0) = 1000000 \<and>
   \<not> (1000000 > minUTxOValue (query_protocol_parameters demo_node 0)) \<and>
   \<not> (330000 > minUTxOValue (query_protocol_parameters demo_node 0))"
  using demo_build_exact_minimum demo_rsa_build_poor
  by (simp add: demo_node_def demo_params_def)

section \<open>The balance of an assembled draft\<close>




section \<open>Offline builds\<close>

text \<open>
  Claim C9, as amended. For every build operation invoked with \<^verbatim>\<open>offline=True\<close>, whether
  it succeeds or fails, the submit operation is never invoked; when the operation succeeds
  it returns nothing (\<^verbatim>\<open>None\<close>), and the path of the signed transaction artifact is the
  last line printed (\<^verbatim>\<open>Signed transaction file saved to: ...\<close>) instead of being returned.
  The operations with an \<^verbatim>\<open>offline\<close> flag are the six below: \<^verbatim>\<open>send_payment\<close>,
  \<^verbatim>\<open>register_stake_address\<close>, \<^verbatim>\<open>register_stake_pool\<close>,
  \<^verbatim>\<open>update_stake_pool_registration\<close>, \<^verbatim>\<open>claim_staking_rewards\<close> and \<^verbatim>\<open>empty_account\<close>.
\<close>

theorem offline_build_prints_path_and_never_submits:
  "(send_payment nd amt to_addr from_addr key_file True cleanup s = (r, s') \<longrightarrow>
      submit_calls s' = submit_calls s \<and>
      (\<forall>x. r = Inr x \<longrightarrow>
         x = None \<and>
         last (printed s') = ''Signed transaction file saved to: '' @
                             (''tx_'' @ timestamp nd @ ''.signed''))) \<and>
   (register_stake_address nd addr stake_vkey_file stake_skey_file pmt_skey_file True cleanup s =
      (r2, s2) \<longrightarrow>
      submit_calls s2 = submit_calls s \<and>
      (\<forall>x. r2 = Inr x \<longrightarrow>
         x = None \<and>
         last (printed s2) = ''Signed transaction file saved to: '' @
           path_str \<lparr>folder = working_dir s, stem = ''reg_stake_key_'' @ timestamp nd,
                     suffix = ''.signed''\<rparr>)) \<and>
   (register_stake_pool nd pool_cert_path del_certs owner_stake_skeys pool_deposit payment_addr
      True cleanup s = (r3, s3) \<longrightarrow>
      submit_calls s3 = submit_calls s \<and>
      (\<forall>x. r3 = Inr x \<longrightarrow>
         x = None \<and>
         last (printed s3) = ''Signed transaction file saved to: '' @
           path_str \<lparr>folder = working_dir s, stem = ''reg_pool_'' @ timestamp nd,
                     suffix = ''.signed''\<rparr>)) \<and>
   (update_stake_pool_registration nd pool_cert_path del_certs owner_stake_skeys payment_addr
      True cleanup s = (r4, s4) \<longrightarrow>
      submit_calls s4 = submit_calls s \<and>
      (\<forall>x. r4 = Inr x \<longrightarrow>
         x = None \<and>
         last (printed s4) = ''Signed transaction file saved to: '' @
           path_str \<lparr>folder = working_dir s, stem = ''reg_pool_'' @ timestamp nd,
                     suffix = ''.signed''\<rparr>)) \<and>
   (claim_staking_rewards nd stake_addr stake_skey receive_addr payment_skey payment_addr_arg
      True cleanup s = (r5, s5) \<longrightarrow>
      submit_calls s5 = submit_calls s \<and>
      (\<forall>x. r5 = Inr x \<longrightarrow>
         x = None \<and>
         last (printed s5) = ''Signed transaction file saved to: '' @
           path_str \<lparr>folder = working_dir s, stem = ''claim_rewards_'' @ timestamp nd,
                     suffix = ''.signed''\<rparr>)) \<and>
   (empty_account nd to_addr from_addr key_file True cleanup s = (r6, s6) \<longrightarrow>
      submit_calls s6 = submit_calls s \<and>
      (\<forall>x. r6 = Inr x \<longrightarrow>
         x = None \<and>
         last (printed s6) = ''Signed transaction file saved to: '' @
                             (''empty_acct_'' @ timestamp nd @ ''.signed'')))"
proof (intro conjI; rule impI)
  assume run: "send_payment nd amt to_addr from_addr key_file True cleanup s = (r, s')"
  obtain rb s1 where b: "build_raw_transaction nd from_addr 1 (Some [to_addr])
      (Some [amt * 1000000]) None 0 cleanup s = (rb, s1)"
    by (cases "build_raw_transaction nd from_addr 1 (Some [to_addr])
      (Some [amt * 1000000]) None 0 cleanup s")
  note fr = brt_frame[OF b]
  show "submit_calls s' = submit_calls s \<and>
      (\<forall>x. r = Inr x \<longrightarrow>
         x = None \<and>
         last (printed s') = ''Signed transaction file saved to: '' @
                             (''tx_'' @ timestamp nd @ ''.signed''))"
  proof (cases rb)
    case (Inl e)
    with run b fr show ?thesis by (auto simp: send_payment_def)
  next
    case (Inr pb)
    obtain p body where pb: "pb = (p, body)" by (cases pb)
    with Inr fr have st: "stem p = ''tx_'' @ timestamp nd" by simp
    show ?thesis
    proof (cases "sign nd p [key_file] = []")
      case True
      with run b Inr pb fr st show ?thesis
        by (auto simp: send_payment_def sign_transaction_def submit_or_print_offline
              cleanup_file_def Let_def)
    next
      case False
      with run b Inr pb fr show ?thesis
        by (auto simp: send_payment_def sign_transaction_def Let_def)
    qed
  qed
next
  assume run: "register_stake_address nd addr stake_vkey_file stake_skey_file pmt_skey_file True
      cleanup s = (r2, s2)"
  let ?name = "''reg_stake_key_'' @ timestamp nd"
  let ?cert = "path_str (stake_vkey_file\<lparr>suffix := ''.cert''\<rparr>)"
  obtain rb s1 where b: "rsa_build nd addr ?cert ?name s = (rb, s1)"
    by (cases "rsa_build nd addr ?cert ?name s")
  note fr = rsa_frame[OF b]
  show "submit_calls s2 = submit_calls s \<and>
      (\<forall>x. r2 = Inr x \<longrightarrow>
         x = None \<and>
         last (printed s2) = ''Signed transaction file saved to: '' @
           path_str \<lparr>folder = working_dir s, stem = ''reg_stake_key_'' @ timestamp nd,
                     suffix = ''.signed''\<rparr>)"
  proof (cases rb)
    case (Inl e)
    with run b fr show ?thesis by (auto simp: register_stake_address_def Let_def)
  next
    case (Inr pb)
    obtain p body where pb: "pb = (p, body)" by (cases pb)
    from run b Inr pb have "sign_and_send nd ?name True cleanup s1 = (r2, s2)"
      by (simp add: register_stake_address_def Let_def)
    from sign_and_send_offline[OF this] fr show ?thesis by auto
  qed
next
  assume run: "register_stake_pool nd pool_cert_path del_certs owner_stake_skeys pool_deposit
      payment_addr True cleanup s = (r3, s3)"
  let ?name = "''reg_pool_'' @ timestamp nd"
  obtain rb s1 where b: "rsp_build nd pool_cert_path del_certs owner_stake_skeys pool_deposit
      payment_addr ?name s = (rb, s1)"
    by (cases "rsp_build nd pool_cert_path del_certs owner_stake_skeys pool_deposit
      payment_addr ?name s")
  note fr = rsp_frame[OF b]
  show "submit_calls s3 = submit_calls s \<and>
      (\<forall>x. r3 = Inr x \<longrightarrow>
         x = None \<and>
         last (printed s3) = ''Signed transaction file saved to: '' @
           path_str \<lparr>folder = working_dir s, stem = ''reg_pool_'' @ timestamp nd,
                     suffix = ''.signed''\<rparr>)"
  proof (cases rb)
    case (Inl e)
    with run b fr show ?thesis by (auto simp: register_stake_pool_def Let_def)
  next
    case (Inr pb)
    obtain p body where pb: "pb = (p, body)" by (cases pb)
    from run b Inr pb have "sign_and_send nd ?name True cleanup s1 = (r3, s3)"
      by (simp add: register_stake_pool_def Let_def)
    from sign_and_send_offline[OF this] fr show ?thesis by auto
  qed
next
  assume run: "update_stake_pool_registration nd pool_cert_path del_certs owner_stake_skeys
      payment_addr True cleanup s = (r4, s4)"
  let ?name = "''reg_pool_'' @ timestamp nd"
  obtain rb s1 where b: "uspr_build nd pool_cert_path del_certs owner_stake_skeys
      payment_addr ?name s = (rb, s1)"
    by (cases "uspr_build nd pool_cert_path del_certs owner_stake_skeys payment_addr ?name s")
  note fr = uspr_frame[OF b]
  show "submit_calls s4 = submit_calls s \<and>
      (\<forall>x. r4 = Inr x \<longrightarrow>
         x = None \<and>
         last (printed s4) = ''Signed transaction file saved to: '' @
           path_str \<lparr>folder = working_dir s, stem = ''reg_pool_'' @ timestamp nd,
                     suffix = ''.signed''\<rparr>)"
  proof (cases rb)
    case (Inl e)
    with run b fr show ?thesis by (auto simp: update_stake_pool_registration_def Let_def)
  next
    case (Inr pb)
    obtain p body where pb: "pb = (p, body)" by (cases pb)
    from run b Inr pb have "sign_and_send nd ?name True cleanup s1 = (r4, s4)"
      by (simp add: update_stake_pool_registration_def Let_def)
    from sign_and_send_offline[OF this] fr show ?thesis by auto
  qed
next
  assume run: "claim_staking_rewards nd stake_addr stake_skey receive_addr payment_skey
      payment_addr_arg True cleanup s = (r5, s5)"
  let ?name = "''claim_rewards_'' @ timestamp nd"
  obtain rb s1 where b: "csr_build nd stake_addr receive_addr payment_addr_arg ?name s = (rb, s1)"
    by (cases "csr_build nd stake_addr receive_addr payment_addr_arg ?name s")
  note fr = csr_frame[OF b]
  show "submit_calls s5 = submit_calls s \<and>
      (\<forall>x. r5 = Inr x \<longrightarrow>
         x = None \<and>
         last (printed s5) = ''Signed transaction file saved to: '' @
           path_str \<lparr>folder = working_dir s, stem = ''claim_rewards_'' @ timestamp nd,
                     suffix = ''.signed''\<rparr>)"
  proof (cases rb)
    case (Inl e)
    with run b fr show ?thesis by (auto simp: claim_staking_rewards_def Let_def)
  next
    case (Inr pb)
    obtain p body where pb: "pb = (p, body)" by (cases pb)
    from run b Inr pb have "sign_and_send nd ?name True cleanup s1 = (r5, s5)"
      by (simp add: claim_staking_rewards_def Let_def)
    from sign_and_send_offline[OF this] fr show ?thesis by auto
  qed
next
  assume run: "empty_account nd to_addr from_addr key_file True cleanup s = (r6, s6)"
  let ?name = "''empty_acct_'' @ timestamp nd"
  obtain rb s1 where b: "ea_build nd to_addr from_addr ?name s = (rb, s1)"
    by (cases "ea_build nd to_addr from_addr ?name s")
  note fr = ea_frame[OF b]
  show "submit_calls s6 = submit_calls s \<and>
      (\<forall>x. r6 = Inr x \<longrightarrow>
         x = None \<and>
         last (printed s6) = ''Signed transaction file saved to: '' @
                             (''empty_acct_'' @ timestamp nd @ ''.signed''))"
  proof (cases rb)
    case (Inl e)
    with run b fr show ?thesis by (auto simp: empty_account_def Let_def)
  next
    case (Inr pb)
    obtain p body where pb: "pb = (p, body)" by (cases pb)
    with Inr fr have st: "stem p = ''empty_acct_'' @ timestamp nd" by simp
    show ?thesis
    proof (cases "sign nd p [key_file] = []")
      case True
      with run b Inr pb fr st show ?thesis
        by (auto simp: empty_account_def sign_transaction_def submit_or_print_offline
              cleanup_file_def Let_def)
    next
      case False
      with run b Inr pb fr show ?thesis
        by (auto simp: empty_account_def sign_transaction_def Let_def)
    qed
  qed
qed

theorem offline_build_prints_path_and_never_submits_witness:
  "send_payment demo_node 5 ''you'' ''me'' ''me.skey'' True True demo_state =
     (Inr None,
      demo_state\<lparr>protocol_parameters := Some demo_params, param_queries := 3,
        removed := [''/w/tx_2021-03-01_12h00m00s.draft'', ''/w/tx_2021-03-01_12h00m00s.raw''],
        printed := [''Signed transaction file saved to: tx_2021-03-01_12h00m00s.signed'']\<rparr>) \<and>
   submit_calls
     (demo_state\<lparr>protocol_parameters := Some demo_params, param_queries := 3,
        removed := [''/w/tx_2021-03-01_12h00m00s.draft'', ''/w/tx_2021-03-01_12h00m00s.raw''],
        printed := [''Signed transaction file saved to: tx_2021-03-01_12h00m00s.signed'']\<rparr>)
     = submit_calls demo_state \<and>
   register_stake_address demo_node ''poor''
     \<lparr>folder = ''/keys'', stem = ''stake'', suffix = ''.vkey''\<rparr> ''/keys/stake.skey''
     ''/keys/pay.skey'' True True demo_state =
     (Inr None,
      demo_state\<lparr>protocol_parameters := Some demo_params, param_queries := 2,
        removed := [''/w/reg_stake_key_2021-03-01_12h00m00s.draft'',
                    ''/w/reg_stake_key_2021-03-01_12h00m00s.raw''],
        printed := [''Signed transaction file saved to: /w/reg_stake_key_2021-03-01_12h00m00s.signed'']\<rparr>) \<and>
   submit_calls
     (demo_state\<lparr>protocol_parameters := Some demo_params, param_queries := 2,
        removed := [''/w/reg_stake_key_2021-03-01_12h00m00s.draft'',
                    ''/w/reg_stake_key_2021-03-01_12h00m00s.raw''],
        printed := [''Signed transaction file saved to: /w/reg_stake_key_2021-03-01_12h00m00s.signed'']\<rparr>)
     = submit_calls demo_state \<and>
   register_stake_pool demo_node ''pool.cert'' [''deleg.cert''] [''owner.skey''] 4829995 ''me''
     True True demo_state =
     (Inr None,
      demo_state\<lparr>protocol_parameters := Some demo_params, param_queries := 3,
        removed := [''/w/reg_pool_2021-03-01_12h00m00s.draft'',
                    ''/w/reg_pool_2021-03-01_12h00m00s.raw''],
        printed := [''Signed transaction file saved to: /w/reg_pool_2021-03-01_12h00m00s.signed'']\<rparr>) \<and>
   submit_calls
     (demo_state\<lparr>protocol_parameters := Some demo_params, param_queries := 3,
        removed := [''/w/reg_pool_2021-03-01_12h00m00s.draft'',
                    ''/w/reg_pool_2021-03-01_12h00m00s.raw''],
        printed := [''Signed transaction file saved to: /w/reg_pool_2021-03-01_12h00m00s.signed'']\<rparr>)
     = submit_calls demo_state \<and>
   update_stake_pool_registration demo_node ''pool.cert'' [''deleg.cert''] [''owner.skey''] ''me''
     True True demo_state =
     (Inr None,
      demo_state\<lparr>protocol_parameters := Some demo_params, param_queries := 2,
        removed := [''/w/reg_pool_2021-03-01_12h00m00s.draft'',
                    ''/w/reg_pool_2021-03-01_12h00m00s.raw''],
        printed := [''Signed transaction file saved to: /w/reg_pool_2021-03-01_12h00m00s.signed'']\<rparr>) \<and>
   submit_calls
     (demo_state\<lparr>protocol_parameters := Some demo_params, param_queries := 2,
        removed := [''/w/reg_pool_2021-03-01_12h00m00s.draft'',
                    ''/w/reg_pool_2021-03-01_12h00m00s.raw''],
        printed := [''Signed transaction file saved to: /w/reg_pool_2021-03-01_12h00m00s.signed'']\<rparr>)
     = submit_calls demo_state \<and>
   claim_staking_rewards demo_node ''stake'' ''stake.skey'' ''me'' ''me.skey'' None
     True True demo_state =
     (Inr None,
      demo_state\<lparr>protocol_parameters := Some demo_params, param_queries := 2,
        removed := [''/w/claim_rewards_2021-03-01_12h00m00s.draft'',
                    ''/w/claim_rewards_2021-03-01_12h00m00s.raw''],
        printed := [''Signed transaction file saved to: /w/claim_rewards_2021-03-01_12h00m00s.signed'']\<rparr>) \<and>
   submit_calls
     (demo_state\<lparr>protocol_parameters := Some demo_params, param_queries := 2,
        removed := [''/w/claim_rewards_2021-03-01_12h00m00s.draft'',
                    ''/w/claim_rewards_2021-03-01_12h00m00s.raw''],
        printed := [''Signed transaction file saved to: /w/claim_rewards_2021-03-01_12h00m00s.signed'']\<rparr>)
     = submit_calls demo_state \<and>
   empty_account demo_node ''you'' ''me'' ''me.skey'' True True demo_state =
     (Inr None,
      demo_state\<lparr>protocol_parameters := Some demo_params, param_queries := 1,
        removed := [''/w/empty_acct_2021-03-01_12h00m00s.raw''],
        printed := [''Signed transaction file saved to: empty_acct_2021-03-01_12h00m00s.signed'']\<rparr>) \<and>
   submit_calls
     (demo_state\<lparr>protocol_parameters := Some demo_params, param_queries := 1,
        removed := [''/w/empty_acct_2021-03-01_12h00m00s.raw''],
        printed := [''Signed transaction file saved to: empty_acct_2021-03-01_12h00m00s.signed'']\<rparr>)
     = submit_calls demo_state"
proof -
  note inst = offline_build_prints_path_and_never_submits
  note c1 = inst[THEN conjunct1, rule_format, OF demo_send_payment_offline]
  note c2 = inst[THEN conjunct2, THEN conjunct1, rule_format,
                 OF demo_register_stake_address_offline]
  note c3 = inst[THEN conjunct2, THEN conjunct2, THEN conjunct1, rule_format,
                 OF demo_register_stake_pool_offline]
  note c4 = inst[THEN conjunct2, THEN conjunct2, THEN conjunct2, THEN conjunct1, rule_format,
                 OF demo_update_stake_pool_registration_offline]
  note c5 = inst[THEN conjunct2, THEN conjunct2, THEN conjunct2, THEN conjunct2, THEN conjunct1,
                 rule_format, OF demo_claim_staking_rewards_offline]
  note c6 = inst[THEN conjunct2, THEN conjunct2, THEN conjunct2, THEN conjunct2, THEN conjunct2,
                 rule_format, OF demo_empty_account_offline]
  from c1 c2 c3 c4 c5 c6
       demo_send_payment_offline demo_register_stake_address_offline
       demo_register_stake_pool_offline demo_update_stake_pool_registration_offline
       demo_claim_staking_rewards_offline demo_empty_account_offline
  show ?thesis by blast
qed

text \<open>
  Claim C9 as stated fails in its second half: the operations have no \<^verbatim>\<open>return\<close>
  statement, so an offline \<^verbatim>\<open>send_payment\<close> gives back \<^verbatim>\<open>None\<close>, not the path of the
  signed file; the path is only printed.
\<close>

theorem offline_build_returns_path_counterexample:
  "send_payment demo_node 5 ''you'' ''me'' ''me.skey'' True True demo_state =
     (Inr None,
      demo_state\<lparr>protocol_parameters := Some demo_params, param_queries := 3,
        removed := [''/w/tx_2021-03-01_12h00m00s.draft'', ''/w/tx_2021-03-01_12h00m00s.raw''],
        printed := [''Signed transaction file saved to: tx_2021-03-01_12h00m00s.signed'']\<rparr>) \<and>
   fst (send_payment demo_node 5 ''you'' ''me'' ''me.skey'' True True demo_state) \<noteq>
     Inr (Some ''tx_2021-03-01_12h00m00s.signed'')"
  using demo_send_payment_offline by simp

section \<open>The order of the selection\<close>

text \<open>
  Claim C3 says that the list the selection loop iterates over is sorted in descending
  order by Lovelace amount, equal amounts keeping their query order. The sort key is the
  string of the row, not its number, so the code departs from the claim when the amounts
  differ in their number of digits: for the outputs of 10 ADA and 9 ADA at \<open>mixed\<close> the
  loop receives the 9 ADA output first.
\<close>

theorem sorted_by_text_not_by_amount:
  "get_utxos demo_node ''mixed'' (Some ''Lovelace'') demo_state =
     (Inr [lovelace_utxo ''ee'' ''0'' ''10000000'', lovelace_utxo ''ff'' ''0'' ''9000000''],
      demo_state) \<and>
   sort_utxos [lovelace_utxo ''ee'' ''0'' ''10000000'', lovelace_utxo ''ff'' ''0'' ''9000000''] =
     [lovelace_utxo ''ff'' ''0'' ''9000000'', lovelace_utxo ''ee'' ''0'' ''10000000''] \<and>
   map lovelace_int
     (sort_utxos [lovelace_utxo ''ee'' ''0'' ''10000000'', lovelace_utxo ''ff'' ''0'' ''9000000''])
     = [9000000, 10000000]"
  unfolding demo_sort_mixed demo_amounts_mixed
  using demo_get_utxos_mixed by simp

section \<open>The classification of a failed selection\<close>

text \<open>
  Claim C5 says that when the selection loop exhausts all UTXOs without covering the
  required amount, an address with no UTXOs gives the empty-account error and any other
  address the insufficient-funds error. The code recognises the empty account by
  \<^verbatim>\<open>lovelaces_out == sys.maxsize\<close>, the initial value of the variable, so it departs from
  the claim when the required amount itself is \<^verbatim>\<open>sys.maxsize\<close>: \<open>me\<close> holds three
  outputs, and the build below still ends with the empty-account error.
\<close>

theorem insufficient_funds_reported_as_empty_account:
  "get_utxos demo_node ''me'' (Some ''Lovelace'') demo_state =
     (Inr [lovelace_utxo ''aa'' ''0'' ''3000000'', lovelace_utxo ''bb'' ''1'' ''5000000'',
           lovelace_utxo ''cc'' ''0'' ''2000000''], demo_state) \<and>
   sys_maxsize - 170000 = 9223372036854605807 \<and>
   fst (build_raw_transaction demo_node ''me'' 1 (Some [''you'']) (Some [sys_maxsize - 170000])
          None 0 True demo_state) = Inl (ShelleyError (EmptyAccount ''me''))"
  by (simp add: build_raw_transaction_def payment_args_def total_payments_of_def cert_args_of_def
        fmt_0f_sentinel demo_get_utxos_me demo_sort_me demo_node_fields
        load_protocol_parameters_def demo_selection_sentinel brt_finish_def
        sys_maxsize_def demo_state_fields demo_params_def Let_def)

section \<open>Failures of the UTXO query\<close>

text \<open>
  Claim C7 says that \<^verbatim>\<open>get_utxos\<close> either returns a parsed list or fails with the
  classified query error, and never ends with an unclassified error. The code departs from
  it: a row with fewer than three columns ends in Python's \<^verbatim>\<open>IndexError\<close>, and a query
  that failed (empty standard output, a message on the error stream) returns the empty list
  with no error at all.
\<close>

theorem get_utxos_unclassified_failure:
  "query_utxo demo_node ''short'' =
     \<lparr>stdout = ''TxHash TxIx Amount\<newline>------\<newline>gg 0'', stderr = []\<rparr> \<and>
   get_utxos demo_node ''short'' None demo_state = (Inl IndexError, demo_state) \<and>
   query_utxo demo_node ''down'' =
     \<lparr>stdout = [], stderr = ''cardano-cli: connect: does not exist''\<rparr> \<and>
   get_utxos demo_node ''down'' None demo_state = (Inr [], demo_state)"
  using demo_get_utxos_short demo_get_utxos_down demo_queries by blast

end
